theory Spec2Isabelle
  imports Main "HOL-Library.AList"
begin

section \<open>Policy condition trees and the script reference walk\<close>

text \<open>
  A \<open>PolicyCondition\<close> is a JavaScript object of which \<open>findScriptUuids\<close> reads four
  properties: \<open>type\<close>, \<open>condition\<close>, \<open>conditions\<close> and \<open>scriptId\<close>. Each of them may be
  absent; \<open>None\<close> stands for \<open>undefined\<close>. The empty object \<open>{}\<close> is the node with the
  four properties absent.
\<close>

datatype condition =
  Condition (ctype: "string option") (ccondition: "condition option")
    (cconditions: "condition list option") (cscriptId: "string option")

text \<open>
  \<open>[...new Set(xs)]\<close>: a JavaScript \<open>Set\<close> keeps the first occurrence of every value,
  in insertion order.
\<close>

definition js_set_spread :: "'a list \<Rightarrow> 'a list" where
  "js_set_spread xs = fold (\<lambda>x acc. if x \<in> set acc then acc else acc @ [x]) xs []"

text \<open>
  \<open>findScriptUuids\<close> (PolicyOps.ts): the argument \<open>None\<close> is \<open>null\<close> or \<open>undefined\<close>
  (\<open>if (!condition) return scriptUuids\<close>). The result lists the values pushed, so an entry
  \<open>None\<close> is the \<open>undefined\<close> pushed for a \<open>Script\<close> node that has no \<open>scriptId\<close>.
\<close>

fun findScriptUuids :: "condition option \<Rightarrow> string option list" where
  "findScriptUuids None = []"
| "findScriptUuids (Some (Condition t c cs sid)) =
     js_set_spread
       (if t = Some ''AND'' \<or> t = Some ''OR'' \<or> t = Some ''NOT'' then
          (case c of None \<Rightarrow> [] | Some d \<Rightarrow> findScriptUuids (Some d)) @
          (case cs of None \<Rightarrow> []
           | Some ds \<Rightarrow> concat (map (\<lambda>d. findScriptUuids (Some d)) ds))
        else if t = Some ''Script'' then [sid]
        else [])"

section \<open>JavaScript values, errors and the remote collaborators\<close>

text \<open>
  Configuration objects that the code walks generically (OAuth2 clients, override maps)
  are JSON values. An object is the list of its own properties in iteration order, with
  distinct keys. An array lists its elements; \<open>None\<close> is a hole, which \<open>delete\<close> leaves
  behind. Numbers are left out: where one may occur (a script reference, a property of a
  client) the code modelled here treats it as it treats the string of its numeral, the
  truthiness of zero apart.
\<close>

datatype json =
    JNull
  | JBool bool
  | JStr string
  | JArr "json option list"
  | JObj "(string \<times> json) list"

text \<open>Truthiness of a value; \<open>None\<close> is \<open>undefined\<close>.\<close>

fun truthy :: "json option \<Rightarrow> bool" where
  "truthy None = False"
| "truthy (Some JNull) = False"
| "truthy (Some (JBool b)) = b"
| "truthy (Some (JStr s)) = (s \<noteq> [])"
| "truthy (Some (JArr xs)) = True"
| "truthy (Some (JObj kvs)) = True"

text \<open>
  The string a value becomes as a property key or inside a template literal. An array
  joins the strings of its elements with commas, where \<open>null\<close>, \<open>undefined\<close> and holes
  give the empty string.
\<close>

fun join_comma :: "string list \<Rightarrow> string" where
  "join_comma [] = []"
| "join_comma [x] = x"
| "join_comma (x # y # rest) = x @ '','' @ join_comma (y # rest)"

fun js_text :: "json \<Rightarrow> string" where
  "js_text JNull = ''null''"
| "js_text (JBool b) = (if b then ''true'' else ''false'')"
| "js_text (JStr s) = s"
| "js_text (JArr xs) =
     join_comma (map (\<lambda>x. case x of None \<Rightarrow> [] | Some v \<Rightarrow> if v = JNull then [] else js_text v) xs)"
| "js_text (JObj kvs) = ''[object Object]''"

definition js_string :: "json option \<Rightarrow> string" where
  "js_string x = (case x of None \<Rightarrow> ''undefined'' | Some v \<Rightarrow> js_text v)"

definition str_or_undefined :: "string option \<Rightarrow> string" where
  "str_or_undefined u = js_string (map_option JStr u)"

definition truthy_str :: "string option \<Rightarrow> bool" where
  "truthy_str u = truthy (map_option JStr u)"

definition endsWith :: "string \<Rightarrow> string \<Rightarrow> bool" where
  "endsWith key s = (length s \<le> length key \<and> drop (length key - length s) key = s)"

text \<open>
  Array indices as property keys: the decimal numeral of a number, and the number that a
  key is the canonical numeral of, if it is one below \<open>2^32 - 1\<close>.
\<close>

definition digits :: "(char \<times> nat) list" where
  "digits =
     [(CHR ''0'', 0), (CHR ''1'', 1), (CHR ''2'', 2), (CHR ''3'', 3), (CHR ''4'', 4),
      (CHR ''5'', 5), (CHR ''6'', 6), (CHR ''7'', 7), (CHR ''8'', 8), (CHR ''9'', 9)]"

definition digit_char :: "nat \<Rightarrow> char" where
  "digit_char d = fst (digits ! d)"

fun string_of_nat :: "nat \<Rightarrow> string" where
  "string_of_nat n =
     (if n < 10 then [digit_char n] else string_of_nat (n div 10) @ [digit_char (n mod 10)])"

declare string_of_nat.simps [simp del]

definition digit_value :: "char \<Rightarrow> nat option" where
  "digit_value c = map_of digits c"

fun nat_of_digits :: "nat \<Rightarrow> string \<Rightarrow> nat option" where
  "nat_of_digits acc [] = Some acc"
| "nat_of_digits acc (c # cs) =
     (case digit_value c of None \<Rightarrow> None | Some d \<Rightarrow> nat_of_digits (10 * acc + d) cs)"

definition index_of :: "string \<Rightarrow> nat option" where
  "index_of key =
     (if key = [] then None
      else if hd key = CHR ''0'' \<and> tl key \<noteq> [] then None
      else case nat_of_digits 0 key of
             None \<Rightarrow> None
           | Some n \<Rightarrow> if n < 4294967295 then Some n else None)"

text \<open>
  \<open>obj[key]\<close> on a plain object (an object literal, or one parsed from JSON): the own
  property if there is one, else the member of that name inherited from
  \<open>Object.prototype\<close>, else \<open>undefined\<close>. Every inherited member is a function or an object,
  so it is truthy.
\<close>

datatype 'a looked_up = Own 'a | Inherited string | Missing

definition object_prototype :: "string list" where
  "object_prototype =
     [''constructor'', ''__defineGetter__'', ''__defineSetter__'', ''hasOwnProperty'',
      ''__lookupGetter__'', ''__lookupSetter__'', ''isPrototypeOf'', ''propertyIsEnumerable'',
      ''toString'', ''valueOf'', ''__proto__'', ''toLocaleString'']"

definition js_get :: "(string \<times> 'a) list \<Rightarrow> string \<Rightarrow> 'a looked_up" where
  "js_get obj key =
     (case map_of obj key of
        Some v \<Rightarrow> Own v
      | None \<Rightarrow> if key \<in> set object_prototype then Inherited key else Missing)"

text \<open>
  \<open>obj[key] = v\<close> on a plain object. An existing own property keeps its place. A new one
  is listed by \<open>Object.keys\<close> among the array indices, in ascending order and before every
  other key, when its key is an index, and last otherwise. The key \<open>__proto__\<close>, when it
  is not an own property, sets the prototype and adds no own property; no operation below
  looks a key up in an object after such an assignment to it, so the objects are taken to
  keep \<open>Object.prototype\<close>.
\<close>

definition js_set :: "string \<Rightarrow> 'a \<Rightarrow> (string \<times> 'a) list \<Rightarrow> (string \<times> 'a) list" where
  "js_set key v obj =
     (if key \<in> fst ` set obj then AList.update key v obj
      else if key = ''__proto__'' then obj
      else case index_of key of
             None \<Rightarrow> obj @ [(key, v)]
           | Some n \<Rightarrow>
               takeWhile (\<lambda>(k, x). case index_of k of Some m \<Rightarrow> m < n | None \<Rightarrow> False) obj @
               (key, v) #
               dropWhile (\<lambda>(k, x). case index_of k of Some m \<Rightarrow> m < n | None \<Rightarrow> False) obj)"

text \<open>
  What the code reads on an error raised by a collaborator: \<open>error.response?.status\<close>,
  \<open>error.response?.data?.message\<close>, \<open>error.response.data.detail.validAttributes\<close>, and the
  \<open>httpStatus\<close> and \<open>httpMessage\<close> properties of a \<open>FrodoError\<close>. The errors that the
  code itself creates are a \<open>TypeError\<close> of the runtime, \<open>new Error(message)\<close> and
  \<open>new FrodoError(message, causes)\<close>, the latter kept as the message and the list of the
  causes it was given.
\<close>

record thrown =
  response_status :: "nat option"
  response_message :: "string option"
  validAttributes :: "string list option"
  httpStatus :: "nat option"
  httpMessage :: "string option"

datatype error =
    Thrown thrown
  | TypeError
  | JsError string
  | FrodoError string "error list"

datatype script_text = ScriptText string | ScriptLines "string list"

record script =
  s_id :: string
  s_script :: script_text

type_synonym resourcetype = json
type_synonym policyset = json
type_synonym client = "(string \<times> json) list"

record policy =
  p_id :: string
  p_rev :: "string option"
  p_name :: "string option"
  applicationName :: "string option"
  resourceTypeUuid :: "string option"
  p_condition :: "condition option"

text \<open>
  Every call of a collaborator (the REST layer and the operations of other modules) is
  recorded in a trace. A collaborator answers from the calls made so far and its
  arguments, which covers every deterministic remote store. The data handed to the three
  update operations of other modules is what the lookup in the bundle gave. Collaborators
  are taken not to
  modify their arguments. The progress indicator and debug messages are left out. The realm
  name, the export metadata and the conversion of a script text to a line array come from
  modules outside these two files and are parameters as well.
\<close>

datatype call =
    GetPolicy string
  | PutPolicy string policy
  | GetPolicies
  | GetPoliciesByPolicySet string
  | GetResourceType string
  | ReadPolicySet string
  | ReadScript "json option"
  | UpdateScript "json option" "script looked_up"
  | UpdateResourceType "string option" "resourcetype looked_up"
  | UpdatePolicySet "policyset looked_up"
  | GetOAuth2Clients
  | GetOAuth2Client string
  | PutOAuth2Client string client
  | ReadOAuth2Provider

record remote =
  getCurrentRealmName :: string
  getMetadata :: string
  convertBase64TextToArray :: "script_text \<Rightarrow> string list"
  api_getPolicy :: "call list \<Rightarrow> string \<Rightarrow> thrown + policy"
  api_putPolicy :: "call list \<Rightarrow> string \<Rightarrow> policy \<Rightarrow> thrown + policy"
  api_getPolicies :: "call list \<Rightarrow> thrown + policy list"
  api_getPoliciesByPolicySet :: "call list \<Rightarrow> string \<Rightarrow> thrown + policy list"
  getResourceType :: "call list \<Rightarrow> string \<Rightarrow> thrown + resourcetype"
  readPolicySet :: "call list \<Rightarrow> string \<Rightarrow> thrown + policyset"
  readScript :: "call list \<Rightarrow> json option \<Rightarrow> thrown + script"
  updateScript :: "call list \<Rightarrow> json option \<Rightarrow> script looked_up \<Rightarrow> thrown + script"
  updateResourceType ::
    "call list \<Rightarrow> string option \<Rightarrow> resourcetype looked_up \<Rightarrow> thrown + resourcetype"
  updatePolicySet :: "call list \<Rightarrow> policyset looked_up \<Rightarrow> thrown + policyset"
  api_getOAuth2Clients :: "call list \<Rightarrow> thrown + client list"
  api_getOAuth2Client :: "call list \<Rightarrow> string \<Rightarrow> thrown + client"
  api_putOAuth2Client :: "call list \<Rightarrow> string \<Rightarrow> client \<Rightarrow> thrown + client"
  readOAuth2Provider :: "call list \<Rightarrow> thrown + json"

definition realm :: "remote \<Rightarrow> string" where
  "realm rm = getCurrentRealmName rm @ '' realm''"

definition not_available :: string where
  "not_available = ''This operation is not available in PingOne Advanced Identity Cloud.''"

section \<open>PolicyOps: bundles, options and single-object operations\<close>

record PolicyExportInterface =
  pb_meta :: "string option"
  pb_script :: "(string \<times> script) list"
  pb_resourcetype :: "(string \<times> resourcetype) list"
  pb_policy :: "(string \<times> policy) list"
  pb_policyset :: "(string \<times> policyset) list"

record PolicyExportOptions =
  pe_deps :: bool
  pe_prereqs :: bool
  pe_useStringArrays :: bool

record PolicyImportOptions =
  pi_deps :: bool
  pi_prereqs :: bool
  pi_policySetName :: "string option"




text \<open>
  \<open>createPolicy\<close>: the probe \<open>_getPolicy\<close> sits alone in the outer \<open>try\<close>; its \<open>catch\<close>
  writes with \<open>_putPolicy\<close>. The statement after the \<open>try\<close> raises a plain \<open>Error\<close>.
\<close>

definition createPolicy ::
  "remote \<Rightarrow> string \<Rightarrow> policy \<Rightarrow> call list \<Rightarrow> (error + policy) \<times> call list" where
  "createPolicy rm policyId policyData tr =
     (case api_getPolicy rm tr policyId of
        Inl probe_error \<Rightarrow>
          (case api_putPolicy rm (tr @ [GetPolicy policyId]) policyId policyData of
             Inr result \<Rightarrow> (Inr result, tr @ [GetPolicy policyId, PutPolicy policyId policyData])
           | Inl e \<Rightarrow>
               (Inl (FrodoError (''Error creating '' @ realm rm @ '' policy '' @ policyId)
                       [Thrown e]),
                tr @ [GetPolicy policyId, PutPolicy policyId policyData]))
      | Inr found \<Rightarrow>
          (Inl (JsError (''Policy '' @ policyId @ '' already exists!'')),
           tr @ [GetPolicy policyId]))"

definition updatePolicy ::
  "remote \<Rightarrow> string \<Rightarrow> policy \<Rightarrow> call list \<Rightarrow> (error + policy) \<times> call list" where
  "updatePolicy rm policyId policyData tr =
     (case api_putPolicy rm tr policyId policyData of
        Inr response \<Rightarrow> (Inr response, tr @ [PutPolicy policyId policyData])
      | Inl e \<Rightarrow>
          (Inl (FrodoError (''Error updating '' @ realm rm @ '' policy '' @ policyId)
                  [Thrown e]),
           tr @ [PutPolicy policyId policyData]))"

section \<open>PolicyOps: export\<close>










section \<open>PolicyOps: import\<close>

text \<open>
  \<open>importPolicyPrerequisites\<close>: a prerequisite is written when the lookup of the
  policy's \<open>resourceTypeUuid\<close> (\<open>applicationName\<close>) in the bundle gives a truthy value; an
  absent property looks up the key \<open>undefined\<close>. What the lookup gave is the data written.
\<close>

fun truthy_found :: "json looked_up \<Rightarrow> bool" where
  "truthy_found (Own v) = truthy (Some v)"
| "truthy_found (Inherited name) = True"
| "truthy_found Missing = False"

definition importPolicyPrerequisites ::
  "remote \<Rightarrow> policy \<Rightarrow> PolicyExportInterface \<Rightarrow> call list \<Rightarrow> error option \<times> call list" where
  "importPolicyPrerequisites rm policyData exportData tr =
     (let resourceTypeData =
            js_get (pb_resourcetype exportData) (str_or_undefined (resourceTypeUuid policyData));
          (errors1, tr1) =
            (if truthy_found resourceTypeData then
               (case updateResourceType rm tr (resourceTypeUuid policyData) resourceTypeData of
                  Inr r \<Rightarrow>
                    ([], tr @ [UpdateResourceType (resourceTypeUuid policyData) resourceTypeData])
                | Inl e \<Rightarrow>
                    ([FrodoError (''Error importing '' @ realm rm @
                                   '' prerequisite resource type '' @
                                   str_or_undefined (resourceTypeUuid policyData)) [Thrown e]],
                     tr @ [UpdateResourceType (resourceTypeUuid policyData) resourceTypeData]))
             else ([], tr));
          policySetData =
            js_get (pb_policyset exportData) (str_or_undefined (applicationName policyData));
          (errors2, tr2) =
            (if truthy_found policySetData then
               (case updatePolicySet rm tr1 policySetData of
                  Inr r \<Rightarrow> ([], tr1 @ [UpdatePolicySet policySetData])
                | Inl e \<Rightarrow>
                    ([FrodoError (''Error importing '' @ realm rm @
                                   '' prerequisite policy set '' @
                                   str_or_undefined (applicationName policyData)) [Thrown e]],
                     tr1 @ [UpdatePolicySet policySetData]))
             else ([], tr1))
      in if errors1 @ errors2 \<noteq> [] then
           (Some (FrodoError (''Error importing '' @ realm rm @ '' prerequisites for policy '' @
                                p_id policyData) (errors1 @ errors2)), tr2)
         else (None, tr2))"

text \<open>
  \<open>importPolicyDependencies\<close>: every script id found in the condition is passed to
  \<open>updateScript\<close> together with \<open>exportData.script[scriptUuid]\<close>, which is \<open>undefined\<close>
  (\<open>Missing\<close>) when the bundle has no such script.
\<close>

fun importPolicyDependencies_loop ::
  "remote \<Rightarrow> policy \<Rightarrow> PolicyExportInterface \<Rightarrow> string option list \<Rightarrow> call list \<Rightarrow>
   error list \<times> call list" where
  "importPolicyDependencies_loop rm policyData exportData [] tr = ([], tr)"
| "importPolicyDependencies_loop rm policyData exportData (scriptUuid # rest) tr =
     (let scriptData = js_get (pb_script exportData) (str_or_undefined scriptUuid);
          tr1 = tr @ [UpdateScript (map_option JStr scriptUuid) scriptData]
      in case updateScript rm tr (map_option JStr scriptUuid) scriptData of
           Inr r \<Rightarrow> importPolicyDependencies_loop rm policyData exportData rest tr1
         | Inl e \<Rightarrow>
             (case importPolicyDependencies_loop rm policyData exportData rest tr1 of
                (errors, tr') \<Rightarrow>
                  (FrodoError (''Error importing '' @ realm rm @ '' script '' @
                                 str_or_undefined scriptUuid @ '' for policy '' @ p_id policyData)
                     [Thrown e] # errors, tr')))"

definition importPolicyDependencies ::
  "remote \<Rightarrow> policy \<Rightarrow> PolicyExportInterface \<Rightarrow> call list \<Rightarrow> error option \<times> call list" where
  "importPolicyDependencies rm policyData exportData tr =
     (case importPolicyDependencies_loop rm policyData exportData
             (findScriptUuids (p_condition policyData)) tr of
        (errors, tr') \<Rightarrow>
          if errors \<noteq> [] then
            (Some (FrodoError (''Error importing '' @ realm rm @ '' soft dependencies for policy '' @
                                 p_id policyData) errors), tr')
          else (None, tr'))"

text \<open>
  The body that \<open>importPolicy\<close>, \<open>importFirstPolicy\<close> and \<open>importPolicies\<close> run for a
  key \<open>key\<close> of \<open>importData.policy\<close> (the three copies in the source differ only in how
  the response is kept). \<open>policyData\<close> is the bundle's own object, so \<open>delete
  policyData._rev\<close> and the assignment of \<open>applicationName\<close> change the bundle: the entry
  is stored back (\<open>strip_policy\<close> is these first statements of the body). The result
  is the errors pushed, the response of a successful write, the
  bundle and the trace.
\<close>

definition strip_policy :: "PolicyImportOptions \<Rightarrow> policy \<Rightarrow> policy" where
  "strip_policy options entry =
     (if truthy_str (pi_policySetName options) then
        entry\<lparr>p_rev := None, applicationName := pi_policySetName options\<rparr>
      else entry\<lparr>p_rev := None\<rparr>)"

definition importPolicy_entry ::
  "remote \<Rightarrow> PolicyImportOptions \<Rightarrow> PolicyExportInterface \<Rightarrow> string \<Rightarrow> call list \<Rightarrow>
   error list \<times> policy option \<times> PolicyExportInterface \<times> call list" where
  "importPolicy_entry rm options importData key tr =
     (case map_of (pb_policy importData) key of
        None \<Rightarrow> ([TypeError], None, importData, tr)
      | Some entry \<Rightarrow>
          (let policyData = strip_policy options entry;
               importData1 =
                 importData\<lparr>pb_policy := AList.update key policyData (pb_policy importData)\<rparr>;
               (errors1, tr1) =
                 (if pi_prereqs options then
                    (case importPolicyPrerequisites rm policyData importData1 tr of
                       (Some error, tr') \<Rightarrow> ([error], tr')
                     | (None, tr') \<Rightarrow> ([], tr'))
                  else ([], tr));
               (errors2, response, tr2) =
                 (case updatePolicy rm (p_id policyData) policyData tr1 of
                    (Inr r, tr') \<Rightarrow> ([], Some r, tr')
                  | (Inl error, tr') \<Rightarrow> ([error], None, tr'));
               (errors3, tr3) =
                 (if pi_deps options then
                    (case importPolicyDependencies rm policyData importData1 tr2 of
                       (Some error, tr') \<Rightarrow> ([error], tr')
                     | (None, tr') \<Rightarrow> ([], tr'))
                  else ([], tr2))
           in (errors1 @ errors2 @ errors3, response, importData1, tr3)))"

text \<open>
  The \<open>for\<close> loops over \<open>Object.keys(importData.policy)\<close>. The loop of \<open>importPolicy\<close>
  runs the body for the keys equal to \<open>policyId\<close>; \<open>responses\<close> lists the responses of
  the successful writes (\<open>imported\<close> has the same length, and \<open>response\<close> is the last).
\<close>

fun importPolicy_loop ::
  "remote \<Rightarrow> string \<Rightarrow> PolicyImportOptions \<Rightarrow> string list \<Rightarrow> PolicyExportInterface \<Rightarrow>
   call list \<Rightarrow> error list \<times> policy list \<times> PolicyExportInterface \<times> call list" where
  "importPolicy_loop rm policyId options [] importData tr = ([], [], importData, tr)"
| "importPolicy_loop rm policyId options (key # rest) importData tr =
     (if key = policyId then
        (case importPolicy_entry rm options importData key tr of
           (errors, response, importData', tr') \<Rightarrow>
             (case importPolicy_loop rm policyId options rest importData' tr' of
                (errors', responses, importData'', tr'') \<Rightarrow>
                  (errors @ errors', (case response of Some r \<Rightarrow> [r] | None \<Rightarrow> []) @ responses,
                   importData'', tr'')))
      else importPolicy_loop rm policyId options rest importData tr)"

definition importPolicy ::
  "remote \<Rightarrow> string \<Rightarrow> PolicyExportInterface \<Rightarrow> PolicyImportOptions \<Rightarrow> call list \<Rightarrow>
   (error + policy) \<times> PolicyExportInterface \<times> call list" where
  "importPolicy rm policyId importData options tr =
     (case importPolicy_loop rm policyId options (map fst (pb_policy importData)) importData tr of
        (errors, responses, importData', tr') \<Rightarrow>
          if errors \<noteq> [] then
            (Inl (FrodoError (''Error importing '' @ realm rm @ '' policy '' @ policyId) errors),
             importData', tr')
          else if responses = [] then
            (Inl (FrodoError (''Policy '' @ policyId @ '' not found in import data'') []),
             importData', tr')
          else (Inr (last responses), importData', tr'))"

text \<open>\<open>importFirstPolicy\<close>: the loop body ends in \<open>break\<close>, so it runs for the first key only.\<close>

definition importFirstPolicy ::
  "remote \<Rightarrow> PolicyExportInterface \<Rightarrow> PolicyImportOptions \<Rightarrow> call list \<Rightarrow>
   (error + policy) \<times> PolicyExportInterface \<times> call list" where
  "importFirstPolicy rm importData options tr =
     (case map fst (pb_policy importData) of
        [] \<Rightarrow> (Inl (FrodoError ''No policy found in import data'' []), importData, tr)
      | key # rest \<Rightarrow>
          (case importPolicy_entry rm options importData key tr of
             (errors, response, importData', tr') \<Rightarrow>
               if errors \<noteq> [] then
                 (Inl (FrodoError (''Error importing first '' @ realm rm @ '' policy'') errors),
                  importData', tr')
               else
                 (case response of
                    None \<Rightarrow> (Inl (FrodoError ''No policy found in import data'' []), importData', tr')
                  | Some r \<Rightarrow> (Inr r, importData', tr'))))"

fun importPolicies_loop ::
  "remote \<Rightarrow> PolicyImportOptions \<Rightarrow> string list \<Rightarrow> PolicyExportInterface \<Rightarrow> call list \<Rightarrow>
   error list \<times> policy list \<times> PolicyExportInterface \<times> call list" where
  "importPolicies_loop rm options [] importData tr = ([], [], importData, tr)"
| "importPolicies_loop rm options (key # rest) importData tr =
     (case importPolicy_entry rm options importData key tr of
        (errors, response, importData', tr') \<Rightarrow>
          (case importPolicies_loop rm options rest importData' tr' of
             (errors', responses, importData'', tr'') \<Rightarrow>
               (errors @ errors', (case response of Some r \<Rightarrow> [r] | None \<Rightarrow> []) @ responses,
                importData'', tr'')))"

definition importPolicies ::
  "remote \<Rightarrow> PolicyExportInterface \<Rightarrow> PolicyImportOptions \<Rightarrow> call list \<Rightarrow>
   (error + policy list) \<times> PolicyExportInterface \<times> call list" where
  "importPolicies rm importData options tr =
     (case importPolicies_loop rm options (map fst (pb_policy importData)) importData tr of
        (errors, responses, importData', tr') \<Rightarrow>
          if errors \<noteq> [] then
            (Inl (FrodoError (''Error importing '' @ realm rm @ '' policies'') errors),
             importData', tr')
          else (Inr responses, importData', tr'))"

section \<open>OAuth2ClientOps\<close>

record OAuth2ClientExportInterface =
  ob_meta :: "string option"
  ob_script :: "(string \<times> script) list option"
  ob_application :: "(string \<times> client) list"

record OAuth2ClientExportOptions =
  oe_useStringArrays :: bool
  oe_deps :: bool

record OAuth2ClientImportOptions =
  oi_deps :: bool

definition createOAuth2ClientExportTemplate :: "remote \<Rightarrow> OAuth2ClientExportInterface" where
  "createOAuth2ClientExportTemplate rm =
     \<lparr>ob_meta = Some (getMetadata rm), ob_script = Some [], ob_application = []\<rparr>"

definition readOAuth2Clients :: "remote \<Rightarrow> call list \<Rightarrow> (error + client list) \<times> call list" where
  "readOAuth2Clients rm tr =
     (case api_getOAuth2Clients rm tr of
        Inr clients \<Rightarrow> (Inr clients, tr @ [GetOAuth2Clients])
      | Inl e \<Rightarrow>
          if response_status e = Some 403 \<and> response_message e = Some not_available then
            (Inr [], tr @ [GetOAuth2Clients])
          else
            (Inl (FrodoError (''Error reading '' @ realm rm @ '' oauth2 clients'') [Thrown e]),
             tr @ [GetOAuth2Clients]))"

text \<open>
  \<open>readOAuth2Client\<close> returns the promise of \<open>_getOAuth2Client\<close> without awaiting it, so
  a rejection passes its \<open>try\<close> and reaches the caller as it is.
\<close>

definition readOAuth2Client ::
  "remote \<Rightarrow> string \<Rightarrow> call list \<Rightarrow> (error + client) \<times> call list" where
  "readOAuth2Client rm clientId tr =
     (case api_getOAuth2Client rm tr clientId of
        Inr c \<Rightarrow> (Inr c, tr @ [GetOAuth2Client clientId])
      | Inl e \<Rightarrow> (Inl (Thrown e), tr @ [GetOAuth2Client clientId]))"

text \<open>
  The repair loop of \<open>updateOAuth2Client\<close>: for every property of \<open>clientData\<close> whose
  \<open>typeof\<close> is \<open>object\<close>, delete the attributes that are not in \<open>validAttributes\<close>.
  \<open>typeof null\<close> is \<open>object\<close> too, and \<open>Object.keys(null)\<close> throws a \<open>TypeError\<close>: the
  flag tells so, and the properties visited before keep their repair. The attributes of an
  array are the indices of its elements; a deleted element leaves a hole.
\<close>

definition strip_elements :: "string list \<Rightarrow> json option list \<Rightarrow> json option list" where
  "strip_elements valid elements =
     map (\<lambda>(i, x). if string_of_nat i \<in> set valid then x else None)
       (zip [0..<length elements] elements)"

fun strip_invalid :: "string list \<Rightarrow> client \<Rightarrow> bool \<times> client" where
  "strip_invalid valid [] = (False, [])"
| "strip_invalid valid ((key, JNull) # rest) = (True, (key, JNull) # rest)"
| "strip_invalid valid ((key, JObj attrs) # rest) =
     (case strip_invalid valid rest of
        (failed, rest') \<Rightarrow>
          (failed, (key, JObj (filter (\<lambda>(attribute, v). attribute \<in> set valid) attrs)) # rest'))"
| "strip_invalid valid ((key, JArr elements) # rest) =
     (case strip_invalid valid rest of
        (failed, rest') \<Rightarrow> (failed, (key, JArr (strip_elements valid elements)) # rest'))"
| "strip_invalid valid ((key, JBool b) # rest) =
     (case strip_invalid valid rest of (failed, rest') \<Rightarrow> (failed, (key, JBool b) # rest'))"
| "strip_invalid valid ((key, JStr x) # rest) =
     (case strip_invalid valid rest of (failed, rest') \<Rightarrow> (failed, (key, JStr x) # rest'))"

text \<open>
  \<open>updateOAuth2Client\<close> returns, with the outcome, the \<open>clientData\<close> object as the call
  leaves it: the repair deletes attributes of the caller's object in place.
\<close>

definition updateOAuth2Client ::
  "remote \<Rightarrow> string \<Rightarrow> client \<Rightarrow> call list \<Rightarrow> (error + client) \<times> client \<times> call list" where
  "updateOAuth2Client rm clientId clientData tr =
     (let tr1 = tr @ [PutOAuth2Client clientId clientData];
          failure = (\<lambda>cause. Inl (FrodoError (''Error updating '' @ realm rm @ '' oauth2 client '' @
                                               clientId) [cause]))
      in case api_putOAuth2Client rm tr clientId clientData of
           Inr response \<Rightarrow> (Inr response, clientData, tr1)
         | Inl error \<Rightarrow>
             if response_status error = Some 400 \<and>
                response_message error = Some ''Invalid attribute specified.'' then
               (case validAttributes error of
                  None \<Rightarrow> (failure TypeError, clientData, tr1)
                | Some valid \<Rightarrow>
                    (case strip_invalid (valid @ [''_id'']) clientData of
                       (True, clientData') \<Rightarrow> (failure TypeError, clientData', tr1)
                     | (False, clientData') \<Rightarrow>
                         (case api_putOAuth2Client rm tr1 clientId clientData' of
                            Inr response \<Rightarrow>
                              (Inr response, clientData',
                               tr1 @ [PutOAuth2Client clientId clientData'])
                          | Inl error' \<Rightarrow>
                              (failure (Thrown error'), clientData',
                               tr1 @ [PutOAuth2Client clientId clientData']))))
             else (failure (Thrown error), clientData, tr1))"

definition createOAuth2Client ::
  "remote \<Rightarrow> string \<Rightarrow> client \<Rightarrow> call list \<Rightarrow> (error + client) \<times> call list" where
  "createOAuth2Client rm clientId clientData tr =
     (case readOAuth2Client rm clientId tr of
        (Inl probe_error, tr1) \<Rightarrow>
          (case updateOAuth2Client rm clientId clientData tr1 of
             (Inr result, clientData', tr2) \<Rightarrow> (Inr result, tr2)
           | (Inl error, clientData', tr2) \<Rightarrow>
               (Inl (FrodoError (''Error creating '' @ realm rm @ '' oauth2 client '' @ clientId)
                       [error]), tr2))
      | (Inr found, tr1) \<Rightarrow>
          (Inl (FrodoError (realm rm @ '' oAuth2 client '' @ clientId @ '' already exists!'') []),
           tr1))"

text \<open>
  The own properties of \<open>clientData['overrideOAuth2ClientConfig']\<close> that the dependency
  loops iterate. The loops run when the value is truthy; a truthy value that is not an
  object (a string, \<open>true\<close>) has no key ending in \<open>Script\<close>, so it contributes no entry.
\<close>

fun override_entries :: "json option \<Rightarrow> (string \<times> json) list" where
  "override_entries (Some (JObj kvs)) = kvs"
| "override_entries other = []"

text \<open>
  \<open>exportOAuth2ClientDependencies\<close>: the loop over the override map. The test
  \<open>scriptId !== '[Empty]' && !exportData.script[scriptId]\<close> is outside the \<open>try\<close> (a
  script object and an inherited member are both truthy, so the read is made when the
  lookup gives \<open>undefined\<close>); a
  failed read that carries the "not available" signal is dropped, any other is thrown and
  ends the loop.
\<close>

fun exportOAuth2ClientDependencies_loop ::
  "remote \<Rightarrow> client \<Rightarrow> OAuth2ClientExportOptions \<Rightarrow> (string \<times> json) list \<Rightarrow>
   OAuth2ClientExportInterface \<Rightarrow> call list \<Rightarrow>
   error option \<times> OAuth2ClientExportInterface \<times> call list" where
  "exportOAuth2ClientDependencies_loop rm clientData options [] exportData tr =
     (None, exportData, tr)"
| "exportOAuth2ClientDependencies_loop rm clientData options ((key, scriptId) # rest) exportData tr =
     (if endsWith key ''Script'' \<and> scriptId \<noteq> JStr ''[Empty]'' then
        (case ob_script exportData of
           None \<Rightarrow> (Some TypeError, exportData, tr)
         | Some scripts \<Rightarrow>
             if js_get scripts (js_string (Some scriptId)) = Missing then
               (case readScript rm tr (Some scriptId) of
                  Inr scriptData \<Rightarrow>
                    exportOAuth2ClientDependencies_loop rm clientData options rest
                      (exportData\<lparr>ob_script := Some (js_set (js_string (Some scriptId))
                         (if oe_useStringArrays options then
                            scriptData\<lparr>s_script :=
                              ScriptLines (convertBase64TextToArray rm (s_script scriptData))\<rparr>
                          else scriptData) scripts)\<rparr>)
                      (tr @ [ReadScript (Some scriptId)])
                | Inl error \<Rightarrow>
                    if httpStatus error = Some 403 \<and> httpMessage error = Some not_available then
                      exportOAuth2ClientDependencies_loop rm clientData options rest exportData
                        (tr @ [ReadScript (Some scriptId)])
                    else
                      (Some (FrodoError (''Error retrieving '' @ realm rm @ '' script '' @
                                          js_string (Some scriptId) @ '' referenced by '' @ key @
                                          '' key in client '' @ js_string (map_of clientData ''_id''))
                               [Thrown error]),
                       exportData, tr @ [ReadScript (Some scriptId)]))
             else exportOAuth2ClientDependencies_loop rm clientData options rest exportData tr)
      else exportOAuth2ClientDependencies_loop rm clientData options rest exportData tr)"

definition exportOAuth2ClientDependencies ::
  "remote \<Rightarrow> client \<Rightarrow> OAuth2ClientExportOptions \<Rightarrow> OAuth2ClientExportInterface \<Rightarrow>
   call list \<Rightarrow> error option \<times> OAuth2ClientExportInterface \<times> call list" where
  "exportOAuth2ClientDependencies rm clientData options exportData tr =
     (if truthy (map_of clientData ''overrideOAuth2ClientConfig'') then
        exportOAuth2ClientDependencies_loop rm clientData options
          (override_entries (map_of clientData ''overrideOAuth2ClientConfig'')) exportData tr
      else (None, exportData, tr))"

text \<open>
  \<open>exportOAuth2Clients\<close>: every client is handled in its own \<open>try\<close>; the \<open>catch\<close> pushes
  the error and the loop goes on.
\<close>

definition exportOAuth2Clients_item ::
  "remote \<Rightarrow> OAuth2ClientExportOptions \<Rightarrow> json \<Rightarrow> client \<Rightarrow> OAuth2ClientExportInterface \<Rightarrow>
   call list \<Rightarrow> error list \<times> OAuth2ClientExportInterface \<times> call list" where
  "exportOAuth2Clients_item rm options provider client0 exportData tr =
     (let client1 = js_set ''_provider'' provider client0;
          exportData1 =
            exportData\<lparr>ob_application :=
              js_set (js_string (map_of client1 ''_id'')) client1 (ob_application exportData)\<rparr>
      in if oe_deps options then
           (case exportOAuth2ClientDependencies rm client1 options exportData1 tr of
              (Some error, exportData', tr') \<Rightarrow> ([error], exportData', tr')
            | (None, exportData', tr') \<Rightarrow> ([], exportData', tr'))
         else ([], exportData1, tr))"

fun exportOAuth2Clients_loop ::
  "remote \<Rightarrow> OAuth2ClientExportOptions \<Rightarrow> json \<Rightarrow> client list \<Rightarrow>
   OAuth2ClientExportInterface \<Rightarrow> call list \<Rightarrow>
   error list \<times> OAuth2ClientExportInterface \<times> call list" where
  "exportOAuth2Clients_loop rm options provider [] exportData tr = ([], exportData, tr)"
| "exportOAuth2Clients_loop rm options provider (client0 # rest) exportData tr =
     (case exportOAuth2Clients_item rm options provider client0 exportData tr of
        (errors, exportData', tr') \<Rightarrow>
          (case exportOAuth2Clients_loop rm options provider rest exportData' tr' of
             (errors', exportData'', tr'') \<Rightarrow> (errors @ errors', exportData'', tr'')))"

definition exportOAuth2Clients ::
  "remote \<Rightarrow> OAuth2ClientExportOptions \<Rightarrow> call list \<Rightarrow>
   (error + OAuth2ClientExportInterface) \<times> call list" where
  "exportOAuth2Clients rm options tr =
     (let aggregate = FrodoError (''Error exporting '' @ realm rm @ '' oauth2 clients'')
      in case readOAuth2Provider rm tr of
           Inl e \<Rightarrow> (Inl (aggregate [Thrown e]), tr @ [ReadOAuth2Provider])
         | Inr provider \<Rightarrow>
             (case readOAuth2Clients rm (tr @ [ReadOAuth2Provider]) of
                (Inl error, tr1) \<Rightarrow> (Inl (aggregate [error]), tr1)
              | (Inr clients, tr1) \<Rightarrow>
                  (case exportOAuth2Clients_loop rm options provider clients
                          (createOAuth2ClientExportTemplate rm) tr1 of
                     (errors, exportData, tr2) \<Rightarrow>
                       if errors \<noteq> [] then (Inl (aggregate errors), tr2)
                       else (Inr exportData, tr2))))"

text \<open>
  \<open>importOAuth2ClientDependencies\<close>: a script is written when its reference is not the
  sentinel and \<open>importData.script && importData.script[scriptId]\<close> is truthy (a script of
  the bundle or an inherited member); the first failed write is thrown and ends the loop.
\<close>

fun importOAuth2ClientDependencies_loop ::
  "remote \<Rightarrow> OAuth2ClientExportInterface \<Rightarrow> (string \<times> json) list \<Rightarrow> call list \<Rightarrow>
   error option \<times> call list" where
  "importOAuth2ClientDependencies_loop rm importData [] tr = (None, tr)"
| "importOAuth2ClientDependencies_loop rm importData ((key, scriptId) # rest) tr =
     (if endsWith key ''Script'' \<and> scriptId \<noteq> JStr ''[Empty]'' then
        (case ob_script importData of
           None \<Rightarrow> importOAuth2ClientDependencies_loop rm importData rest tr
         | Some scripts \<Rightarrow>
             if js_get scripts (js_string (Some scriptId)) = Missing then
               importOAuth2ClientDependencies_loop rm importData rest tr
             else
               (case updateScript rm tr (Some scriptId)
                       (js_get scripts (js_string (Some scriptId))) of
                  Inr r \<Rightarrow>
                    importOAuth2ClientDependencies_loop rm importData rest
                      (tr @ [UpdateScript (Some scriptId)
                               (js_get scripts (js_string (Some scriptId)))])
                | Inl e \<Rightarrow>
                    (Some (FrodoError (''Error importing '' @ realm rm @
                                         '' script dependency '' @ js_string (Some scriptId))
                             [Thrown e]),
                     tr @ [UpdateScript (Some scriptId)
                             (js_get scripts (js_string (Some scriptId)))])))
      else importOAuth2ClientDependencies_loop rm importData rest tr)"

definition importOAuth2ClientDependencies ::
  "remote \<Rightarrow> client \<Rightarrow> OAuth2ClientExportInterface \<Rightarrow> call list \<Rightarrow> error option \<times> call list" where
  "importOAuth2ClientDependencies rm clientData importData tr =
     (if truthy (map_of clientData ''overrideOAuth2ClientConfig'') then
        importOAuth2ClientDependencies_loop rm importData
          (override_entries (map_of clientData ''overrideOAuth2ClientConfig'')) tr
      else (None, tr))"

text \<open>
  The body that \<open>importOAuth2Client\<close>, \<open>importFirstOAuth2Client\<close> and
  \<open>importOAuth2Clients\<close> run for a key of \<open>importData.application\<close>, inside one \<open>try\<close>:
  the two \<open>delete\<close>s on the bundle's own object (\<open>strip_client\<close>), the dependencies, then the client. An
  error of the dependencies leaves the \<open>try\<close> before the client is written.
\<close>

definition strip_client :: "client \<Rightarrow> client" where
  "strip_client entry = AList.delete ''_rev'' (AList.delete ''_provider'' entry)"

definition importOAuth2Client_entry ::
  "remote \<Rightarrow> OAuth2ClientImportOptions \<Rightarrow> OAuth2ClientExportInterface \<Rightarrow> string \<Rightarrow>
   call list \<Rightarrow> error list \<times> client option \<times> OAuth2ClientExportInterface \<times> call list" where
  "importOAuth2Client_entry rm options importData key tr =
     (case map_of (ob_application importData) key of
        None \<Rightarrow> ([TypeError], None, importData, tr)
      | Some entry \<Rightarrow>
          (let clientData = strip_client entry;
               importData1 =
                 importData\<lparr>ob_application :=
                   AList.update key clientData (ob_application importData)\<rparr>;
               (dependency_error, tr1) =
                 (if oi_deps options then importOAuth2ClientDependencies rm clientData importData1 tr
                  else (None, tr))
           in case dependency_error of
                Some error \<Rightarrow> ([error], None, importData1, tr1)
              | None \<Rightarrow>
                  (case updateOAuth2Client rm key clientData tr1 of
                     (Inr response, clientData', tr2) \<Rightarrow>
                       ([], Some response,
                        importData1\<lparr>ob_application :=
                          AList.update key clientData' (ob_application importData1)\<rparr>, tr2)
                   | (Inl error, clientData', tr2) \<Rightarrow>
                       ([error], None,
                        importData1\<lparr>ob_application :=
                          AList.update key clientData' (ob_application importData1)\<rparr>, tr2))))"

fun importOAuth2Client_loop ::
  "remote \<Rightarrow> string \<Rightarrow> OAuth2ClientImportOptions \<Rightarrow> string list \<Rightarrow>
   OAuth2ClientExportInterface \<Rightarrow> call list \<Rightarrow>
   error list \<times> client list \<times> OAuth2ClientExportInterface \<times> call list" where
  "importOAuth2Client_loop rm clientId options [] importData tr = ([], [], importData, tr)"
| "importOAuth2Client_loop rm clientId options (key # rest) importData tr =
     (if key = clientId then
        (case importOAuth2Client_entry rm options importData key tr of
           (errors, response, importData', tr') \<Rightarrow>
             (case importOAuth2Client_loop rm clientId options rest importData' tr' of
                (errors', responses, importData'', tr'') \<Rightarrow>
                  (errors @ errors', (case response of Some r \<Rightarrow> [r] | None \<Rightarrow> []) @ responses,
                   importData'', tr'')))
      else importOAuth2Client_loop rm clientId options rest importData tr)"

definition importOAuth2Client ::
  "remote \<Rightarrow> string \<Rightarrow> OAuth2ClientExportInterface \<Rightarrow> OAuth2ClientImportOptions \<Rightarrow>
   call list \<Rightarrow> (error + client) \<times> OAuth2ClientExportInterface \<times> call list" where
  "importOAuth2Client rm clientId importData options tr =
     (case importOAuth2Client_loop rm clientId options (map fst (ob_application importData))
             importData tr of
        (errors, responses, importData', tr') \<Rightarrow>
          if errors \<noteq> [] then
            (Inl (FrodoError (''Error importing '' @ realm rm @ '' oauth2 client '' @ clientId)
                    errors), importData', tr')
          else if responses = [] then
            (Inl (FrodoError (realm rm @ '' oauth2 client '' @ clientId @
                                '' not found in import data!'') []), importData', tr')
          else (Inr (last responses), importData', tr'))"

definition importFirstOAuth2Client ::
  "remote \<Rightarrow> OAuth2ClientExportInterface \<Rightarrow> OAuth2ClientImportOptions \<Rightarrow> call list \<Rightarrow>
   (error + client) \<times> OAuth2ClientExportInterface \<times> call list" where
  "importFirstOAuth2Client rm importData options tr =
     (case map fst (ob_application importData) of
        [] \<Rightarrow> (Inl (FrodoError ''No oauth2 clients found in import data!'' []), importData, tr)
      | key # rest \<Rightarrow>
          (case importOAuth2Client_entry rm options importData key tr of
             (errors, response, importData', tr') \<Rightarrow>
               if errors \<noteq> [] then
                 (Inl (FrodoError (''Error importing first '' @ realm rm @ '' oauth2 client'')
                         errors), importData', tr')
               else
                 (case response of
                    None \<Rightarrow>
                      (Inl (FrodoError ''No oauth2 clients found in import data!'' []),
                       importData', tr')
                  | Some r \<Rightarrow> (Inr r, importData', tr'))))"

fun importOAuth2Clients_loop ::
  "remote \<Rightarrow> OAuth2ClientImportOptions \<Rightarrow> string list \<Rightarrow> OAuth2ClientExportInterface \<Rightarrow>
   call list \<Rightarrow> error list \<times> client list \<times> OAuth2ClientExportInterface \<times> call list" where
  "importOAuth2Clients_loop rm options [] importData tr = ([], [], importData, tr)"
| "importOAuth2Clients_loop rm options (key # rest) importData tr =
     (case importOAuth2Client_entry rm options importData key tr of
        (errors, response, importData', tr') \<Rightarrow>
          (case importOAuth2Clients_loop rm options rest importData' tr' of
             (errors', responses, importData'', tr'') \<Rightarrow>
               (errors @ errors', (case response of Some r \<Rightarrow> [r] | None \<Rightarrow> []) @ responses,
                importData'', tr'')))"

definition importOAuth2Clients ::
  "remote \<Rightarrow> OAuth2ClientExportInterface \<Rightarrow> OAuth2ClientImportOptions \<Rightarrow> call list \<Rightarrow>
   (error + client list) \<times> OAuth2ClientExportInterface \<times> call list" where
  "importOAuth2Clients rm importData options tr =
     (case importOAuth2Clients_loop rm options (map fst (ob_application importData)) importData tr of
        (errors, responses, importData', tr') \<Rightarrow>
          if errors \<noteq> [] then
            (Inl (FrodoError (''Error importing '' @ realm rm @ '' oauth2 clients'') errors),
             importData', tr')
          else (Inr responses, importData', tr'))"

section \<open>Specification side of the script reference walk\<close>

text \<open>
  The specification's side of the walk: a node \<open>l\<close> is reachable from \<open>c\<close> through the
  combinators when a path of \<open>condition\<close> and \<open>conditions\<close> links leads from \<open>c\<close> to \<open>l\<close>
  and every node left on the way has type \<open>AND\<close>, \<open>OR\<close> or \<open>NOT\<close>.
\<close>

inductive reaches :: "condition \<Rightarrow> condition \<Rightarrow> bool" where
  reaches_self: "reaches c c"
| reaches_condition:
    "ctype c = Some ''AND'' \<or> ctype c = Some ''OR'' \<or> ctype c = Some ''NOT'' \<Longrightarrow>
     ccondition c = Some d \<Longrightarrow> reaches d l \<Longrightarrow> reaches c l"
| reaches_conditions:
    "ctype c = Some ''AND'' \<or> ctype c = Some ''OR'' \<or> ctype c = Some ''NOT'' \<Longrightarrow>
     cconditions c = Some ds \<Longrightarrow> d \<in> set ds \<Longrightarrow> reaches d l \<Longrightarrow> reaches c l"

definition script_leaf_ids :: "condition \<Rightarrow> string option set" where
  "script_leaf_ids c = {cscriptId l | l. reaches c l \<and> ctype l = Some ''Script''}"

text \<open>The three-level example of the source's documentation comment, with a repeated id.\<close>

definition sample_condition :: condition where
  "sample_condition =
     Condition (Some ''AND'') None
       (Some [Condition (Some ''Script'') None None (Some ''62f18ede''),
              Condition (Some ''AuthenticateToService'') None None None,
              Condition (Some ''OR'') None
                (Some [Condition (Some ''Session'') None None None,
                       Condition (Some ''NOT'')
                         (Some (Condition (Some ''Script'') None None (Some ''729ee140'')))
                         None None,
                       Condition (Some ''Script'') None None (Some ''62f18ede'')])
                None])
       None"

section \<open>Sample collaborators and objects\<close>

definition not_found :: thrown where
  "not_found =
     \<lparr>response_status = Some 404, response_message = Some ''Not Found'', validAttributes = None,
      httpStatus = Some 404, httpMessage = Some ''Not Found''\<rparr>"

definition server_error :: thrown where
  "server_error =
     \<lparr>response_status = Some 500, response_message = Some ''Internal Server Error'',
      validAttributes = None, httpStatus = Some 500,
      httpMessage = Some ''Internal Server Error''\<rparr>"

text \<open>
  A remote store in which nothing exists yet and every write succeeds, returning what was
  written; the update operations fail when they are handed anything but an object of the
  bundle.
\<close>

definition sample_remote :: remote where
  "sample_remote =
     \<lparr>getCurrentRealmName = ''alpha'',
      getMetadata = ''meta'',
      convertBase64TextToArray = (\<lambda>t. case t of ScriptText x \<Rightarrow> [x] | ScriptLines ls \<Rightarrow> ls),
      api_getPolicy = (\<lambda>tr policyId. Inl not_found),
      api_putPolicy = (\<lambda>tr policyId policyData. Inr policyData),
      api_getPolicies = (\<lambda>tr. Inr []),
      api_getPoliciesByPolicySet = (\<lambda>tr policySetId. Inr []),
      getResourceType = (\<lambda>tr uuid. Inr (JObj [(''uuid'', JStr uuid)])),
      readPolicySet = (\<lambda>tr name. Inr (JObj [(''name'', JStr name)])),
      readScript = (\<lambda>tr scriptId. Inr \<lparr>s_id = js_string scriptId, s_script = ScriptText ''eA==''\<rparr>),
      updateScript = (\<lambda>tr scriptId scriptData.
         case scriptData of Own sd \<Rightarrow> Inr sd | other \<Rightarrow> Inl server_error),
      updateResourceType = (\<lambda>tr uuid resourceTypeData.
         case resourceTypeData of Own d \<Rightarrow> Inr d | other \<Rightarrow> Inl server_error),
      updatePolicySet = (\<lambda>tr policySetData.
         case policySetData of Own d \<Rightarrow> Inr d | other \<Rightarrow> Inl server_error),
      api_getOAuth2Clients = (\<lambda>tr. Inr []),
      api_getOAuth2Client = (\<lambda>tr clientId. Inl not_found),
      api_putOAuth2Client = (\<lambda>tr clientId clientData. Inr clientData),
      readOAuth2Provider = (\<lambda>tr. Inr (JObj []))\<rparr>"

definition sample_policy :: policy where
  "sample_policy =
     \<lparr>p_id = ''p1'', p_rev = Some ''17'', p_name = Some ''p1'', applicationName = Some ''set1'',
      resourceTypeUuid = Some ''rt1'', p_condition = Some sample_condition\<rparr>"

definition sample_client :: client where
  "sample_client =
     [(''_id'', JStr ''c1''), (''_rev'', JStr ''5''), (''_provider'', JObj []),
      (''coreOAuth2ClientConfig'', JObj [(''status'', JStr ''Active''), (''bogus'', JStr ''x'')]),
      (''overrideOAuth2ClientConfig'',
         JObj [(''accessTokenModificationScript'', JStr ''s1''),
               (''oidcClaimsScript'', JStr ''[Empty]''),
               (''nested'', JObj [(''hiddenScript'', JStr ''s9'')]),
               (''issueRefreshToken'', JBool True)])]"

section \<open>Specification side of the failures of a run\<close>

text \<open>
  What the remote store answers to a call made after the calls \<open>tr\<close>, when that is a
  failure, and the failures met when the calls of a run are replayed in order from the
  trace \<open>tr\<close>, those that the predicate \<open>dropped\<close> holds for left out. \<open>leaves\<close> are the
  failures of the remote store that an error carries, in order, whatever wraps them.
  \<open>capability_absence\<close> tells the failures that an export of OAuth2 clients drops: a
  listing or a script read answered with the "not available" signal.
\<close>

definition failure :: "thrown + 'a \<Rightarrow> thrown option" where
  "failure r = (case r of Inl e \<Rightarrow> Some e | Inr x \<Rightarrow> None)"

fun answer :: "remote \<Rightarrow> call list \<Rightarrow> call \<Rightarrow> thrown option" where
  "answer rm tr (GetPolicy i) = failure (api_getPolicy rm tr i)"
| "answer rm tr (PutPolicy i d) = failure (api_putPolicy rm tr i d)"
| "answer rm tr GetPolicies = failure (api_getPolicies rm tr)"
| "answer rm tr (GetPoliciesByPolicySet s) = failure (api_getPoliciesByPolicySet rm tr s)"
| "answer rm tr (GetResourceType u) = failure (getResourceType rm tr u)"
| "answer rm tr (ReadPolicySet n) = failure (readPolicySet rm tr n)"
| "answer rm tr (ReadScript i) = failure (readScript rm tr i)"
| "answer rm tr (UpdateScript i d) = failure (updateScript rm tr i d)"
| "answer rm tr (UpdateResourceType u d) = failure (updateResourceType rm tr u d)"
| "answer rm tr (UpdatePolicySet d) = failure (updatePolicySet rm tr d)"
| "answer rm tr GetOAuth2Clients = failure (api_getOAuth2Clients rm tr)"
| "answer rm tr (GetOAuth2Client i) = failure (api_getOAuth2Client rm tr i)"
| "answer rm tr (PutOAuth2Client i d) = failure (api_putOAuth2Client rm tr i d)"
| "answer rm tr ReadOAuth2Provider = failure (readOAuth2Provider rm tr)"

fun failures ::
  "(call \<Rightarrow> thrown \<Rightarrow> bool) \<Rightarrow> remote \<Rightarrow> call list \<Rightarrow> call list \<Rightarrow> thrown list" where
  "failures dropped rm tr [] = []"
| "failures dropped rm tr (c # rest) =
     (case answer rm tr c of
        None \<Rightarrow> []
      | Some e \<Rightarrow> if dropped c e then [] else [e]) @ failures dropped rm (tr @ [c]) rest"

definition nothing_dropped :: "call \<Rightarrow> thrown \<Rightarrow> bool" where
  "nothing_dropped c e = False"

definition capability_absence :: "call \<Rightarrow> thrown \<Rightarrow> bool" where
  "capability_absence c e =
     (case c of
        GetOAuth2Clients \<Rightarrow>
          response_status e = Some 403 \<and> response_message e = Some not_available
      | ReadScript scriptId \<Rightarrow> httpStatus e = Some 403 \<and> httpMessage e = Some not_available
      | _ \<Rightarrow> False)"

fun leaves :: "error \<Rightarrow> thrown list" where
  "leaves (Thrown e) = [e]"
| "leaves TypeError = []"
| "leaves (JsError message) = []"
| "leaves (FrodoError message causes) = concat (map leaves causes)"

definition result_leaves :: "error + 'a \<Rightarrow> thrown list" where
  "result_leaves r = (case r of Inl e \<Rightarrow> leaves e | Inr x \<Rightarrow> [])"

definition raised_leaves :: "error option \<Rightarrow> thrown list" where
  "raised_leaves r = (case r of Some e \<Rightarrow> leaves e | None \<Rightarrow> [])"

text \<open>
  The traces at which the parts of a run start, when the parts make the calls \<open>parts\<close>
  one after the other from the trace \<open>tr\<close>.
\<close>

fun entry_starts :: "call list \<Rightarrow> call list list \<Rightarrow> call list list" where
  "entry_starts tr [] = []"
| "entry_starts tr (calls # rest) = tr # entry_starts (tr @ calls) rest"

section \<open>Specification side of the OAuth2 client repair\<close>

text \<open>
  The rejection that entitles \<open>updateOAuth2Client\<close> to a repair, the client as the
  repair leaves it (every attribute of an object-valued property that is neither in the
  server's list nor \<open>_id\<close> is removed, the attributes of an array being the indices of its
  elements; other properties are kept), and the error raised for a failed write.
\<close>

definition invalid_attribute :: "thrown \<Rightarrow> bool" where
  "invalid_attribute error \<longleftrightarrow>
     response_status error = Some 400 \<and>
     response_message error = Some ''Invalid attribute specified.''"

definition repaired :: "string list \<Rightarrow> client \<Rightarrow> client" where
  "repaired valid clientData =
     map (\<lambda>(key, v). case v of
            JObj attrs \<Rightarrow>
              (key, JObj (filter (\<lambda>(attribute, x). attribute \<in> set (valid @ [''_id''])) attrs))
          | JArr elements \<Rightarrow>
              (key, JArr (map (\<lambda>i. if string_of_nat i \<in> set (valid @ [''_id''])
                                    then elements ! i else None) [0..<length elements]))
          | other \<Rightarrow> (key, v)) clientData"

definition update_failure :: "remote \<Rightarrow> string \<Rightarrow> error \<Rightarrow> error" where
  "update_failure rm clientId cause =
     FrodoError (''Error updating '' @ realm rm @ '' oauth2 client '' @ clientId) [cause]"

definition invalid_attribute_error :: thrown where
  "invalid_attribute_error =
     \<lparr>response_status = Some 400, response_message = Some ''Invalid attribute specified.'',
      validAttributes = Some [''status''], httpStatus = Some 400,
      httpMessage = Some ''Invalid attribute specified.''\<rparr>"

text \<open>A store that rejects the first write of a client as invalid and fails on any later one.\<close>

definition rejecting_remote :: remote where
  "rejecting_remote =
     sample_remote\<lparr>api_putOAuth2Client :=
       (\<lambda>tr clientId clientData. if tr = [] then Inl invalid_attribute_error else Inl server_error)\<rparr>"

section \<open>Specification side of the override-map dependencies\<close>

text \<open>
  The override map of a client and its script references: the entries of the map's own
  keys that end in \<open>Script\<close>, the sentinel \<open>[Empty]\<close> left out; \<open>script_references\<close> are
  their values. \<open>bundle_script\<close> is \<open>importData.script && importData.script[v]\<close>. A
  reference is covered by an export when the lookup of its key in the bundle's scripts
  gave something before the export or a read was made for that key.

  \<open>export_references\<close> is what an export does with the references, in order: a reference
  that the bundle's scripts have something under is passed; any other is read, the script
  read is stored under the key of the reference, a read failing with the "not available"
  signal is passed, and any other failed read ends the export with an error.
  \<open>import_references\<close> is what an import does with them: a reference that the bundle has
  nothing for is passed, any other is written with what the bundle has, and the first
  failed write ends the import with an error.
\<close>

definition override_config :: "client \<Rightarrow> (string \<times> json) list" where
  "override_config clientData = override_entries (map_of clientData ''overrideOAuth2ClientConfig'')"

definition script_reference_entries :: "(string \<times> json) list \<Rightarrow> (string \<times> json) list" where
  "script_reference_entries entries =
     filter (\<lambda>(key, v). endsWith key ''Script'' \<and> v \<noteq> JStr ''[Empty]'') entries"

definition script_references :: "(string \<times> json) list \<Rightarrow> json list" where
  "script_references entries = map snd (script_reference_entries entries)"

definition covered :: "(string \<times> script) list \<Rightarrow> json list \<Rightarrow> json \<Rightarrow> bool" where
  "covered scripts reads v \<longleftrightarrow>
     js_get scripts (js_string (Some v)) \<noteq> Missing \<or>
     (\<exists>v'\<in>set reads. js_string (Some v') = js_string (Some v))"

definition bundle_script :: "OAuth2ClientExportInterface \<Rightarrow> json \<Rightarrow> script looked_up" where
  "bundle_script importData v =
     (case ob_script importData of
        None \<Rightarrow> Missing
      | Some scripts \<Rightarrow> js_get scripts (js_string (Some v)))"

fun export_references ::
  "remote \<Rightarrow> client \<Rightarrow> OAuth2ClientExportOptions \<Rightarrow> (string \<times> json) list \<Rightarrow>
   OAuth2ClientExportInterface \<Rightarrow> call list \<Rightarrow>
   error option \<times> OAuth2ClientExportInterface \<times> call list" where
  "export_references rm clientData options [] exportData tr = (None, exportData, tr)"
| "export_references rm clientData options ((key, v) # rest) exportData tr =
     (case ob_script exportData of
        None \<Rightarrow> (Some TypeError, exportData, tr)
      | Some scripts \<Rightarrow>
          if js_get scripts (js_string (Some v)) \<noteq> Missing then
            export_references rm clientData options rest exportData tr
          else
            (case readScript rm tr (Some v) of
               Inr scriptData \<Rightarrow>
                 export_references rm clientData options rest
                   (exportData\<lparr>ob_script := Some (js_set (js_string (Some v))
                      (if oe_useStringArrays options then
                         scriptData\<lparr>s_script :=
                           ScriptLines (convertBase64TextToArray rm (s_script scriptData))\<rparr>
                       else scriptData) scripts)\<rparr>)
                   (tr @ [ReadScript (Some v)])
             | Inl e \<Rightarrow>
                 if capability_absence (ReadScript (Some v)) e then
                   export_references rm clientData options rest exportData
                     (tr @ [ReadScript (Some v)])
                 else
                   (Some (FrodoError (''Error retrieving '' @ realm rm @ '' script '' @
                                       js_string (Some v) @ '' referenced by '' @ key @
                                       '' key in client '' @ js_string (map_of clientData ''_id''))
                            [Thrown e]),
                    exportData, tr @ [ReadScript (Some v)])))"

fun import_references ::
  "remote \<Rightarrow> OAuth2ClientExportInterface \<Rightarrow> (string \<times> json) list \<Rightarrow> call list \<Rightarrow>
   error option \<times> call list" where
  "import_references rm importData [] tr = (None, tr)"
| "import_references rm importData ((key, v) # rest) tr =
     (if bundle_script importData v = Missing then import_references rm importData rest tr
      else
        (case updateScript rm tr (Some v) (bundle_script importData v) of
           Inr r \<Rightarrow>
             import_references rm importData rest
               (tr @ [UpdateScript (Some v) (bundle_script importData v)])
         | Inl e \<Rightarrow>
             (Some (FrodoError (''Error importing '' @ realm rm @ '' script dependency '' @
                                  js_string (Some v)) [Thrown e]),
              tr @ [UpdateScript (Some v) (bundle_script importData v)])))"

definition sample_script :: script where
  "sample_script = \<lparr>s_id = ''s1'', s_script = ScriptText ''eA==''\<rparr>"

definition sample_client_bundle :: OAuth2ClientExportInterface where
  "sample_client_bundle =
     \<lparr>ob_meta = None, ob_script = Some [(''s1'', sample_script)],
      ob_application = [(''c1'', sample_client)]\<rparr>"

text \<open>
  A client whose override map refers to the script \<open>s1\<close> twice, to \<open>s2\<close> through an
  array, to \<open>s3\<close>, and whose \<open>evaluateScopeScript\<close> is the name of a member that every
  object inherits; a bundle that holds it with the script \<open>s1\<close>; and a store that cannot
  read the script \<open>s3\<close>.
\<close>

definition scripted_client :: client where
  "scripted_client =
     [(''_id'', JStr ''c2''),
      (''overrideOAuth2ClientConfig'',
         JObj [(''accessTokenModificationScript'', JStr ''s1''),
               (''oidcClaimsScript'', JStr ''[Empty]''),
               (''authorizeEndpointDataProviderScript'', JArr [Some (JStr ''s2'')]),
               (''evaluateScopeScript'', JStr ''constructor''),
               (''validateScopeScript'', JStr ''s1''),
               (''nested'', JObj [(''hiddenScript'', JStr ''s9'')]),
               (''accessTokenMayActScript'', JStr ''s3'')])]"

definition scripted_client_bundle :: OAuth2ClientExportInterface where
  "scripted_client_bundle =
     \<lparr>ob_meta = None, ob_script = Some [(''s1'', sample_script)],
      ob_application = [(''c2'', scripted_client)]\<rparr>"

definition s3_failing_remote :: remote where
  "s3_failing_remote =
     sample_remote\<lparr>readScript := (\<lambda>tr scriptId.
        if scriptId = Some (JStr ''s3'') then Inl server_error
        else Inr \<lparr>s_id = js_string scriptId, s_script = ScriptText ''eA==''\<rparr>)\<rparr>"

section \<open>Collaborators that report the capability-absence signal\<close>

definition unavailable :: thrown where
  "unavailable =
     \<lparr>response_status = Some 403, response_message = Some not_available, validAttributes = None,
      httpStatus = Some 403, httpMessage = Some not_available\<rparr>"

definition unavailable_remote :: remote where
  "unavailable_remote = sample_remote\<lparr>api_getOAuth2Clients := \<lambda>tr. Inl unavailable\<rparr>"

definition scripts_unavailable_remote :: remote where
  "scripts_unavailable_remote =
     sample_remote\<lparr>api_getOAuth2Clients := \<lambda>tr. Inr [sample_client],
                   readScript := \<lambda>tr scriptId. Inl unavailable\<rparr>"

section \<open>Specification side of the import order\<close>

text \<open>
  The kinds of write found in a trace, and "every \<open>P\<close> call occurs strictly before every
  \<open>Q\<close> call": no \<open>P\<close> call follows a \<open>Q\<close> call. \<open>prerequisite_writes\<close> and
  \<open>script_writes\<close> are the writes that the bundle calls for in a policy's import,
  \<open>entry_calls\<close> the calls of one run of the import body, and \<open>stored\<close> the bundle as
  that run leaves it.
\<close>

definition is_prerequisite_write :: "call \<Rightarrow> bool" where
  "is_prerequisite_write c =
     (case c of UpdateResourceType u d \<Rightarrow> True | UpdatePolicySet d \<Rightarrow> True | _ \<Rightarrow> False)"

definition is_policy_write :: "call \<Rightarrow> bool" where
  "is_policy_write c = (case c of PutPolicy i d \<Rightarrow> True | _ \<Rightarrow> False)"

definition is_client_write :: "call \<Rightarrow> bool" where
  "is_client_write c = (case c of PutOAuth2Client i d \<Rightarrow> True | _ \<Rightarrow> False)"

definition is_script_write :: "call \<Rightarrow> bool" where
  "is_script_write c = (case c of UpdateScript i d \<Rightarrow> True | _ \<Rightarrow> False)"

fun all_before :: "(call \<Rightarrow> bool) \<Rightarrow> (call \<Rightarrow> bool) \<Rightarrow> call list \<Rightarrow> bool" where
  "all_before P Q [] = True"
| "all_before P Q (c # rest) = ((Q c \<longrightarrow> (\<forall>d\<in>set rest. \<not> P d)) \<and> all_before P Q rest)"

definition prerequisite_writes :: "policy \<Rightarrow> PolicyExportInterface \<Rightarrow> call list" where
  "prerequisite_writes policyData importData =
     (if truthy_found (js_get (pb_resourcetype importData)
                         (str_or_undefined (resourceTypeUuid policyData))) then
        [UpdateResourceType (resourceTypeUuid policyData)
           (js_get (pb_resourcetype importData) (str_or_undefined (resourceTypeUuid policyData)))]
      else []) @
     (if truthy_found (js_get (pb_policyset importData)
                         (str_or_undefined (applicationName policyData))) then
        [UpdatePolicySet
           (js_get (pb_policyset importData) (str_or_undefined (applicationName policyData)))]
      else [])"

definition script_writes :: "policy \<Rightarrow> PolicyExportInterface \<Rightarrow> call list" where
  "script_writes policyData importData =
     map (\<lambda>scriptUuid. UpdateScript (map_option JStr scriptUuid)
            (js_get (pb_script importData) (str_or_undefined scriptUuid)))
       (findScriptUuids (p_condition policyData))"

definition entry_calls :: "PolicyImportOptions \<Rightarrow> PolicyExportInterface \<Rightarrow> policy \<Rightarrow> call list" where
  "entry_calls options importData entry =
     (if pi_prereqs options then prerequisite_writes (strip_policy options entry) importData else []) @
     [PutPolicy (p_id (strip_policy options entry)) (strip_policy options entry)] @
     (if pi_deps options then script_writes (strip_policy options entry) importData else [])"

definition stored :: "PolicyImportOptions \<Rightarrow> PolicyExportInterface \<Rightarrow> string \<Rightarrow> policy \<Rightarrow> PolicyExportInterface" where
  "stored options importData key entry =
     importData\<lparr>pb_policy := AList.update key (strip_policy options entry) (pb_policy importData)\<rparr>"

definition sample_policy2 :: policy where
  "sample_policy2 =
     \<lparr>p_id = ''p2'', p_rev = Some ''3'', p_name = Some ''p2'', applicationName = Some ''set1'',
      resourceTypeUuid = Some ''rt1'', p_condition = None\<rparr>"

definition sample_policy_bundle :: PolicyExportInterface where
  "sample_policy_bundle =
     \<lparr>pb_meta = None,
      pb_script = [(''62f18ede'', \<lparr>s_id = ''62f18ede'', s_script = ScriptText ''YQ==''\<rparr>),
                   (''729ee140'', \<lparr>s_id = ''729ee140'', s_script = ScriptText ''Yg==''\<rparr>)],
      pb_resourcetype = [(''rt1'', JObj [(''uuid'', JStr ''rt1'')])],
      pb_policy = [(''p1'', sample_policy), (''p2'', sample_policy2)],
      pb_policyset = [(''set1'', JObj [(''name'', JStr ''set1'')])]\<rparr>"

text \<open>The same bundle without the second script that the first policy refers to.\<close>

definition partial_policy_bundle :: PolicyExportInterface where
  "partial_policy_bundle =
     sample_policy_bundle\<lparr>pb_script :=
       [(''62f18ede'', \<lparr>s_id = ''62f18ede'', s_script = ScriptText ''YQ==''\<rparr>)]\<rparr>"

section \<open>Specification side of the import selectors\<close>

text \<open>
  \<open>importPolicies_runs\<close> lists, for every key in turn, the errors that the import body
  raised for that key, run on the bundle and the trace that the keys before it left. An
  error of the body names the policy it was raised for in its message.
\<close>

fun importPolicies_runs ::
  "remote \<Rightarrow> PolicyImportOptions \<Rightarrow> string list \<Rightarrow> PolicyExportInterface \<Rightarrow> call list \<Rightarrow>
   (string \<times> error list) list" where
  "importPolicies_runs rm options [] importData tr = []"
| "importPolicies_runs rm options (key # rest) importData tr =
     (case importPolicy_entry rm options importData key tr of
        (errors, response, importData', tr') \<Rightarrow>
          (key, errors) # importPolicies_runs rm options rest importData' tr')"

definition names_policy :: "remote \<Rightarrow> string \<Rightarrow> error \<Rightarrow> bool" where
  "names_policy rm policyId e \<longleftrightarrow>
     (\<exists>causes.
        e = FrodoError (''Error importing '' @ realm rm @ '' prerequisites for policy '' @ policyId)
              causes \<or>
        e = FrodoError (''Error updating '' @ realm rm @ '' policy '' @ policyId) causes \<or>
        e = FrodoError (''Error importing '' @ realm rm @ '' soft dependencies for policy '' @
                          policyId) causes)"

text \<open>\<open>contains\<close> tells whether a message has the given words in it.\<close>

fun contains :: "string \<Rightarrow> string \<Rightarrow> bool" where
  "contains [] part = (part = [])"
| "contains (c # rest) part = (take (length part) (c # rest) = part \<or> contains rest part)"

text \<open>A store that fails on every write of the policy \<open>p2\<close>.\<close>

definition p2_failing_remote :: remote where
  "p2_failing_remote =
     sample_remote\<lparr>api_putPolicy :=
       (\<lambda>tr policyId policyData. if policyId = ''p2'' then Inl server_error else Inr policyData)\<rparr>"

text \<open>A store that fails on a write of a policy set once a policy has been written.\<close>

definition policyset_failing_remote :: remote where
  "policyset_failing_remote =
     sample_remote\<lparr>updatePolicySet := (\<lambda>tr policySetData.
        if \<exists>c\<in>set tr. is_policy_write c then Inl server_error
        else (case policySetData of Own d \<Rightarrow> Inr d | other \<Rightarrow> Inl server_error))\<rparr>"

definition empty_policy_bundle :: PolicyExportInterface where
  "empty_policy_bundle =
     \<lparr>pb_meta = None, pb_script = [], pb_resourcetype = [], pb_policy = [], pb_policyset = []\<rparr>"

definition plain_import :: PolicyImportOptions where
  "plain_import = \<lparr>pi_deps = False, pi_prereqs = False, pi_policySetName = None\<rparr>"

definition full_import :: PolicyImportOptions where
  "full_import = \<lparr>pi_deps = True, pi_prereqs = True, pi_policySetName = None\<rparr>"

section \<open>Specification side of the bundle after an import\<close>

text \<open>
  The client object of a bundle entry after its import. The entry loses \<open>_rev\<close> and
  \<open>_provider\<close>. When the references of its override map were written without error (or
  are not imported) the client is written, and when the store answers that first write
  with the "invalid attribute" rejection and a list of valid attributes, the repair is
  made on the object, property by property up to the first one that is \<open>null\<close>:
  \<open>repair_of\<close> is the client as the write leaves it.
\<close>

definition repair_of :: "remote \<Rightarrow> call list \<Rightarrow> string \<Rightarrow> client \<Rightarrow> client" where
  "repair_of rm tr clientId clientData =
     (case api_putOAuth2Client rm tr clientId clientData of
        Inr response \<Rightarrow> clientData
      | Inl e \<Rightarrow>
          if invalid_attribute e then
            (case validAttributes e of
               None \<Rightarrow> clientData
             | Some valid \<Rightarrow>
                 repaired valid (takeWhile (\<lambda>(key, v). v \<noteq> JNull) clientData) @
                 dropWhile (\<lambda>(key, v). v \<noteq> JNull) clientData)
          else clientData)"

definition client_left ::
  "remote \<Rightarrow> OAuth2ClientImportOptions \<Rightarrow> OAuth2ClientExportInterface \<Rightarrow> string \<Rightarrow> client \<Rightarrow>
   call list \<Rightarrow> client" where
  "client_left rm options importData key entry tr =
     (if oi_deps options then
        (case import_references rm importData
                (script_reference_entries (override_config (strip_client entry))) tr of
           (Some error, tr1) \<Rightarrow> strip_client entry
         | (None, tr1) \<Rightarrow> repair_of rm tr1 key (strip_client entry))
      else repair_of rm tr key (strip_client entry))"

text \<open>
  The calls made for a client entry: the writes of its script references, then, when none
  of them failed, the write of the client, and a second write, of the repaired client,
  when the first was rejected as invalid with a list of valid attributes and no property of
  the client is \<open>null\<close>. \<open>client_starts\<close> lists the traces at which the entries of a
  bundle start when they are imported one after the other.
\<close>

definition write_calls :: "remote \<Rightarrow> call list \<Rightarrow> string \<Rightarrow> client \<Rightarrow> call list" where
  "write_calls rm tr clientId clientData =
     PutOAuth2Client clientId clientData #
     (case api_putOAuth2Client rm tr clientId clientData of
        Inr response \<Rightarrow> []
      | Inl e \<Rightarrow>
          if invalid_attribute e then
            (case validAttributes e of
               None \<Rightarrow> []
             | Some valid \<Rightarrow>
                 if JNull \<in> snd ` set clientData then []
                 else [PutOAuth2Client clientId (repaired valid clientData)])
          else [])"

definition client_calls ::
  "remote \<Rightarrow> OAuth2ClientImportOptions \<Rightarrow> OAuth2ClientExportInterface \<Rightarrow> string \<Rightarrow> client \<Rightarrow>
   call list \<Rightarrow> call list" where
  "client_calls rm options importData key entry tr =
     (if oi_deps options then
        (case import_references rm importData
                (script_reference_entries (override_config (strip_client entry))) tr of
           (Some error, tr1) \<Rightarrow> drop (length tr) tr1
         | (None, tr1) \<Rightarrow> drop (length tr) tr1 @ write_calls rm tr1 key (strip_client entry))
      else write_calls rm tr key (strip_client entry))"

fun client_starts ::
  "remote \<Rightarrow> OAuth2ClientImportOptions \<Rightarrow> OAuth2ClientExportInterface \<Rightarrow>
   (string \<times> client) list \<Rightarrow> call list \<Rightarrow> call list list" where
  "client_starts rm options importData [] tr = []"
| "client_starts rm options importData ((key, entry) # rest) tr =
     tr # client_starts rm options importData rest
            (tr @ client_calls rm options importData key entry tr)"

text \<open>Import options that move the policies into the policy set \<open>set2\<close>.\<close>

definition reparent_import :: PolicyImportOptions where
  "reparent_import = \<lparr>pi_deps = False, pi_prereqs = False, pi_policySetName = Some ''set2''\<rparr>"

section \<open>Specification side of the batch exports\<close>









text \<open>A store that lists the two sample policies and cannot read the script \<open>729ee140\<close>.\<close>

definition failing_script_remote :: remote where
  "failing_script_remote =
     sample_remote\<lparr>api_getPolicies := (\<lambda>tr. Inr [sample_policy, sample_policy2]),
                   readScript := (\<lambda>tr scriptId.
                     if scriptId = Some (JStr ''729ee140'') then Inl server_error
                     else Inr \<lparr>s_id = js_string scriptId, s_script = ScriptText ''eA==''\<rparr>)\<rparr>"

definition export_with_deps :: PolicyExportOptions where
  "export_with_deps = \<lparr>pe_deps = True, pe_prereqs = False, pe_useStringArrays = False\<rparr>"








section \<open>The script reference walk is complete and duplicate-free\<close>

lemma fold_spread_set:
  "set (fold (\<lambda>x acc. if x \<in> set acc then acc else acc @ [x]) xs acc) = set acc \<union> set xs"
  by (induction xs arbitrary: acc) auto

lemma fold_spread_distinct:
  "distinct acc \<Longrightarrow> distinct (fold (\<lambda>x acc. if x \<in> set acc then acc else acc @ [x]) xs acc)"
  by (induction xs arbitrary: acc) auto

lemma set_js_set_spread: "set (js_set_spread xs) = set xs"
  by (simp add: js_set_spread_def fold_spread_set)

lemma distinct_js_set_spread: "distinct (js_set_spread xs)"
  by (simp add: js_set_spread_def fold_spread_distinct)

lemma script_leaf_ids_unfold:
  "script_leaf_ids (Condition t c cs sid) =
     (if t = Some ''AND'' \<or> t = Some ''OR'' \<or> t = Some ''NOT'' then
        (case c of None \<Rightarrow> {} | Some d \<Rightarrow> script_leaf_ids d) \<union>
        (case cs of None \<Rightarrow> {} | Some ds \<Rightarrow> (\<Union>d\<in>set ds. script_leaf_ids d))
      else if t = Some ''Script'' then {sid} else {})"
  unfolding script_leaf_ids_def
  apply (subst reaches.simps)
  apply (auto split: option.splits)
  done

lemma findScriptUuids_set: "set (findScriptUuids (Some c)) = script_leaf_ids c"
proof (induction c)
  case (Condition t c cs sid)
  then show ?case
    by (auto simp: script_leaf_ids_unfold set_js_set_spread split: option.splits)
qed

lemma findScriptUuids_distinct: "distinct (findScriptUuids x)"
  by (cases x rule: findScriptUuids.cases) (simp_all add: distinct_js_set_spread)

text \<open>
  Claim C1. For every condition tree, \<open>findScriptUuids\<close> returns exactly the \<open>scriptId\<close>
  values of the \<open>Script\<close>-type nodes reachable through \<open>AND\<close>/\<open>OR\<close>/\<open>NOT\<close> combinators
  (set equality), without duplicates; nodes of other types contribute nothing (they are
  not in \<open>script_leaf_ids\<close>); and the inputs \<open>null\<close> and \<open>{}\<close> give the empty list.
\<close>

theorem findScriptUuids_complete:
  "set (findScriptUuids (Some c)) = script_leaf_ids c \<and>
   distinct (findScriptUuids (Some c)) \<and>
   findScriptUuids None = [] \<and>
   findScriptUuids (Some (Condition None None None None)) = []"
  by (simp add: findScriptUuids_set findScriptUuids_distinct js_set_spread_def)

theorem findScriptUuids_complete_witness:
  "script_leaf_ids sample_condition = {Some ''62f18ede'', Some ''729ee140''} \<and>
   findScriptUuids (Some sample_condition) = [Some ''62f18ede'', Some ''729ee140'']"
proof -
  have run: "findScriptUuids (Some sample_condition) = [Some ''62f18ede'', Some ''729ee140'']"
    by (simp add: sample_condition_def js_set_spread_def)
  from findScriptUuids_complete [of sample_condition] run show ?thesis
    by auto
qed

section \<open>Create is a write guarded by an existence probe\<close>

lemma updateOAuth2Client_trace:
  "\<exists>rest. snd (snd (updateOAuth2Client rm clientId clientData tr)) =
     tr @ PutOAuth2Client clientId clientData # rest"
  by (auto simp: updateOAuth2Client_def Let_def
      split: sum.splits option.splits prod.splits bool.splits)

text \<open>
  Claim C10. In \<open>createPolicy\<close> and \<open>createOAuth2Client\<close> the "already exists" error is
  the outcome exactly when the probe read succeeds, and then the trace has the probe and no
  write. Whenever the probe fails, whatever the error is, the object is written right
  after the probe (\<open>_putPolicy\<close>, resp. \<open>updateOAuth2Client\<close>) and a successful write is
  the outcome.
\<close>

theorem create_probe_then_write:
  "(fst (createPolicy rm policyId policyData tr) =
       Inl (JsError (''Policy '' @ policyId @ '' already exists!'')) \<longleftrightarrow>
     (\<exists>found. api_getPolicy rm tr policyId = Inr found)) \<and>
   ((\<exists>found. api_getPolicy rm tr policyId = Inr found) \<longrightarrow>
      snd (createPolicy rm policyId policyData tr) = tr @ [GetPolicy policyId]) \<and>
   ((\<exists>e. api_getPolicy rm tr policyId = Inl e) \<longrightarrow>
      snd (createPolicy rm policyId policyData tr) =
        tr @ [GetPolicy policyId, PutPolicy policyId policyData] \<and>
      (\<forall>r. api_putPolicy rm (tr @ [GetPolicy policyId]) policyId policyData = Inr r \<longrightarrow>
           fst (createPolicy rm policyId policyData tr) = Inr r)) \<and>
   (fst (createOAuth2Client rm clientId clientData tr) =
       Inl (FrodoError (realm rm @ '' oAuth2 client '' @ clientId @ '' already exists!'') []) \<longleftrightarrow>
     (\<exists>found. api_getOAuth2Client rm tr clientId = Inr found)) \<and>
   ((\<exists>found. api_getOAuth2Client rm tr clientId = Inr found) \<longrightarrow>
      snd (createOAuth2Client rm clientId clientData tr) = tr @ [GetOAuth2Client clientId]) \<and>
   ((\<exists>e. api_getOAuth2Client rm tr clientId = Inl e) \<longrightarrow>
      (\<exists>rest. snd (createOAuth2Client rm clientId clientData tr) =
        tr @ [GetOAuth2Client clientId, PutOAuth2Client clientId clientData] @ rest) \<and>
      (\<forall>r cd t. updateOAuth2Client rm clientId clientData (tr @ [GetOAuth2Client clientId]) =
                   (Inr r, cd, t) \<longrightarrow>
           fst (createOAuth2Client rm clientId clientData tr) = Inr r))"
proof -
  have p1: "fst (createPolicy rm policyId policyData tr) =
       Inl (JsError (''Policy '' @ policyId @ '' already exists!'')) \<longleftrightarrow>
     (\<exists>found. api_getPolicy rm tr policyId = Inr found)"
    by (auto simp: createPolicy_def split: sum.splits)
  have p2: "(\<exists>found. api_getPolicy rm tr policyId = Inr found) \<longrightarrow>
      snd (createPolicy rm policyId policyData tr) = tr @ [GetPolicy policyId]"
    by (auto simp: createPolicy_def split: sum.splits)
  have p3: "(\<exists>e. api_getPolicy rm tr policyId = Inl e) \<longrightarrow>
      snd (createPolicy rm policyId policyData tr) =
        tr @ [GetPolicy policyId, PutPolicy policyId policyData] \<and>
      (\<forall>r. api_putPolicy rm (tr @ [GetPolicy policyId]) policyId policyData = Inr r \<longrightarrow>
           fst (createPolicy rm policyId policyData tr) = Inr r)"
    by (auto simp: createPolicy_def split: sum.splits)
  have o1: "fst (createOAuth2Client rm clientId clientData tr) =
       Inl (FrodoError (realm rm @ '' oAuth2 client '' @ clientId @ '' already exists!'') []) \<longleftrightarrow>
     (\<exists>found. api_getOAuth2Client rm tr clientId = Inr found)"
    by (auto simp: createOAuth2Client_def readOAuth2Client_def split: sum.splits prod.splits)
  have o2: "(\<exists>found. api_getOAuth2Client rm tr clientId = Inr found) \<longrightarrow>
      snd (createOAuth2Client rm clientId clientData tr) = tr @ [GetOAuth2Client clientId]"
    by (auto simp: createOAuth2Client_def readOAuth2Client_def split: sum.splits prod.splits)
  have o3: "(\<exists>e. api_getOAuth2Client rm tr clientId = Inl e) \<longrightarrow>
      (\<exists>rest. snd (createOAuth2Client rm clientId clientData tr) =
        tr @ [GetOAuth2Client clientId, PutOAuth2Client clientId clientData] @ rest) \<and>
      (\<forall>r cd t. updateOAuth2Client rm clientId clientData (tr @ [GetOAuth2Client clientId]) =
                   (Inr r, cd, t) \<longrightarrow>
           fst (createOAuth2Client rm clientId clientData tr) = Inr r)"
    using updateOAuth2Client_trace [of rm clientId clientData "tr @ [GetOAuth2Client clientId]"]
    by (auto simp: createOAuth2Client_def readOAuth2Client_def split: sum.splits prod.splits)
  from p1 p2 p3 o1 o2 o3 show ?thesis by blast
qed

text \<open>
  The probe fails with a server error (not a "not found"): both objects are written all
  the same. The probe succeeds: "already exists", and the probe is the only call.
\<close>

theorem create_probe_then_write_witness:
  "createPolicy (sample_remote\<lparr>api_getPolicy := \<lambda>tr policyId. Inl server_error\<rparr>)
       ''p1'' sample_policy [] =
     (Inr sample_policy, [GetPolicy ''p1'', PutPolicy ''p1'' sample_policy]) \<and>
   createOAuth2Client (sample_remote\<lparr>api_getOAuth2Client := \<lambda>tr clientId. Inl server_error\<rparr>)
       ''c1'' sample_client [] =
     (Inr sample_client, [GetOAuth2Client ''c1'', PutOAuth2Client ''c1'' sample_client]) \<and>
   createPolicy (sample_remote\<lparr>api_getPolicy := \<lambda>tr policyId. Inr sample_policy\<rparr>)
       ''p1'' sample_policy [] =
     (Inl (JsError ''Policy p1 already exists!''), [GetPolicy ''p1'']) \<and>
   createOAuth2Client (sample_remote\<lparr>api_getOAuth2Client := \<lambda>tr clientId. Inr sample_client\<rparr>)
       ''c1'' sample_client [] =
     (Inl (FrodoError ''alpha realm oAuth2 client c1 already exists!'' []),
      [GetOAuth2Client ''c1''])"
proof -
  have a: "createPolicy (sample_remote\<lparr>api_getPolicy := \<lambda>tr policyId. Inl server_error\<rparr>)
       ''p1'' sample_policy [] =
     (Inr sample_policy, [GetPolicy ''p1'', PutPolicy ''p1'' sample_policy])"
    by (simp add: createPolicy_def sample_remote_def)
  have b: "createOAuth2Client
       (sample_remote\<lparr>api_getOAuth2Client := \<lambda>tr clientId. Inl server_error\<rparr>)
       ''c1'' sample_client [] =
     (Inr sample_client, [GetOAuth2Client ''c1'', PutOAuth2Client ''c1'' sample_client])"
    by (simp add: createOAuth2Client_def readOAuth2Client_def updateOAuth2Client_def
        sample_remote_def)
  have c: "fst (createPolicy (sample_remote\<lparr>api_getPolicy := \<lambda>tr policyId. Inr sample_policy\<rparr>)
       ''p1'' sample_policy []) = Inl (JsError ''Policy p1 already exists!'') \<and>
     snd (createPolicy (sample_remote\<lparr>api_getPolicy := \<lambda>tr policyId. Inr sample_policy\<rparr>)
       ''p1'' sample_policy []) = [GetPolicy ''p1'']"
    using create_probe_then_write
      [of "sample_remote\<lparr>api_getPolicy := \<lambda>tr policyId. Inr sample_policy\<rparr>" "''p1''"
          sample_policy "[]" "''c1''" sample_client]
    by simp
  have d: "fst (createOAuth2Client
       (sample_remote\<lparr>api_getOAuth2Client := \<lambda>tr clientId. Inr sample_client\<rparr>)
       ''c1'' sample_client []) =
         Inl (FrodoError ''alpha realm oAuth2 client c1 already exists!'' []) \<and>
     snd (createOAuth2Client
       (sample_remote\<lparr>api_getOAuth2Client := \<lambda>tr clientId. Inr sample_client\<rparr>)
       ''c1'' sample_client []) = [GetOAuth2Client ''c1'']"
    using create_probe_then_write
      [of "sample_remote\<lparr>api_getOAuth2Client := \<lambda>tr clientId. Inr sample_client\<rparr>" "''p1''"
          sample_policy "[]" "''c1''" sample_client]
    by (simp add: realm_def sample_remote_def)
  from a b c d show ?thesis by (metis prod.collapse)
qed

section \<open>The single repair of a rejected OAuth2 client write\<close>

lemma strip_elements_nth:
  "strip_elements valid elements =
     map (\<lambda>i. if string_of_nat i \<in> set valid then elements ! i else None)
       [0..<length elements]"
  unfolding strip_elements_def by (rule nth_equalityI) simp_all

lemma strip_invalid_repaired:
  "JNull \<notin> snd ` set clientData \<Longrightarrow>
   strip_invalid (valid @ [''_id'']) clientData = (False, repaired valid clientData)"
proof (induction clientData)
  case Nil
  then show ?case by (simp add: repaired_def)
next
  case (Cons kv rest)
  obtain key v where kv: "kv = (key, v)" by (cases kv)
  from Cons have ih: "strip_invalid (valid @ [''_id'']) rest = (False, repaired valid rest)"
    by auto
  from Cons.prems kv have "v \<noteq> JNull" by auto
  then show ?case using ih kv
    by (cases v) (simp_all add: repaired_def strip_elements_nth)
qed

text \<open>
  Claim C7, as amended. A successful write is one call. A write rejected with status 400
  and "Invalid attribute specified." (the rejection carrying a valid-attribute list, no
  property of the client being \<open>null\<close>) is followed by exactly one more write, of the
  repaired client; when that retry fails, the error raised wraps the failure of the retry.
  Any other rejection is raised after the one call, the client untouched. No run makes
  more than two writes.
\<close>

theorem updateOAuth2Client_single_repair:
  "(\<forall>response. api_putOAuth2Client rm tr clientId clientData = Inr response \<longrightarrow>
      updateOAuth2Client rm clientId clientData tr =
        (Inr response, clientData, tr @ [PutOAuth2Client clientId clientData])) \<and>
   (\<forall>error valid.
      api_putOAuth2Client rm tr clientId clientData = Inl error \<and> invalid_attribute error \<and>
      validAttributes error = Some valid \<and> JNull \<notin> snd ` set clientData \<longrightarrow>
      updateOAuth2Client rm clientId clientData tr =
        (case api_putOAuth2Client rm (tr @ [PutOAuth2Client clientId clientData]) clientId
                (repaired valid clientData) of
           Inr response \<Rightarrow> Inr response
         | Inl error' \<Rightarrow> Inl (update_failure rm clientId (Thrown error')),
         repaired valid clientData,
         tr @ [PutOAuth2Client clientId clientData,
               PutOAuth2Client clientId (repaired valid clientData)])) \<and>
   (\<forall>error.
      api_putOAuth2Client rm tr clientId clientData = Inl error \<and> \<not> invalid_attribute error \<longrightarrow>
      updateOAuth2Client rm clientId clientData tr =
        (Inl (update_failure rm clientId (Thrown error)), clientData,
         tr @ [PutOAuth2Client clientId clientData])) \<and>
   length (snd (snd (updateOAuth2Client rm clientId clientData tr))) \<le> length tr + 2"
proof -
  have a: "\<forall>response. api_putOAuth2Client rm tr clientId clientData = Inr response \<longrightarrow>
      updateOAuth2Client rm clientId clientData tr =
        (Inr response, clientData, tr @ [PutOAuth2Client clientId clientData])"
    by (simp add: updateOAuth2Client_def)
  have b: "\<forall>error valid.
      api_putOAuth2Client rm tr clientId clientData = Inl error \<and> invalid_attribute error \<and>
      validAttributes error = Some valid \<and> JNull \<notin> snd ` set clientData \<longrightarrow>
      updateOAuth2Client rm clientId clientData tr =
        (case api_putOAuth2Client rm (tr @ [PutOAuth2Client clientId clientData]) clientId
                (repaired valid clientData) of
           Inr response \<Rightarrow> Inr response
         | Inl error' \<Rightarrow> Inl (update_failure rm clientId (Thrown error')),
         repaired valid clientData,
         tr @ [PutOAuth2Client clientId clientData,
               PutOAuth2Client clientId (repaired valid clientData)])"
    by (auto simp: updateOAuth2Client_def invalid_attribute_def update_failure_def
        strip_invalid_repaired split: sum.splits)
  have c: "\<forall>error.
      api_putOAuth2Client rm tr clientId clientData = Inl error \<and> \<not> invalid_attribute error \<longrightarrow>
      updateOAuth2Client rm clientId clientData tr =
        (Inl (update_failure rm clientId (Thrown error)), clientData,
         tr @ [PutOAuth2Client clientId clientData])"
    by (auto simp: updateOAuth2Client_def invalid_attribute_def update_failure_def)
  have d: "length (snd (snd (updateOAuth2Client rm clientId clientData tr))) \<le> length tr + 2"
    by (auto simp: updateOAuth2Client_def Let_def
        split: sum.splits option.splits prod.splits bool.splits)
  from a b c d show ?thesis by blast
qed

text \<open>
  The sample client is rejected for its attribute \<open>bogus\<close>; the repair removes it (and
  the attributes of the other object-valued properties that the server did not list), the
  retry is made once and its failure is what the caller gets.
\<close>

theorem updateOAuth2Client_single_repair_witness:
  "updateOAuth2Client rejecting_remote ''c1'' sample_client [] =
     (Inl (update_failure rejecting_remote ''c1'' (Thrown server_error)),
      repaired [''status''] sample_client,
      [PutOAuth2Client ''c1'' sample_client,
       PutOAuth2Client ''c1'' (repaired [''status''] sample_client)]) \<and>
   map_of (repaired [''status''] sample_client) ''coreOAuth2ClientConfig'' =
     Some (JObj [(''status'', JStr ''Active'')])"
proof -
  have first: "api_putOAuth2Client rejecting_remote [] ''c1'' sample_client =
      Inl invalid_attribute_error"
    by (simp add: rejecting_remote_def sample_remote_def)
  have rejected: "invalid_attribute invalid_attribute_error"
    by (simp add: invalid_attribute_def invalid_attribute_error_def)
  have valid: "validAttributes invalid_attribute_error = Some [''status'']"
    by (simp add: invalid_attribute_error_def)
  have no_null: "JNull \<notin> snd ` set sample_client"
    by (simp add: sample_client_def)
  have retry: "api_putOAuth2Client rejecting_remote ([] @ [PutOAuth2Client ''c1'' sample_client])
      ''c1'' (repaired [''status''] sample_client) = Inl server_error"
    by (simp add: rejecting_remote_def sample_remote_def)
  have kept: "map_of (repaired [''status''] sample_client) ''coreOAuth2ClientConfig'' =
     Some (JObj [(''status'', JStr ''Active'')])"
    by (simp add: repaired_def sample_client_def)
  from updateOAuth2Client_single_repair [of rejecting_remote "[]" "''c1''" sample_client]
    first rejected valid no_null
  have "updateOAuth2Client rejecting_remote ''c1'' sample_client [] =
        (case api_putOAuth2Client rejecting_remote ([] @ [PutOAuth2Client ''c1'' sample_client])
                ''c1'' (repaired [''status''] sample_client) of
           Inr response \<Rightarrow> Inr response
         | Inl error' \<Rightarrow> Inl (update_failure rejecting_remote ''c1'' (Thrown error')),
         repaired [''status''] sample_client,
         [] @ [PutOAuth2Client ''c1'' sample_client,
               PutOAuth2Client ''c1'' (repaired [''status''] sample_client)])"
    by blast
  with retry kept show ?thesis by simp
qed

text \<open>
  The claim as written says that a failed retry surfaces the original failure. In the run
  above the original failure is the rejection with status 400 and the error raised wraps
  the failure of the retry (status 500) instead.
\<close>

theorem updateOAuth2Client_original_failure_counterexample:
  "api_putOAuth2Client rejecting_remote [] ''c1'' sample_client = Inl invalid_attribute_error \<and>
   invalid_attribute invalid_attribute_error \<and>
   fst (updateOAuth2Client rejecting_remote ''c1'' sample_client []) =
     Inl (update_failure rejecting_remote ''c1'' (Thrown server_error)) \<and>
   fst (updateOAuth2Client rejecting_remote ''c1'' sample_client []) \<noteq>
     Inl (update_failure rejecting_remote ''c1'' (Thrown invalid_attribute_error))"
  by (simp add: rejecting_remote_def sample_remote_def updateOAuth2Client_def
      invalid_attribute_def invalid_attribute_error_def server_error_def sample_client_def
      update_failure_def realm_def)

section \<open>Failures of a run and objects as written by assignment\<close>

lemma failures_append:
  "failures dropped rm tr (xs @ ys) =
     failures dropped rm tr xs @ failures dropped rm (tr @ xs) ys"
  by (induction xs arbitrary: tr) simp_all

lemma failures_one:
  "failures dropped rm tr [c] =
     (case answer rm tr c of None \<Rightarrow> [] | Some e \<Rightarrow> if dropped c e then [] else [e])"
  by simp

lemma map_of_insert_fresh:
  "key \<notin> fst ` set (xs @ ys) \<Longrightarrow>
   map_of (xs @ (key, v) # ys) k = (if k = key then Some v else map_of (xs @ ys) k)"
  by (induction xs) (auto simp: map_of_eq_None_iff [symmetric])

lemma map_of_js_set:
  "map_of (js_set key v obj) k =
     (if k = key \<and> (key \<noteq> ''__proto__'' \<or> key \<in> fst ` set obj) then Some v
      else map_of obj k)"
proof (cases "key \<in> fst ` set obj")
  case True
  then show ?thesis by (simp add: js_set_def update_conv')
next
  case fresh: False
  show ?thesis
  proof (cases "key = ''__proto__''")
    case True
    with fresh show ?thesis by (simp add: js_set_def)
  next
    case proper: False
    show ?thesis
    proof (cases "index_of key")
      case None
      from fresh have "key \<notin> fst ` set (obj @ [])" by simp
      from map_of_insert_fresh [OF this, of v k] proper fresh None
      show ?thesis by (simp add: js_set_def)
    next
      case (Some n)
      let ?P = "\<lambda>(k, x). case index_of k of Some m \<Rightarrow> m < n | None \<Rightarrow> False"
      from fresh have "key \<notin> fst ` set (takeWhile ?P obj @ dropWhile ?P obj)" by simp
      from map_of_insert_fresh [OF this, of v k] proper fresh Some
      show ?thesis by (simp add: js_set_def)
    qed
  qed
qed

lemma js_get_js_set:
  "js_get (js_set key v obj) k =
     (if k = key \<and> (key \<noteq> ''__proto__'' \<or> key \<in> fst ` set obj) then Own v
      else js_get obj k)"
  by (auto simp: js_get_def map_of_js_set)

lemma js_get_proto: "js_get obj ''__proto__'' \<noteq> Missing"
  by (simp add: js_get_def object_prototype_def split: option.splits)

lemma js_get_js_set_found: "js_get (js_set key v obj) key \<noteq> Missing"
  by (cases "key = ''__proto__''") (simp_all add: js_get_js_set js_get_proto)

lemma js_get_js_set_kept: "js_get obj k \<noteq> Missing \<Longrightarrow> js_get (js_set key v obj) k \<noteq> Missing"
  by (simp add: js_get_js_set)

section \<open>Script references of an OAuth2 client's override map\<close>

lemma override_entries_falsy: "\<not> truthy x \<Longrightarrow> override_entries x = []"
  by (cases x rule: truthy.cases) simp_all

lemma exportOAuth2ClientDependencies_loop_eq:
  "exportOAuth2ClientDependencies rm clientData options exportData tr =
     exportOAuth2ClientDependencies_loop rm clientData options (override_config clientData) exportData tr"
proof (cases "truthy (map_of clientData ''overrideOAuth2ClientConfig'')")
  case True
  then show ?thesis by (simp add: exportOAuth2ClientDependencies_def override_config_def)
next
  case False
  then have "override_config clientData = []"
    unfolding override_config_def by (rule override_entries_falsy)
  with False show ?thesis by (simp add: exportOAuth2ClientDependencies_def)
qed

lemma importOAuth2ClientDependencies_loop_eq:
  "importOAuth2ClientDependencies rm clientData importData tr =
     importOAuth2ClientDependencies_loop rm importData (override_config clientData) tr"
proof (cases "truthy (map_of clientData ''overrideOAuth2ClientConfig'')")
  case True
  then show ?thesis by (simp add: importOAuth2ClientDependencies_def override_config_def)
next
  case False
  then have "override_config clientData = []"
    unfolding override_config_def by (rule override_entries_falsy)
  with False show ?thesis by (simp add: importOAuth2ClientDependencies_def)
qed

lemma script_reference_entries_Cons:
  "script_reference_entries ((key, v) # rest) =
     (if endsWith key ''Script'' \<and> v \<noteq> JStr ''[Empty]''
      then (key, v) # script_reference_entries rest else script_reference_entries rest)"
  by (simp add: script_reference_entries_def)

lemma export_loop_references:
  "exportOAuth2ClientDependencies_loop rm clientData options entries exportData tr =
     export_references rm clientData options (script_reference_entries entries) exportData tr"
proof (induction entries arbitrary: exportData tr)
  case Nil
  then show ?case by (simp add: script_reference_entries_def)
next
  case (Cons entry rest)
  obtain key v where entry: "entry = (key, v)" by (cases entry)
  show ?case
  proof (cases "endsWith key ''Script'' \<and> v \<noteq> JStr ''[Empty]''")
    case False
    with Cons.IH entry show ?thesis by (auto simp: script_reference_entries_Cons)
  next
    case ref: True
    show ?thesis
    proof (cases "ob_script exportData")
      case None
      with ref entry show ?thesis by (simp add: script_reference_entries_Cons)
    next
      case (Some scripts)
      with ref entry show ?thesis
        by (simp add: script_reference_entries_Cons capability_absence_def Cons.IH
            split: sum.splits)
    qed
  qed
qed

lemma import_loop_references:
  "importOAuth2ClientDependencies_loop rm importData entries tr =
     import_references rm importData (script_reference_entries entries) tr"
proof (induction entries arbitrary: tr)
  case Nil
  then show ?case by (simp add: script_reference_entries_def)
next
  case (Cons entry rest)
  obtain key v where entry: "entry = (key, v)" by (cases entry)
  show ?case
  proof (cases "endsWith key ''Script'' \<and> v \<noteq> JStr ''[Empty]''")
    case False
    with Cons.IH entry show ?thesis by (auto simp: script_reference_entries_Cons)
  next
    case ref: True
    show ?thesis
    proof (cases "ob_script importData")
      case None
      with ref Cons.IH entry show ?thesis
        by (simp add: script_reference_entries_Cons bundle_script_def)
    next
      case (Some scripts)
      with ref Cons.IH entry show ?thesis
        by (simp add: script_reference_entries_Cons bundle_script_def split: sum.splits)
    qed
  qed
qed

lemma exportOAuth2ClientDependencies_references:
  "exportOAuth2ClientDependencies rm clientData options exportData tr =
     export_references rm clientData options
       (script_reference_entries (override_config clientData)) exportData tr"
  by (simp add: exportOAuth2ClientDependencies_loop_eq export_loop_references)

lemma importOAuth2ClientDependencies_references:
  "importOAuth2ClientDependencies rm clientData importData tr =
     import_references rm importData (script_reference_entries (override_config clientData)) tr"
  by (simp add: importOAuth2ClientDependencies_loop_eq import_loop_references)

lemma script_references_Cons:
  "script_references ((key, v) # rest) =
     (if endsWith key ''Script'' \<and> v \<noteq> JStr ''[Empty]'' then v # script_references rest
      else script_references rest)"
  by (simp add: script_references_def script_reference_entries_def)

lemma covered_read: "covered scripts (v # reads) v"
  by (simp add: covered_def)

lemma covered_later: "covered scripts reads v \<Longrightarrow> covered scripts (w # reads) v"
  by (auto simp: covered_def)

lemma covered_present: "js_get scripts (js_string (Some v)) \<noteq> Missing \<Longrightarrow> covered scripts reads v"
  by (simp add: covered_def)

lemma covered_stored:
  "covered (js_set (js_string (Some w)) sd scripts) reads v \<Longrightarrow>
   covered scripts (w # reads) v"
  unfolding covered_def js_get_js_set by (auto split: if_splits)

lemma update_keys: "fst ` set (AList.update k v al) = insert k (fst ` set al)"
  by (induction al) auto

lemma map_of_present: "map_of al k = Some v \<Longrightarrow> k \<in> fst ` set al"
  by (induction al) (auto split: if_splits)

lemma export_references_reads:
  "export_references rm clientData options refs exportData tr = (outcome, exportData', tr') \<Longrightarrow>
   \<exists>reads. tr' = tr @ map (\<lambda>v. ReadScript (Some v)) reads \<and>
     set reads \<subseteq> snd ` set refs \<and>
     (\<forall>scripts. outcome = None \<and> ob_script exportData = Some scripts \<longrightarrow>
        (\<forall>v\<in>snd ` set refs. covered scripts reads v))"
proof (induction refs arbitrary: exportData tr)
  case Nil
  then show ?case by simp
next
  case (Cons entry rest)
  obtain key scriptId where entry: "entry = (key, scriptId)" by (cases entry)
  show ?case
  proof (cases "ob_script exportData")
    case None
    with Cons.prems entry have "tr' = tr" "outcome = Some TypeError" by simp_all
    then show ?thesis by (intro exI [of _ "[]"]) simp
  next
    case (Some scripts)
    show ?thesis
    proof (cases "js_get scripts (js_string (Some scriptId)) \<noteq> Missing")
      case present: True
      with Cons.prems entry Some
      have run: "export_references rm clientData options rest exportData tr =
          (outcome, exportData', tr')" by simp
      from Cons.IH [OF run] obtain reads where
        r1: "tr' = tr @ map (\<lambda>v. ReadScript (Some v)) reads"
        and r2: "set reads \<subseteq> snd ` set rest"
        and r3: "\<forall>scripts. outcome = None \<and> ob_script exportData = Some scripts \<longrightarrow>
            (\<forall>v\<in>snd ` set rest. covered scripts reads v)"
        by blast
      have c: "\<forall>scripts. outcome = None \<and> ob_script exportData = Some scripts \<longrightarrow>
            (\<forall>v\<in>snd ` set (entry # rest). covered scripts reads v)"
        using r3 present Some entry by (auto intro: covered_present)
      from r1 r2 c show ?thesis by (intro exI [of _ reads]) auto
    next
      case False
      then have absent: "js_get scripts (js_string (Some scriptId)) = Missing" by simp
      show ?thesis
      proof (cases "readScript rm tr (Some scriptId)")
        case (Inr scriptData)
        define sd where "sd = (if oe_useStringArrays options then
                          scriptData\<lparr>s_script :=
                            ScriptLines (convertBase64TextToArray rm (s_script scriptData))\<rparr>
                        else scriptData)"
        define ed where "ed = exportData\<lparr>ob_script :=
           Some (js_set (js_string (Some scriptId)) sd scripts)\<rparr>"
        from Cons.prems entry Some absent Inr
        have run: "export_references rm clientData options rest ed
            (tr @ [ReadScript (Some scriptId)]) = (outcome, exportData', tr')"
          by (simp add: ed_def sd_def)
        from Cons.IH [OF run] obtain reads where
          r1: "tr' = (tr @ [ReadScript (Some scriptId)]) @ map (\<lambda>v. ReadScript (Some v)) reads"
          and r2: "set reads \<subseteq> snd ` set rest"
          and r3: "\<forall>scripts. outcome = None \<and> ob_script ed = Some scripts \<longrightarrow>
            (\<forall>v\<in>snd ` set rest. covered scripts reads v)"
          by blast
        have ed: "ob_script ed = Some (js_set (js_string (Some scriptId)) sd scripts)"
          by (simp add: ed_def)
        have c: "\<forall>scripts. outcome = None \<and> ob_script exportData = Some scripts \<longrightarrow>
            (\<forall>v\<in>snd ` set (entry # rest). covered scripts (scriptId # reads) v)"
          using r3 ed Some entry by (auto intro: covered_read covered_stored)
        from r1 r2 c show ?thesis using entry
          by (intro exI [of _ "scriptId # reads"]) auto
      next
        case (Inl error)
        show ?thesis
        proof (cases "capability_absence (ReadScript (Some scriptId)) error")
          case True
          with Cons.prems entry Some absent Inl
          have run: "export_references rm clientData options rest exportData
            (tr @ [ReadScript (Some scriptId)]) = (outcome, exportData', tr')"
            by simp
          from Cons.IH [OF run] obtain reads where
            r1: "tr' = (tr @ [ReadScript (Some scriptId)]) @ map (\<lambda>v. ReadScript (Some v)) reads"
            and r2: "set reads \<subseteq> snd ` set rest"
            and r3: "\<forall>scripts. outcome = None \<and> ob_script exportData = Some scripts \<longrightarrow>
              (\<forall>v\<in>snd ` set rest. covered scripts reads v)"
            by blast
          have c: "\<forall>scripts. outcome = None \<and> ob_script exportData = Some scripts \<longrightarrow>
            (\<forall>v\<in>snd ` set (entry # rest). covered scripts (scriptId # reads) v)"
            using r3 entry by (auto intro: covered_read covered_later)
          from r1 r2 c show ?thesis using entry
            by (intro exI [of _ "scriptId # reads"]) auto
        next
          case False
          with Cons.prems entry Some absent Inl
          have "tr' = tr @ [ReadScript (Some scriptId)]" "outcome \<noteq> None"
            by auto
          then show ?thesis using entry
            by (intro exI [of _ "[scriptId]"]) auto
        qed
      qed
    qed
  qed
qed

lemma export_references_prefix:
  "\<exists>calls. snd (snd (export_references rm clientData options refs exportData tr)) = tr @ calls"
proof -
  obtain outcome exportData' tr' where run:
    "export_references rm clientData options refs exportData tr = (outcome, exportData', tr')"
    by (cases "export_references rm clientData options refs exportData tr") auto
  from export_references_reads [OF run] show ?thesis unfolding run by auto
qed

lemma export_references_failures:
  "ob_script exportData \<noteq> None \<Longrightarrow>
   raised_leaves (fst (export_references rm clientData options refs exportData tr)) =
     failures capability_absence rm tr
       (drop (length tr) (snd (snd (export_references rm clientData options refs exportData tr)))) \<and>
   (fst (export_references rm clientData options refs exportData tr) = None \<longleftrightarrow>
     failures capability_absence rm tr
       (drop (length tr) (snd (snd (export_references rm clientData options refs exportData tr)))) = [])"
proof (induction refs arbitrary: exportData tr)
  case Nil
  then show ?case by (simp add: raised_leaves_def)
next
  case (Cons entry rest)
  obtain key scriptId where entry: "entry = (key, scriptId)" by (cases entry)
  from Cons.prems obtain scripts where Some: "ob_script exportData = Some scripts" by auto
  let ?c = "ReadScript (Some scriptId)"
  show ?case
  proof (cases "js_get scripts (js_string (Some scriptId)) \<noteq> Missing")
    case True
    with Cons.IH [OF Cons.prems, of tr] entry Some show ?thesis by simp
  next
    case False
    then have absent: "js_get scripts (js_string (Some scriptId)) = Missing" by simp
    show ?thesis
    proof (cases "readScript rm tr (Some scriptId)")
      case (Inr scriptData)
      define ed where "ed = exportData\<lparr>ob_script :=
         Some (js_set (js_string (Some scriptId))
           (if oe_useStringArrays options then
              scriptData\<lparr>s_script :=
                ScriptLines (convertBase64TextToArray rm (s_script scriptData))\<rparr>
            else scriptData) scripts)\<rparr>"
      have ed: "ob_script ed \<noteq> None" by (simp add: ed_def)
      have step: "export_references rm clientData options (entry # rest) exportData tr =
          export_references rm clientData options rest ed (tr @ [?c])"
        using entry Some absent Inr by (simp add: ed_def)
      from export_references_prefix [of rm clientData options rest ed "tr @ [?c]"]
      obtain calls where calls:
        "snd (snd (export_references rm clientData options rest ed (tr @ [?c]))) =
           (tr @ [?c]) @ calls" by blast
      from Cons.IH [OF ed, of "tr @ [?c]"] Inr show ?thesis
        unfolding step calls by (simp add: failure_def)
    next
      case (Inl error)
      show ?thesis
      proof (cases "capability_absence ?c error")
        case True
        have step: "export_references rm clientData options (entry # rest) exportData tr =
            export_references rm clientData options rest exportData (tr @ [?c])"
          using entry Some absent Inl True by simp
        from export_references_prefix [of rm clientData options rest exportData "tr @ [?c]"]
        obtain calls where calls:
          "snd (snd (export_references rm clientData options rest exportData (tr @ [?c]))) =
             (tr @ [?c]) @ calls" by blast
        from Cons.IH [OF Cons.prems, of "tr @ [?c]"] Inl True show ?thesis
          unfolding step calls by (simp add: failure_def)
      next
        case False
        with entry Some absent Inl show ?thesis
          by (simp add: failure_def raised_leaves_def)
      qed
    qed
  qed
qed

lemma export_references_kept:
  "ob_script exportData = Some scripts \<Longrightarrow>
   \<exists>scripts'. ob_script (fst (snd (export_references rm clientData options refs exportData tr))) =
       Some scripts' \<and>
     (\<forall>k. js_get scripts k \<noteq> Missing \<longrightarrow> js_get scripts' k \<noteq> Missing)"
proof (induction refs arbitrary: exportData tr scripts)
  case Nil
  then show ?case by simp
next
  case (Cons entry rest)
  obtain key scriptId where entry: "entry = (key, scriptId)" by (cases entry)
  let ?c = "ReadScript (Some scriptId)"
  show ?case
  proof (cases "js_get scripts (js_string (Some scriptId)) \<noteq> Missing")
    case True
    with Cons.IH [OF Cons.prems, of tr] entry Cons.prems show ?thesis by simp
  next
    case False
    then have absent: "js_get scripts (js_string (Some scriptId)) = Missing" by simp
    show ?thesis
    proof (cases "readScript rm tr (Some scriptId)")
      case (Inr scriptData)
      define sd where "sd = (if oe_useStringArrays options then
              scriptData\<lparr>s_script :=
                ScriptLines (convertBase64TextToArray rm (s_script scriptData))\<rparr>
            else scriptData)"
      define ed where "ed = exportData\<lparr>ob_script :=
         Some (js_set (js_string (Some scriptId)) sd scripts)\<rparr>"
      have ed: "ob_script ed = Some (js_set (js_string (Some scriptId)) sd scripts)"
        by (simp add: ed_def)
      have step: "export_references rm clientData options (entry # rest) exportData tr =
          export_references rm clientData options rest ed (tr @ [?c])"
        using entry Cons.prems absent Inr by (simp add: ed_def sd_def)
      from Cons.IH [OF ed, of "tr @ [?c]"] obtain scripts' where
        s: "ob_script (fst (snd (export_references rm clientData options rest ed (tr @ [?c])))) =
              Some scripts'"
           "\<forall>k. js_get (js_set (js_string (Some scriptId)) sd scripts) k \<noteq> Missing \<longrightarrow>
              js_get scripts' k \<noteq> Missing"
        by blast
      from s(2) have "\<forall>k. js_get scripts k \<noteq> Missing \<longrightarrow> js_get scripts' k \<noteq> Missing"
        using js_get_js_set_kept [of scripts _ "js_string (Some scriptId)" sd] by blast
      with s(1) show ?thesis unfolding step by simp
    next
      case (Inl error)
      show ?thesis
      proof (cases "capability_absence ?c error")
        case True
        have step: "export_references rm clientData options (entry # rest) exportData tr =
            export_references rm clientData options rest exportData (tr @ [?c])"
          using entry Cons.prems absent Inl True by simp
        from Cons.IH [OF Cons.prems, of "tr @ [?c]"] show ?thesis unfolding step .
      next
        case False
        with entry Cons.prems absent Inl show ?thesis by simp
      qed
    qed
  qed
qed

lemma export_references_stored:
  "ob_script exportData = Some scripts \<Longrightarrow>
   fst (export_references rm clientData options refs exportData tr) = None \<Longrightarrow>
   failures nothing_dropped rm tr
     (drop (length tr) (snd (snd (export_references rm clientData options refs exportData tr)))) = [] \<Longrightarrow>
   ob_script (fst (snd (export_references rm clientData options refs exportData tr))) = Some scripts' \<Longrightarrow>
   \<forall>v\<in>snd ` set refs. js_get scripts' (js_string (Some v)) \<noteq> Missing"
proof (induction refs arbitrary: exportData tr scripts)
  case Nil
  then show ?case by simp
next
  case (Cons entry rest)
  obtain key scriptId where entry: "entry = (key, scriptId)" by (cases entry)
  let ?c = "ReadScript (Some scriptId)"
  show ?case
  proof (cases "js_get scripts (js_string (Some scriptId)) \<noteq> Missing")
    case True
    with entry Cons.prems
    have step: "export_references rm clientData options (entry # rest) exportData tr =
        export_references rm clientData options rest exportData tr" by simp
    from Cons.IH [OF Cons.prems(1) Cons.prems(2-4) [unfolded step]]
    have rest: "\<forall>v\<in>snd ` set rest. js_get scripts' (js_string (Some v)) \<noteq> Missing" .
    from export_references_kept [OF Cons.prems(1), of rm clientData options rest tr]
      Cons.prems(4) [unfolded step] True
    have "js_get scripts' (js_string (Some scriptId)) \<noteq> Missing" by auto
    with rest entry show ?thesis by simp
  next
    case False
    then have absent: "js_get scripts (js_string (Some scriptId)) = Missing" by simp
    show ?thesis
    proof (cases "readScript rm tr (Some scriptId)")
      case (Inr scriptData)
      define sd where "sd = (if oe_useStringArrays options then
              scriptData\<lparr>s_script :=
                ScriptLines (convertBase64TextToArray rm (s_script scriptData))\<rparr>
            else scriptData)"
      define ed where "ed = exportData\<lparr>ob_script :=
         Some (js_set (js_string (Some scriptId)) sd scripts)\<rparr>"
      have ed: "ob_script ed = Some (js_set (js_string (Some scriptId)) sd scripts)"
        by (simp add: ed_def)
      have step: "export_references rm clientData options (entry # rest) exportData tr =
          export_references rm clientData options rest ed (tr @ [?c])"
        using entry Cons.prems(1) absent Inr by (simp add: ed_def sd_def)
      from export_references_prefix [of rm clientData options rest ed "tr @ [?c]"]
      obtain calls where calls:
        "snd (snd (export_references rm clientData options rest ed (tr @ [?c]))) =
           (tr @ [?c]) @ calls" by blast
      from Cons.prems(3) have quiet: "failures nothing_dropped rm (tr @ [?c])
          (drop (length (tr @ [?c]))
             (snd (snd (export_references rm clientData options rest ed (tr @ [?c]))))) = []"
        unfolding step calls by simp
      from Cons.IH [OF ed Cons.prems(2) [unfolded step] quiet Cons.prems(4) [unfolded step]]
      have rest: "\<forall>v\<in>snd ` set rest. js_get scripts' (js_string (Some v)) \<noteq> Missing" .
      from export_references_kept [OF ed, of rm clientData options rest "tr @ [?c]"]
        Cons.prems(4) [unfolded step]
      have "js_get scripts' (js_string (Some scriptId)) \<noteq> Missing"
        using js_get_js_set_found [of "js_string (Some scriptId)" sd scripts] by auto
      with rest entry show ?thesis by simp
    next
      case (Inl error)
      have step: "\<exists>calls. snd (snd (export_references rm clientData options (entry # rest)
          exportData tr)) = tr @ ?c # calls"
      proof (cases "capability_absence ?c error")
        case True
        from export_references_prefix [of rm clientData options rest exportData "tr @ [?c]"]
        show ?thesis using entry Cons.prems(1) absent Inl True by simp
      next
        case False
        then show ?thesis using entry Cons.prems(1) absent Inl by simp
      qed
      then obtain calls where "snd (snd (export_references rm clientData options (entry # rest)
          exportData tr)) = tr @ ?c # calls" by blast
      with Cons.prems(3) Inl have False by (simp add: failure_def nothing_dropped_def)
      then show ?thesis ..
    qed
  qed
qed

lemma import_references_writes:
  "import_references rm importData refs tr = (outcome, tr') \<Longrightarrow>
   \<exists>ws later.
     filter (\<lambda>v. bundle_script importData v \<noteq> Missing) (map snd refs) = ws @ later \<and>
     tr' = tr @ map (\<lambda>v. UpdateScript (Some v) (bundle_script importData v)) ws \<and>
     (outcome = None \<longrightarrow> later = [])"
proof (induction refs arbitrary: tr)
  case Nil
  then show ?case by simp
next
  case (Cons entry rest)
  obtain key scriptId where entry: "entry = (key, scriptId)" by (cases entry)
  let ?c = "UpdateScript (Some scriptId) (bundle_script importData scriptId)"
  show ?case
  proof (cases "bundle_script importData scriptId = Missing")
    case True
    with Cons.prems entry
    have run: "import_references rm importData rest tr = (outcome, tr')" by simp
    from True entry
    have f: "filter (\<lambda>v. bundle_script importData v \<noteq> Missing) (map snd (entry # rest)) =
        filter (\<lambda>v. bundle_script importData v \<noteq> Missing) (map snd rest)"
      by simp
    show ?thesis unfolding f by (rule Cons.IH [OF run])
  next
    case False
    with entry
    have f: "filter (\<lambda>v. bundle_script importData v \<noteq> Missing) (map snd (entry # rest)) =
        scriptId # filter (\<lambda>v. bundle_script importData v \<noteq> Missing) (map snd rest)"
      by simp
    show ?thesis
    proof (cases "updateScript rm tr (Some scriptId) (bundle_script importData scriptId)")
      case (Inl e)
      with Cons.prems entry False
      have "tr' = tr @ [?c]" "outcome \<noteq> None" by auto
      then show ?thesis unfolding f
        apply (rule_tac x = "[scriptId]" in exI)
        apply (rule_tac x = "filter (\<lambda>v. bundle_script importData v \<noteq> Missing)
                               (map snd rest)" in exI)
        apply auto
        done
    next
      case (Inr r)
      with Cons.prems entry False
      have run: "import_references rm importData rest (tr @ [?c]) = (outcome, tr')" by simp
      from Cons.IH [OF run] obtain ws later where
        w1: "filter (\<lambda>v. bundle_script importData v \<noteq> Missing) (map snd rest) = ws @ later"
        and w2: "tr' = (tr @ [?c]) @
                   map (\<lambda>v. UpdateScript (Some v) (bundle_script importData v)) ws"
        and w3: "outcome = None \<longrightarrow> later = []"
        by blast
      from w1 w2 w3 show ?thesis unfolding f
        apply (rule_tac x = "scriptId # ws" in exI)
        apply (rule_tac x = later in exI)
        apply simp
        done
    qed
  qed
qed

lemma import_references_prefix:
  "\<exists>calls. snd (import_references rm importData refs tr) = tr @ calls"
proof -
  obtain outcome tr' where run: "import_references rm importData refs tr = (outcome, tr')"
    by (cases "import_references rm importData refs tr") auto
  from import_references_writes [OF run] show ?thesis unfolding run by auto
qed

lemma import_references_failures:
  "raised_leaves (fst (import_references rm importData refs tr)) =
     failures nothing_dropped rm tr
       (drop (length tr) (snd (import_references rm importData refs tr))) \<and>
   (fst (import_references rm importData refs tr) = None \<longleftrightarrow>
     failures nothing_dropped rm tr
       (drop (length tr) (snd (import_references rm importData refs tr))) = [])"
proof (induction refs arbitrary: tr)
  case Nil
  then show ?case by (simp add: raised_leaves_def)
next
  case (Cons entry rest)
  obtain key scriptId where entry: "entry = (key, scriptId)" by (cases entry)
  let ?c = "UpdateScript (Some scriptId) (bundle_script importData scriptId)"
  show ?case
  proof (cases "bundle_script importData scriptId = Missing")
    case True
    with Cons.IH [of tr] entry show ?thesis by simp
  next
    case False
    show ?thesis
    proof (cases "updateScript rm tr (Some scriptId) (bundle_script importData scriptId)")
      case (Inl e)
      with entry False show ?thesis
        by (simp add: failure_def raised_leaves_def nothing_dropped_def)
    next
      case (Inr r)
      have step: "import_references rm importData (entry # rest) tr =
          import_references rm importData rest (tr @ [?c])"
        using entry False Inr by simp
      from import_references_prefix [of rm importData rest "tr @ [?c]"]
      obtain calls where calls:
        "snd (import_references rm importData rest (tr @ [?c])) = (tr @ [?c]) @ calls" by blast
      from Cons.IH [of "tr @ [?c]"] Inr show ?thesis
        unfolding step calls by (simp add: failure_def)
    qed
  qed
qed

lemma sentinel_not_reference: "JStr ''[Empty]'' \<notin> set (script_references entries)"
  by (auto simp: script_references_def script_reference_entries_def)

lemma script_references_values: "snd ` set (script_reference_entries entries) = set (script_references entries)"
  by (simp add: script_references_def)

text \<open>
  Claim C9. \<open>exportOAuth2ClientDependencies\<close> and \<open>importOAuth2ClientDependencies\<close> do
  with a client what \<open>export_references\<close> and \<open>import_references\<close> do with its script
  references: the entries of the override map's own keys that end in \<open>Script\<close>, never the
  sentinel \<open>[Empty]\<close>, nothing nested below the map's values. So the reads of an export
  are for references only; when it ends without error every reference is covered (the
  lookup in the bundle gave something or a read was made), and when moreover no read
  failed the bundle has something under every reference; it raises exactly when a read
  failed otherwise than with the "not available" signal, and the error carries that
  failure. The import writes the references that the lookup in the bundle gives something
  for, in order, all of them when it ends without error, and it raises exactly when a
  write failed, the error carrying that failure.
\<close>

theorem override_script_references:
  "exportOAuth2ClientDependencies rm clientData options exportData tr =
     export_references rm clientData options
       (script_reference_entries (override_config clientData)) exportData tr \<and>
   importOAuth2ClientDependencies rm clientData importData tr =
     import_references rm importData (script_reference_entries (override_config clientData)) tr \<and>
   (\<forall>key v. (key, v) \<in> set (script_reference_entries (override_config clientData)) \<longleftrightarrow>
      (key, v) \<in> set (override_config clientData) \<and> endsWith key ''Script'' \<and>
      v \<noteq> JStr ''[Empty]'') \<and>
   (exportOAuth2ClientDependencies rm clientData options exportData tr =
      (outcome, exportData', tr') \<longrightarrow>
    (\<exists>reads. tr' = tr @ map (\<lambda>v. ReadScript (Some v)) reads \<and>
       set reads \<subseteq> set (script_references (override_config clientData)) \<and>
       JStr ''[Empty]'' \<notin> set reads \<and>
       (\<forall>scripts. outcome = None \<and> ob_script exportData = Some scripts \<longrightarrow>
          (\<forall>v\<in>set (script_references (override_config clientData)). covered scripts reads v))) \<and>
    (ob_script exportData \<noteq> None \<longrightarrow>
       raised_leaves outcome = failures capability_absence rm tr (drop (length tr) tr') \<and>
       (outcome = None \<longleftrightarrow>
          failures capability_absence rm tr (drop (length tr) tr') = [])) \<and>
    (\<forall>scripts scripts'.
       outcome = None \<and> ob_script exportData = Some scripts \<and>
       ob_script exportData' = Some scripts' \<and>
       failures nothing_dropped rm tr (drop (length tr) tr') = [] \<longrightarrow>
       (\<forall>v\<in>set (script_references (override_config clientData)).
          js_get scripts' (js_string (Some v)) \<noteq> Missing))) \<and>
   (importOAuth2ClientDependencies rm clientData importData tr = (outcome2, tr2) \<longrightarrow>
    (\<exists>ws later.
       filter (\<lambda>v. bundle_script importData v \<noteq> Missing)
         (script_references (override_config clientData)) = ws @ later \<and>
       tr2 = tr @ map (\<lambda>v. UpdateScript (Some v) (bundle_script importData v)) ws \<and>
       JStr ''[Empty]'' \<notin> set ws \<and>
       (outcome2 = None \<longrightarrow> later = [])) \<and>
    raised_leaves outcome2 = failures nothing_dropped rm tr (drop (length tr) tr2) \<and>
    (outcome2 = None \<longleftrightarrow> failures nothing_dropped rm tr (drop (length tr) tr2) = []))"
proof (intro conjI impI allI)
  let ?refs = "script_reference_entries (override_config clientData)"
  show "exportOAuth2ClientDependencies rm clientData options exportData tr =
     export_references rm clientData options ?refs exportData tr"
    by (rule exportOAuth2ClientDependencies_references)
  show "importOAuth2ClientDependencies rm clientData importData tr =
     import_references rm importData ?refs tr"
    by (rule importOAuth2ClientDependencies_references)
  show "\<And>key v. ((key, v) \<in> set ?refs) =
      ((key, v) \<in> set (override_config clientData) \<and> endsWith key ''Script'' \<and>
       v \<noteq> JStr ''[Empty]'')"
    by (auto simp: script_reference_entries_def)
  {
    assume "exportOAuth2ClientDependencies rm clientData options exportData tr =
      (outcome, exportData', tr')"
    then have run: "export_references rm clientData options ?refs exportData tr =
      (outcome, exportData', tr')"
      by (simp add: exportOAuth2ClientDependencies_references)
    from export_references_reads [OF run] obtain reads where
      r: "tr' = tr @ map (\<lambda>v. ReadScript (Some v)) reads"
         "set reads \<subseteq> set (script_references (override_config clientData))"
         "\<forall>scripts. outcome = None \<and> ob_script exportData = Some scripts \<longrightarrow>
            (\<forall>v\<in>set (script_references (override_config clientData)). covered scripts reads v)"
      unfolding script_references_values by blast
    from r(2) have "JStr ''[Empty]'' \<notin> set reads"
      using sentinel_not_reference [of "override_config clientData"] by blast
    with r show "\<exists>reads. tr' = tr @ map (\<lambda>v. ReadScript (Some v)) reads \<and>
       set reads \<subseteq> set (script_references (override_config clientData)) \<and>
       JStr ''[Empty]'' \<notin> set reads \<and>
       (\<forall>scripts. outcome = None \<and> ob_script exportData = Some scripts \<longrightarrow>
          (\<forall>v\<in>set (script_references (override_config clientData)). covered scripts reads v))"
      by blast
    {
      assume "ob_script exportData \<noteq> None"
      from export_references_failures [OF this, of rm clientData options ?refs tr]
      show "raised_leaves outcome = failures capability_absence rm tr (drop (length tr) tr')"
        and "(outcome = None) =
          (failures capability_absence rm tr (drop (length tr) tr') = [])"
        unfolding run by simp_all
    }
    {
      fix scripts scripts'
      assume a: "outcome = None \<and> ob_script exportData = Some scripts \<and>
       ob_script exportData' = Some scripts' \<and>
       failures nothing_dropped rm tr (drop (length tr) tr') = []"
      from export_references_stored [of exportData scripts rm clientData options ?refs tr scripts']
        a
      show "\<forall>v\<in>set (script_references (override_config clientData)).
          js_get scripts' (js_string (Some v)) \<noteq> Missing"
        unfolding run script_references_values by simp
    }
  }
  {
    assume "importOAuth2ClientDependencies rm clientData importData tr = (outcome2, tr2)"
    then have run: "import_references rm importData ?refs tr = (outcome2, tr2)"
      by (simp add: importOAuth2ClientDependencies_references)
    from import_references_writes [OF run] obtain ws later where
      w: "filter (\<lambda>v. bundle_script importData v \<noteq> Missing)
           (script_references (override_config clientData)) = ws @ later"
         "tr2 = tr @ map (\<lambda>v. UpdateScript (Some v) (bundle_script importData v)) ws"
         "outcome2 = None \<longrightarrow> later = []"
      unfolding script_references_def by blast
    have "set ws \<subseteq> set (filter (\<lambda>v. bundle_script importData v \<noteq> Missing)
           (script_references (override_config clientData)))"
      unfolding w(1) by simp
    then have "JStr ''[Empty]'' \<notin> set ws"
      using sentinel_not_reference [of "override_config clientData"] by auto
    with w show "\<exists>ws later.
         filter (\<lambda>v. bundle_script importData v \<noteq> Missing)
           (script_references (override_config clientData)) = ws @ later \<and>
         tr2 = tr @ map (\<lambda>v. UpdateScript (Some v) (bundle_script importData v)) ws \<and>
         JStr ''[Empty]'' \<notin> set ws \<and>
         (outcome2 = None \<longrightarrow> later = [])"
      by blast
    from import_references_failures [of rm importData ?refs tr]
    show "raised_leaves outcome2 = failures nothing_dropped rm tr (drop (length tr) tr2)"
      and "(outcome2 = None) = (failures nothing_dropped rm tr (drop (length tr) tr2) = [])"
      unfolding run by simp_all
  }
qed

lemma scripted_refs:
  "script_reference_entries (override_config scripted_client) =
     [(''accessTokenModificationScript'', JStr ''s1''),
      (''authorizeEndpointDataProviderScript'', JArr [Some (JStr ''s2'')]),
      (''evaluateScopeScript'', JStr ''constructor''),
      (''validateScopeScript'', JStr ''s1''),
      (''accessTokenMayActScript'', JStr ''s3'')]"
  by (simp add: script_reference_entries_def override_config_def scripted_client_def endsWith_def)

lemma s3_failing_realm: "realm s3_failing_remote = ''alpha realm''"
  by (simp add: realm_def s3_failing_remote_def sample_remote_def)

lemma s3_failing_store:
  "readScript s3_failing_remote tr scriptId =
     (if scriptId = Some (JStr ''s3'') then Inl server_error
      else Inr \<lparr>s_id = js_string scriptId, s_script = ScriptText ''eA==''\<rparr>)"
  "getMetadata s3_failing_remote = ''meta''"
  by (simp_all add: s3_failing_remote_def sample_remote_def)

lemma sample_store:
  "updateScript sample_remote tr scriptId scriptData =
     (case scriptData of Own sd \<Rightarrow> Inr sd | other \<Rightarrow> Inl server_error)"
  "realm sample_remote = ''alpha realm''"
  "readScript sample_remote tr scriptId =
     Inr \<lparr>s_id = js_string scriptId, s_script = ScriptText ''eA==''\<rparr>"
  "getMetadata sample_remote = ''meta''"
  by (simp_all add: sample_remote_def realm_def)

lemma js_keys:
  "js_get [] ''s1'' = Missing"
  "js_set ''s1'' a [] = [(''s1'', a)]"
  "js_get [(''s1'', a)] ''s2'' = Missing"
  "js_set ''s2'' b [(''s1'', a)] = [(''s1'', a), (''s2'', b)]"
  "js_get [(''s1'', a), (''s2'', b)] ''constructor'' = Inherited ''constructor''"
  "js_get [(''s1'', a), (''s2'', b)] ''s1'' = Own a"
  "js_get [(''s1'', a), (''s2'', b)] ''s3'' = Missing"
  "js_get [(''s1'', a)] ''s1'' = Own a"
  "js_get [(''s1'', a)] ''constructor'' = Inherited ''constructor''"
  "js_get [(''s1'', a)] ''s3'' = Missing"
  "js_set ''s3'' c [(''s1'', a), (''s2'', b)] = [(''s1'', a), (''s2'', b), (''s3'', c)]"
  "js_get [(''s1'', a), (''s2'', b), (''s3'', c)] ''s1'' = Own a"
  "js_get [(''s1'', a), (''s2'', b), (''s3'', c)] ''s2'' = Own b"
  "js_get [(''s1'', a), (''s2'', b), (''s3'', c)] ''s3'' = Own c"
  "js_get [(''s1'', a), (''s2'', b), (''s3'', c)] ''constructor'' = Inherited ''constructor''"
  by (simp_all add: js_get_def js_set_def object_prototype_def index_of_def digit_value_def
      digits_def)

lemma js_strings:
  "js_string (Some (JStr x)) = x"
  "js_string (Some (JArr [Some (JStr x)])) = x"
  by (simp_all add: js_string_def)

lemma scripted_export:
  "export_references s3_failing_remote scripted_client
      \<lparr>oe_useStringArrays = False, oe_deps = True\<rparr>
      (script_reference_entries (override_config scripted_client))
      (createOAuth2ClientExportTemplate s3_failing_remote) [] =
   (Some (FrodoError ''Error retrieving alpha realm script s3 referenced by accessTokenMayActScript key in client c2''
            [Thrown server_error]),
    \<lparr>ob_meta = Some ''meta'',
     ob_script = Some [(''s1'', \<lparr>s_id = ''s1'', s_script = ScriptText ''eA==''\<rparr>),
                       (''s2'', \<lparr>s_id = ''s2'', s_script = ScriptText ''eA==''\<rparr>)],
     ob_application = []\<rparr>,
    [ReadScript (Some (JStr ''s1'')), ReadScript (Some (JArr [Some (JStr ''s2'')])),
     ReadScript (Some (JStr ''s3''))])"
  unfolding scripted_refs
  by (simp add: js_keys js_strings s3_failing_realm createOAuth2ClientExportTemplate_def
      s3_failing_store capability_absence_def server_error_def scripted_client_def)

lemma scripted_import:
  "import_references sample_remote scripted_client_bundle
      (script_reference_entries (override_config scripted_client)) [] =
   (Some (FrodoError ''Error importing alpha realm script dependency constructor''
            [Thrown server_error]),
    [UpdateScript (Some (JStr ''s1'')) (Own sample_script),
     UpdateScript (Some (JStr ''constructor'')) (Inherited ''constructor'')])"
  unfolding scripted_refs
  by (simp add: bundle_script_def scripted_client_bundle_def js_keys js_strings sample_store)

lemma scripted_export_all:
  "export_references sample_remote scripted_client
      \<lparr>oe_useStringArrays = False, oe_deps = True\<rparr>
      (script_reference_entries (override_config scripted_client))
      (createOAuth2ClientExportTemplate sample_remote) [] =
   (None,
    \<lparr>ob_meta = Some ''meta'',
     ob_script = Some [(''s1'', \<lparr>s_id = ''s1'', s_script = ScriptText ''eA==''\<rparr>),
                       (''s2'', \<lparr>s_id = ''s2'', s_script = ScriptText ''eA==''\<rparr>),
                       (''s3'', \<lparr>s_id = ''s3'', s_script = ScriptText ''eA==''\<rparr>)],
     ob_application = []\<rparr>,
    [ReadScript (Some (JStr ''s1'')), ReadScript (Some (JArr [Some (JStr ''s2'')])),
     ReadScript (Some (JStr ''s3''))])"
  unfolding scripted_refs
  by (simp add: js_keys js_strings createOAuth2ClientExportTemplate_def sample_store)

lemma scripted_failures:
  "failures capability_absence s3_failing_remote []
     [ReadScript (Some (JStr ''s1'')), ReadScript (Some (JArr [Some (JStr ''s2'')])),
      ReadScript (Some (JStr ''s3''))] = [server_error]"
  "failures nothing_dropped sample_remote []
     [ReadScript (Some (JStr ''s1'')), ReadScript (Some (JArr [Some (JStr ''s2'')])),
      ReadScript (Some (JStr ''s3''))] = []"
  "failures nothing_dropped sample_remote []
     [UpdateScript (Some (JStr ''s1'')) (Own sample_script),
      UpdateScript (Some (JStr ''constructor'')) (Inherited ''constructor'')] = [server_error]"
  by (simp_all add: failure_def s3_failing_store sample_store capability_absence_def
      nothing_dropped_def server_error_def)

text \<open>
  The client \<open>scripted_client\<close> refers to \<open>s1\<close>, to \<open>s2\<close> through an array, to the
  inherited member \<open>constructor\<close>, to \<open>s1\<close> again and to \<open>s3\<close>; its \<open>oidcClaimsScript\<close>
  is the sentinel and its \<open>hiddenScript\<close> lies one level down. An export from a store that
  cannot read \<open>s3\<close> reads \<open>s1\<close>, \<open>s2\<close> and \<open>s3\<close>, once each, makes no read for
  \<open>constructor\<close>, and raises the failure of \<open>s3\<close>; from a store that can, it ends with
  something under every reference. An import from a bundle that holds the script \<open>s1\<close>
  writes \<open>s1\<close>, passes \<open>s2\<close>, and hands the inherited member to the write of
  \<open>constructor\<close>, whose failure it raises before it comes to \<open>s3\<close>.
\<close>

theorem override_script_references_witness:
  "exportOAuth2ClientDependencies s3_failing_remote scripted_client
      \<lparr>oe_useStringArrays = False, oe_deps = True\<rparr>
      (createOAuth2ClientExportTemplate s3_failing_remote) [] =
   (Some (FrodoError ''Error retrieving alpha realm script s3 referenced by accessTokenMayActScript key in client c2''
            [Thrown server_error]),
    \<lparr>ob_meta = Some ''meta'',
     ob_script = Some [(''s1'', \<lparr>s_id = ''s1'', s_script = ScriptText ''eA==''\<rparr>),
                       (''s2'', \<lparr>s_id = ''s2'', s_script = ScriptText ''eA==''\<rparr>)],
     ob_application = []\<rparr>,
    [ReadScript (Some (JStr ''s1'')), ReadScript (Some (JArr [Some (JStr ''s2'')])),
     ReadScript (Some (JStr ''s3''))]) \<and>
   raised_leaves (Some (FrodoError ''Error retrieving alpha realm script s3 referenced by accessTokenMayActScript key in client c2''
            [Thrown server_error])) = [server_error] \<and>
   snd (snd (exportOAuth2ClientDependencies sample_remote scripted_client
      \<lparr>oe_useStringArrays = False, oe_deps = True\<rparr>
      (createOAuth2ClientExportTemplate sample_remote) [])) =
     [ReadScript (Some (JStr ''s1'')), ReadScript (Some (JArr [Some (JStr ''s2'')])),
      ReadScript (Some (JStr ''s3''))] \<and>
   Missing \<notin>
     js_get [(''s1'', \<lparr>s_id = ''s1'', s_script = ScriptText ''eA==''\<rparr>),
             (''s2'', \<lparr>s_id = ''s2'', s_script = ScriptText ''eA==''\<rparr>),
             (''s3'', \<lparr>s_id = ''s3'', s_script = ScriptText ''eA==''\<rparr>)] `
     js_string `
     {Some (JStr ''s1''), Some (JArr [Some (JStr ''s2'')]), Some (JStr ''constructor''),
      Some (JStr ''s3'')} \<and>
   importOAuth2ClientDependencies sample_remote scripted_client scripted_client_bundle [] =
   (Some (FrodoError ''Error importing alpha realm script dependency constructor''
            [Thrown server_error]),
    [UpdateScript (Some (JStr ''s1'')) (Own sample_script),
     UpdateScript (Some (JStr ''constructor'')) (Inherited ''constructor'')]) \<and>
   raised_leaves (Some (FrodoError ''Error importing alpha realm script dependency constructor''
            [Thrown server_error])) = [server_error]"
proof -
  let ?options = "\<lparr>oe_useStringArrays = False, oe_deps = True\<rparr>"
  let ?reads = "[ReadScript (Some (JStr ''s1'')), ReadScript (Some (JArr [Some (JStr ''s2'')])),
     ReadScript (Some (JStr ''s3''))]"
  let ?failed = "Some (FrodoError ''Error retrieving alpha realm script s3 referenced by accessTokenMayActScript key in client c2''
            [Thrown server_error])"
  let ?partial = "\<lparr>ob_meta = Some ''meta'',
     ob_script = Some [(''s1'', \<lparr>s_id = ''s1'', s_script = ScriptText ''eA==''\<rparr>),
                       (''s2'', \<lparr>s_id = ''s2'', s_script = ScriptText ''eA==''\<rparr>)],
     ob_application = []\<rparr>"
  let ?scripts = "[(''s1'', \<lparr>s_id = ''s1'', s_script = ScriptText ''eA==''\<rparr>),
                       (''s2'', \<lparr>s_id = ''s2'', s_script = ScriptText ''eA==''\<rparr>),
                       (''s3'', \<lparr>s_id = ''s3'', s_script = ScriptText ''eA==''\<rparr>)]"
  let ?full = "\<lparr>ob_meta = Some ''meta'', ob_script = Some ?scripts, ob_application = []\<rparr>"
  let ?rejected = "Some (FrodoError ''Error importing alpha realm script dependency constructor''
            [Thrown server_error])"
  let ?writes = "[UpdateScript (Some (JStr ''s1'')) (Own sample_script),
     UpdateScript (Some (JStr ''constructor'')) (Inherited ''constructor'')]"
  note failing = override_script_references
    [of s3_failing_remote scripted_client ?options
        "createOAuth2ClientExportTemplate s3_failing_remote" "[]" scripted_client_bundle
        ?failed ?partial ?reads None "[]"]
  note working = override_script_references
    [of sample_remote scripted_client ?options
        "createOAuth2ClientExportTemplate sample_remote" "[]" scripted_client_bundle
        None ?full ?reads ?rejected ?writes]
  have template: "ob_script (createOAuth2ClientExportTemplate s3_failing_remote) \<noteq> None"
    "ob_script (createOAuth2ClientExportTemplate sample_remote) = Some []"
    by (simp_all add: createOAuth2ClientExportTemplate_def)
  have refs: "set (script_references (override_config scripted_client)) =
      {JStr ''s1'', JArr [Some (JStr ''s2'')], JStr ''constructor'', JStr ''s3''}"
    unfolding script_references_def scripted_refs by auto
  from failing have a: "exportOAuth2ClientDependencies s3_failing_remote scripted_client ?options
      (createOAuth2ClientExportTemplate s3_failing_remote) [] = (?failed, ?partial, ?reads)"
    unfolding scripted_export by blast
  with failing template(1)
  have "raised_leaves ?failed =
      failures capability_absence s3_failing_remote [] (drop (length ([]::call list)) ?reads)"
    by blast
  then have b: "raised_leaves ?failed = [server_error]"
    using scripted_failures(1) by simp
  from working have c: "exportOAuth2ClientDependencies sample_remote scripted_client ?options
      (createOAuth2ClientExportTemplate sample_remote) [] = (None, ?full, ?reads)"
    unfolding scripted_export_all by blast
  have quiet: "failures nothing_dropped sample_remote [] (drop (length ([]::call list)) ?reads) = []"
    using scripted_failures(2) by simp
  have "ob_script ?full = Some ?scripts" by simp
  with working c template(2) quiet
  have "\<forall>v\<in>set (script_references (override_config scripted_client)).
      js_get ?scripts (js_string (Some v)) \<noteq> Missing"
    by blast
  then have "\<forall>v\<in>{JStr ''s1'', JArr [Some (JStr ''s2'')], JStr ''constructor'', JStr ''s3''}.
      js_get ?scripts (js_string (Some v)) \<noteq> Missing"
    unfolding refs .
  then have d: "Missing \<notin> js_get ?scripts ` js_string `
     {Some (JStr ''s1''), Some (JArr [Some (JStr ''s2'')]), Some (JStr ''constructor''),
      Some (JStr ''s3'')}"
    by auto
  from working have e: "importOAuth2ClientDependencies sample_remote scripted_client
      scripted_client_bundle [] = (?rejected, ?writes)"
    unfolding scripted_import by blast
  with working
  have "raised_leaves ?rejected =
      failures nothing_dropped sample_remote [] (drop (length ([]::call list)) ?writes)"
    by blast
  then have f: "raised_leaves ?rejected = [server_error]"
    using scripted_failures(3) by simp
  from a b c d e f show ?thesis by simp
qed

section \<open>The capability-absence signal\<close>

text \<open>
  Claim C8, as amended. A listing that fails with status 403 and the "not available"
  message makes \<open>readOAuth2Clients\<close> return the empty list, and any other listing failure
  is raised; with such a listing \<open>exportOAuth2Clients\<close> returns the empty bundle when the
  provider read succeeded, and raises when the provider read failed. A script read of
  \<open>exportOAuth2ClientDependencies\<close> that fails with the same signal (read from
  \<open>httpStatus\<close> and \<open>httpMessage\<close>) is dropped too, the loop going on with the next key;
  a script read that fails otherwise is raised.
\<close>

theorem capability_absence_normalized:
  "(\<forall>e. api_getOAuth2Clients rm tr = Inl e \<longrightarrow>
      readOAuth2Clients rm tr =
        (if response_status e = Some 403 \<and> response_message e = Some not_available then Inr []
         else Inl (FrodoError (''Error reading '' @ realm rm @ '' oauth2 clients'') [Thrown e]),
         tr @ [GetOAuth2Clients])) \<and>
   (\<forall>provider e.
      readOAuth2Provider rm tr = Inr provider \<and>
      api_getOAuth2Clients rm (tr @ [ReadOAuth2Provider]) = Inl e \<and>
      response_status e = Some 403 \<and> response_message e = Some not_available \<longrightarrow>
      exportOAuth2Clients rm options tr =
        (Inr (createOAuth2ClientExportTemplate rm), tr @ [ReadOAuth2Provider, GetOAuth2Clients])) \<and>
   (\<forall>e. readOAuth2Provider rm tr = Inl e \<longrightarrow>
      exportOAuth2Clients rm options tr =
        (Inl (FrodoError (''Error exporting '' @ realm rm @ '' oauth2 clients'') [Thrown e]),
         tr @ [ReadOAuth2Provider])) \<and>
   (\<forall>scripts e.
      endsWith key ''Script'' \<and> scriptId \<noteq> JStr ''[Empty]'' \<and>
      ob_script exportData = Some scripts \<and> js_get scripts (js_string (Some scriptId)) = Missing \<and>
      readScript rm tr (Some scriptId) = Inl e \<longrightarrow>
      exportOAuth2ClientDependencies_loop rm clientData options ((key, scriptId) # rest)
          exportData tr =
        (if httpStatus e = Some 403 \<and> httpMessage e = Some not_available then
           exportOAuth2ClientDependencies_loop rm clientData options rest exportData
             (tr @ [ReadScript (Some scriptId)])
         else
           (Some (FrodoError (''Error retrieving '' @ realm rm @ '' script '' @
                               js_string (Some scriptId) @ '' referenced by '' @ key @
                               '' key in client '' @ js_string (map_of clientData ''_id''))
                    [Thrown e]),
            exportData, tr @ [ReadScript (Some scriptId)])))"
proof -
  have a: "\<forall>e. api_getOAuth2Clients rm tr = Inl e \<longrightarrow>
      readOAuth2Clients rm tr =
        (if response_status e = Some 403 \<and> response_message e = Some not_available then Inr []
         else Inl (FrodoError (''Error reading '' @ realm rm @ '' oauth2 clients'') [Thrown e]),
         tr @ [GetOAuth2Clients])"
    by (simp add: readOAuth2Clients_def)
  have b: "\<forall>provider e.
      readOAuth2Provider rm tr = Inr provider \<and>
      api_getOAuth2Clients rm (tr @ [ReadOAuth2Provider]) = Inl e \<and>
      response_status e = Some 403 \<and> response_message e = Some not_available \<longrightarrow>
      exportOAuth2Clients rm options tr =
        (Inr (createOAuth2ClientExportTemplate rm), tr @ [ReadOAuth2Provider, GetOAuth2Clients])"
    by (simp add: exportOAuth2Clients_def readOAuth2Clients_def)
  have c: "\<forall>e. readOAuth2Provider rm tr = Inl e \<longrightarrow>
      exportOAuth2Clients rm options tr =
        (Inl (FrodoError (''Error exporting '' @ realm rm @ '' oauth2 clients'') [Thrown e]),
         tr @ [ReadOAuth2Provider])"
    by (simp add: exportOAuth2Clients_def)
  have d: "\<forall>scripts e.
      endsWith key ''Script'' \<and> scriptId \<noteq> JStr ''[Empty]'' \<and>
      ob_script exportData = Some scripts \<and> js_get scripts (js_string (Some scriptId)) = Missing \<and>
      readScript rm tr (Some scriptId) = Inl e \<longrightarrow>
      exportOAuth2ClientDependencies_loop rm clientData options ((key, scriptId) # rest)
          exportData tr =
        (if httpStatus e = Some 403 \<and> httpMessage e = Some not_available then
           exportOAuth2ClientDependencies_loop rm clientData options rest exportData
             (tr @ [ReadScript (Some scriptId)])
         else
           (Some (FrodoError (''Error retrieving '' @ realm rm @ '' script '' @
                               js_string (Some scriptId) @ '' referenced by '' @ key @
                               '' key in client '' @ js_string (map_of clientData ''_id''))
                    [Thrown e]),
            exportData, tr @ [ReadScript (Some scriptId)]))"
    by simp
  from a b c d show ?thesis by blast
qed

theorem capability_absence_normalized_witness:
  "exportOAuth2Clients unavailable_remote \<lparr>oe_useStringArrays = True, oe_deps = True\<rparr> [] =
   (Inr \<lparr>ob_meta = Some ''meta'', ob_script = Some [], ob_application = []\<rparr>,
    [ReadOAuth2Provider, GetOAuth2Clients])"
  using capability_absence_normalized [of unavailable_remote "[]" "\<lparr>oe_useStringArrays = True, oe_deps = True\<rparr>"]
  by (simp add: unavailable_remote_def sample_remote_def unavailable_def createOAuth2ClientExportTemplate_def)

text \<open>
  The claim as written confines the normalization to the listing call and lets every
  other failing remote call raise. Here the script read of the sample client fails with
  the signal and the export returns a bundle all the same.
\<close>

theorem capability_absence_only_listing_counterexample:
  "readScript scripts_unavailable_remote [ReadOAuth2Provider, GetOAuth2Clients]
      (Some (JStr ''s1'')) = Inl unavailable \<and>
   snd (exportOAuth2Clients scripts_unavailable_remote
          \<lparr>oe_useStringArrays = True, oe_deps = True\<rparr> []) =
     [ReadOAuth2Provider, GetOAuth2Clients, ReadScript (Some (JStr ''s1''))] \<and>
   \<not> isl (fst (exportOAuth2Clients scripts_unavailable_remote
          \<lparr>oe_useStringArrays = True, oe_deps = True\<rparr> []))"
  by (simp add: scripts_unavailable_remote_def sample_remote_def exportOAuth2Clients_def
      readOAuth2Clients_def exportOAuth2Clients_item_def exportOAuth2ClientDependencies_def
      createOAuth2ClientExportTemplate_def sample_client_def endsWith_def unavailable_def
      js_set_def js_get_def index_of_def digit_value_def digits_def object_prototype_def
      js_string_def)

section \<open>The calls of a policy import\<close>

lemma importPolicyPrerequisites_trace:
  "snd (importPolicyPrerequisites rm policyData importData tr) =
     tr @ prerequisite_writes policyData importData"
  by (simp add: importPolicyPrerequisites_def prerequisite_writes_def Let_def
      split: sum.splits)

lemma importPolicyDependencies_loop_trace:
  "snd (importPolicyDependencies_loop rm policyData importData uuids tr) =
     tr @ map (\<lambda>scriptUuid. UpdateScript (map_option JStr scriptUuid)
                 (js_get (pb_script importData) (str_or_undefined scriptUuid))) uuids"
  by (induction uuids arbitrary: tr) (simp_all add: Let_def split_beta split: sum.splits)

lemma importPolicyDependencies_trace:
  "snd (importPolicyDependencies rm policyData importData tr) = tr @ script_writes policyData importData"
  using importPolicyDependencies_loop_trace
    [of rm policyData importData "findScriptUuids (p_condition policyData)" tr]
  by (simp add: importPolicyDependencies_def script_writes_def split_beta)

lemma updatePolicy_trace:
  "snd (updatePolicy rm policyId policyData tr) = tr @ [PutPolicy policyId policyData]"
  by (simp add: updatePolicy_def split: sum.splits)

lemma prerequisite_writes_stored [simp]:
  "prerequisite_writes policyData (stored options importData key entry) =
     prerequisite_writes policyData importData"
  by (simp add: prerequisite_writes_def stored_def)

lemma script_writes_stored [simp]:
  "script_writes policyData (stored options importData key entry) =
     script_writes policyData importData"
  by (simp add: script_writes_def stored_def)

lemma importPolicy_entry_effect:
  assumes "map_of (pb_policy importData) key = Some entry"
  shows "fst (snd (snd (importPolicy_entry rm options importData key tr))) =
           stored options importData key entry"
    and "snd (snd (snd (importPolicy_entry rm options importData key tr))) =
           tr @ entry_calls options importData entry"
proof -
  show "fst (snd (snd (importPolicy_entry rm options importData key tr))) =
           stored options importData key entry"
    using assms by (simp add: importPolicy_entry_def Let_def split_beta stored_def)
  have b: "importData\<lparr>pb_policy := AList.update key (strip_policy options entry) (pb_policy importData)\<rparr>
      = stored options importData key entry"
    by (simp add: stored_def)
  show "snd (snd (snd (importPolicy_entry rm options importData key tr))) =
           tr @ entry_calls options importData entry"
    using assms
    by (simp add: importPolicy_entry_def Let_def split_beta b entry_calls_def
        importPolicyPrerequisites_trace updatePolicy_trace importPolicyDependencies_trace
        split: option.splits sum.splits)
qed

lemma importPolicy_loop_absent:
  "policyId \<notin> set keys \<Longrightarrow>
   importPolicy_loop rm policyId options keys importData tr = ([], [], importData, tr)"
  by (induction keys) auto

lemma importPolicy_loop_present:
  "distinct keys \<Longrightarrow> policyId \<in> set keys \<Longrightarrow>
   importPolicy_loop rm policyId options keys importData tr =
     (case importPolicy_entry rm options importData policyId tr of
        (errors, response, importData', tr') \<Rightarrow>
          (errors, (case response of Some r \<Rightarrow> [r] | None \<Rightarrow> []), importData', tr'))"
proof (induction keys)
  case Nil
  then show ?case by simp
next
  case (Cons key rest)
  show ?case
  proof (cases "key = policyId")
    case True
    with Cons.prems have "policyId \<notin> set rest" by simp
    with True show ?thesis
      by (simp add: importPolicy_loop_absent split: prod.splits)
  next
    case False
    with Cons show ?thesis by simp
  qed
qed

lemma all_before_none_later: "\<forall>x\<in>set xs. \<not> Q x \<Longrightarrow> all_before P Q xs"
  by (induction xs) auto

lemma all_before_none_earlier: "\<forall>x\<in>set xs. \<not> P x \<Longrightarrow> all_before P Q xs"
  by (induction xs) auto

lemma all_before_append:
  "all_before P Q (xs @ ys) \<longleftrightarrow>
     all_before P Q xs \<and> all_before P Q ys \<and> ((\<exists>x\<in>set xs. Q x) \<longrightarrow> (\<forall>y\<in>set ys. \<not> P y))"
  by (induction xs) auto

lemma prerequisite_writes_kind:
  "c \<in> set (prerequisite_writes policyData importData) \<Longrightarrow>
   is_prerequisite_write c \<and> \<not> is_policy_write c \<and> \<not> is_script_write c"
  by (auto simp: prerequisite_writes_def is_prerequisite_write_def is_policy_write_def
      is_script_write_def split: if_splits)

lemma script_writes_kind:
  "c \<in> set (script_writes policyData importData) \<Longrightarrow>
   is_script_write c \<and> \<not> is_policy_write c \<and> \<not> is_prerequisite_write c"
  by (auto simp: script_writes_def is_prerequisite_write_def is_policy_write_def
      is_script_write_def)

lemma entry_calls_order:
  "all_before is_prerequisite_write is_policy_write (entry_calls options importData entry) \<and>
   all_before is_policy_write is_script_write (entry_calls options importData entry)"
proof -
  let ?pre = "if pi_prereqs options then prerequisite_writes (strip_policy options entry) importData else []"
  let ?post = "if pi_deps options then script_writes (strip_policy options entry) importData else []"
  let ?put = "PutPolicy (p_id (strip_policy options entry)) (strip_policy options entry)"
  have pre: "\<forall>c\<in>set ?pre. \<not> is_policy_write c \<and> \<not> is_script_write c"
    using prerequisite_writes_kind by auto
  have post: "\<forall>c\<in>set ?post. \<not> is_policy_write c \<and> \<not> is_prerequisite_write c"
    using script_writes_kind by auto
  have put: "is_policy_write ?put" "\<not> is_script_write ?put" "\<not> is_prerequisite_write ?put"
    by (simp_all add: is_policy_write_def is_script_write_def is_prerequisite_write_def)
  have eq: "entry_calls options importData entry = ?pre @ [?put] @ ?post"
    by (simp add: entry_calls_def)
  have a: "all_before is_prerequisite_write is_policy_write (?pre @ [?put] @ ?post)"
    unfolding all_before_append
    using pre post put by (auto intro: all_before_none_later all_before_none_earlier)
  have b: "all_before is_policy_write is_script_write (?pre @ [?put] @ ?post)"
    unfolding all_before_append
    using pre post put by (auto intro: all_before_none_later all_before_none_earlier)
  from a b show ?thesis unfolding eq by simp
qed

lemma importPolicy_absent:
  "policyId \<notin> fst ` set (pb_policy importData) \<Longrightarrow>
   importPolicy rm policyId importData options tr =
     (Inl (FrodoError (''Policy '' @ policyId @ '' not found in import data'') []), importData, tr)"
  by (simp add: importPolicy_def importPolicy_loop_absent)

lemma importPolicy_present:
  assumes "distinct (map fst (pb_policy importData))"
    and "map_of (pb_policy importData) policyId = Some entry"
  shows "fst (snd (importPolicy rm policyId importData options tr)) =
           stored options importData policyId entry"
    and "snd (snd (importPolicy rm policyId importData options tr)) =
           tr @ entry_calls options importData entry"
proof -
  from assms(2) have "policyId \<in> set (map fst (pb_policy importData))"
    using map_of_present [of "pb_policy importData" policyId entry] by simp
  note loop = importPolicy_loop_present [OF assms(1) this, of rm options importData tr]
  show "fst (snd (importPolicy rm policyId importData options tr)) =
           stored options importData policyId entry"
    using importPolicy_entry_effect(1) [OF assms(2), of rm options tr]
    by (simp add: importPolicy_def loop split_beta)
  show "snd (snd (importPolicy rm policyId importData options tr)) =
           tr @ entry_calls options importData entry"
    using importPolicy_entry_effect(2) [OF assms(2), of rm options tr]
    by (simp add: importPolicy_def loop split_beta)
qed

lemma updateOAuth2Client_writes:
  "\<exists>puts. snd (snd (updateOAuth2Client rm clientId clientData tr)) = tr @ puts \<and> puts \<noteq> [] \<and>
     (\<forall>c\<in>set puts. is_client_write c)"
  by (auto simp: updateOAuth2Client_def Let_def is_client_write_def
      split: sum.splits option.splits prod.splits bool.splits)

lemma importPolicyPrerequisites_failures:
  "raised_leaves (fst (importPolicyPrerequisites rm policyData importData tr)) =
     failures nothing_dropped rm tr (prerequisite_writes policyData importData) \<and>
   (fst (importPolicyPrerequisites rm policyData importData tr) = None \<longleftrightarrow>
     failures nothing_dropped rm tr (prerequisite_writes policyData importData) = [])"
  by (simp add: importPolicyPrerequisites_def prerequisite_writes_def Let_def raised_leaves_def
      failure_def nothing_dropped_def split: sum.splits)

lemma updatePolicy_failures:
  "result_leaves (fst (updatePolicy rm policyId policyData tr)) =
     failures nothing_dropped rm tr [PutPolicy policyId policyData] \<and>
   (isl (fst (updatePolicy rm policyId policyData tr)) \<longleftrightarrow>
     failures nothing_dropped rm tr [PutPolicy policyId policyData] \<noteq> [])"
  by (simp add: updatePolicy_def result_leaves_def failure_def nothing_dropped_def
      split: sum.splits)

lemma importPolicyDependencies_loop_failures:
  "concat (map leaves (fst (importPolicyDependencies_loop rm policyData importData uuids tr))) =
     failures nothing_dropped rm tr
       (map (\<lambda>scriptUuid. UpdateScript (map_option JStr scriptUuid)
                 (js_get (pb_script importData) (str_or_undefined scriptUuid))) uuids) \<and>
   (fst (importPolicyDependencies_loop rm policyData importData uuids tr) = [] \<longleftrightarrow>
     failures nothing_dropped rm tr
       (map (\<lambda>scriptUuid. UpdateScript (map_option JStr scriptUuid)
                 (js_get (pb_script importData) (str_or_undefined scriptUuid))) uuids) = [])"
  by (induction uuids arbitrary: tr)
     (simp_all add: Let_def split_beta failure_def nothing_dropped_def split: sum.splits)

lemma importPolicyDependencies_failures:
  "raised_leaves (fst (importPolicyDependencies rm policyData importData tr)) =
     failures nothing_dropped rm tr (script_writes policyData importData) \<and>
   (fst (importPolicyDependencies rm policyData importData tr) = None \<longleftrightarrow>
     failures nothing_dropped rm tr (script_writes policyData importData) = [])"
  using importPolicyDependencies_loop_failures
    [of rm policyData importData "findScriptUuids (p_condition policyData)" tr]
  by (simp add: importPolicyDependencies_def script_writes_def split_beta raised_leaves_def)

lemma raised_list_leaves:
  "concat (map leaves (case x of Some e \<Rightarrow> [e] | None \<Rightarrow> [])) = raised_leaves x"
  "(case x of Some e \<Rightarrow> [e] | None \<Rightarrow> []) = [] \<longleftrightarrow> x = None"
  by (simp_all add: raised_leaves_def split: option.splits)

lemma result_list_leaves:
  "concat (map leaves (case r of Inl e \<Rightarrow> [e] | Inr x \<Rightarrow> [])) = result_leaves r"
  "(case r of Inl e \<Rightarrow> [e] | Inr x \<Rightarrow> []) = [] \<longleftrightarrow> \<not> isl r"
  by (simp_all add: result_leaves_def split: sum.splits)

lemma importPolicy_entry_errors:
  assumes "map_of (pb_policy importData) key = Some entry"
  shows "fst (importPolicy_entry rm options importData key tr) =
     (if pi_prereqs options then
        (case fst (importPolicyPrerequisites rm (strip_policy options entry)
                     (stored options importData key entry) tr) of
           Some e \<Rightarrow> [e] | None \<Rightarrow> [])
      else []) @
     (case fst (updatePolicy rm (p_id (strip_policy options entry)) (strip_policy options entry)
                  (tr @ (if pi_prereqs options
                         then prerequisite_writes (strip_policy options entry) importData
                         else []))) of
        Inl e \<Rightarrow> [e] | Inr r \<Rightarrow> []) @
     (if pi_deps options then
        (case fst (importPolicyDependencies rm (strip_policy options entry)
                     (stored options importData key entry)
                     (tr @ (if pi_prereqs options
                            then prerequisite_writes (strip_policy options entry) importData
                            else []) @
                      [PutPolicy (p_id (strip_policy options entry))
                         (strip_policy options entry)])) of
           Some e \<Rightarrow> [e] | None \<Rightarrow> [])
      else [])"
    and "fst (snd (importPolicy_entry rm options importData key tr)) = None \<longleftrightarrow>
      isl (fst (updatePolicy rm (p_id (strip_policy options entry)) (strip_policy options entry)
                  (tr @ (if pi_prereqs options
                         then prerequisite_writes (strip_policy options entry) importData
                         else []))))"
proof -
  have b: "importData\<lparr>pb_policy := AList.update key (strip_policy options entry)
      (pb_policy importData)\<rparr> = stored options importData key entry"
    by (simp add: stored_def)
  show "fst (importPolicy_entry rm options importData key tr) =
     (if pi_prereqs options then
        (case fst (importPolicyPrerequisites rm (strip_policy options entry)
                     (stored options importData key entry) tr) of
           Some e \<Rightarrow> [e] | None \<Rightarrow> [])
      else []) @
     (case fst (updatePolicy rm (p_id (strip_policy options entry)) (strip_policy options entry)
                  (tr @ (if pi_prereqs options
                         then prerequisite_writes (strip_policy options entry) importData
                         else []))) of
        Inl e \<Rightarrow> [e] | Inr r \<Rightarrow> []) @
     (if pi_deps options then
        (case fst (importPolicyDependencies rm (strip_policy options entry)
                     (stored options importData key entry)
                     (tr @ (if pi_prereqs options
                            then prerequisite_writes (strip_policy options entry) importData
                            else []) @
                      [PutPolicy (p_id (strip_policy options entry))
                         (strip_policy options entry)])) of
           Some e \<Rightarrow> [e] | None \<Rightarrow> [])
      else [])"
    using assms
    by (simp add: importPolicy_entry_def Let_def split_beta b importPolicyPrerequisites_trace
        updatePolicy_trace split: option.splits sum.splits)
  show "fst (snd (importPolicy_entry rm options importData key tr)) = None \<longleftrightarrow>
      isl (fst (updatePolicy rm (p_id (strip_policy options entry)) (strip_policy options entry)
                  (tr @ (if pi_prereqs options
                         then prerequisite_writes (strip_policy options entry) importData
                         else []))))"
    using assms
    by (simp add: importPolicy_entry_def Let_def split_beta b importPolicyPrerequisites_trace
        split: option.splits sum.splits)
qed

lemma importPolicy_entry_failures:
  assumes "map_of (pb_policy importData) key = Some entry"
  shows "concat (map leaves (fst (importPolicy_entry rm options importData key tr))) =
           failures nothing_dropped rm tr (entry_calls options importData entry)"
    and "fst (importPolicy_entry rm options importData key tr) = [] \<longleftrightarrow>
           failures nothing_dropped rm tr (entry_calls options importData entry) = []"
    and "fst (importPolicy_entry rm options importData key tr) = [] \<Longrightarrow>
           fst (snd (importPolicy_entry rm options importData key tr)) \<noteq> None"
proof -
  let ?p = "strip_policy options entry"
  let ?b = "stored options importData key entry"
  let ?pre = "if pi_prereqs options then prerequisite_writes ?p importData else []"
  let ?put = "PutPolicy (p_id ?p) ?p"
  let ?post = "if pi_deps options then script_writes ?p importData else []"
  have calls: "entry_calls options importData entry = ?pre @ [?put] @ ?post"
    by (simp add: entry_calls_def)
  note errors = importPolicy_entry_errors [OF assms, of rm options tr]
  note pre = importPolicyPrerequisites_failures [of rm ?p ?b tr]
  note put = updatePolicy_failures [of rm "p_id ?p" ?p "tr @ ?pre"]
  note post = importPolicyDependencies_failures [of rm ?p ?b "tr @ ?pre @ [?put]"]
  have one: "failures nothing_dropped rm tr ?pre =
      concat (map leaves (if pi_prereqs options then
        (case fst (importPolicyPrerequisites rm ?p ?b tr) of Some e \<Rightarrow> [e] | None \<Rightarrow> [])
      else []))"
    using pre by (simp add: raised_list_leaves)
  have three: "failures nothing_dropped rm (tr @ ?pre @ [?put]) ?post =
      concat (map leaves (if pi_deps options then
        (case fst (importPolicyDependencies rm ?p ?b (tr @ ?pre @ [?put])) of
           Some e \<Rightarrow> [e] | None \<Rightarrow> [])
      else []))"
    using post by (simp add: raised_list_leaves)
  have two: "failures nothing_dropped rm (tr @ ?pre) [?put] =
      concat (map leaves (case fst (updatePolicy rm (p_id ?p) ?p (tr @ ?pre)) of
        Inl e \<Rightarrow> [e] | Inr r \<Rightarrow> []))"
    using put unfolding result_list_leaves by simp
  have whole: "failures nothing_dropped rm tr (?pre @ [?put] @ ?post) =
      failures nothing_dropped rm tr ?pre @ failures nothing_dropped rm (tr @ ?pre) [?put] @
      failures nothing_dropped rm (tr @ ?pre @ [?put]) ?post"
    by (simp add: failures_append)
  show "concat (map leaves (fst (importPolicy_entry rm options importData key tr))) =
           failures nothing_dropped rm tr (entry_calls options importData entry)"
    unfolding calls whole one two three errors(1) by simp
  have one': "failures nothing_dropped rm tr ?pre = [] \<longleftrightarrow>
      (if pi_prereqs options then
        (case fst (importPolicyPrerequisites rm ?p ?b tr) of Some e \<Rightarrow> [e] | None \<Rightarrow> [])
      else []) = []"
    using pre by (simp add: raised_list_leaves)
  have three': "failures nothing_dropped rm (tr @ ?pre @ [?put]) ?post = [] \<longleftrightarrow>
      (if pi_deps options then
        (case fst (importPolicyDependencies rm ?p ?b (tr @ ?pre @ [?put])) of
           Some e \<Rightarrow> [e] | None \<Rightarrow> [])
      else []) = []"
    using post by (simp add: raised_list_leaves)
  have two': "failures nothing_dropped rm (tr @ ?pre) [?put] = [] \<longleftrightarrow>
      (case fst (updatePolicy rm (p_id ?p) ?p (tr @ ?pre)) of
        Inl e \<Rightarrow> [e] | Inr r \<Rightarrow> []) = []"
    using put unfolding result_list_leaves by simp
  show empty: "fst (importPolicy_entry rm options importData key tr) = [] \<longleftrightarrow>
           failures nothing_dropped rm tr (entry_calls options importData entry) = []"
    unfolding calls whole errors(1) append_is_Nil_conv one' two' three' by simp
  show "fst (importPolicy_entry rm options importData key tr) = [] \<Longrightarrow>
           fst (snd (importPolicy_entry rm options importData key tr)) \<noteq> None"
    unfolding errors by (simp add: result_list_leaves)
qed

lemma importFirstPolicy_effect:
  assumes "pb_policy b = (key, entry) # rest"
  shows "fst (snd (importFirstPolicy rm b options tr)) = stored options b key entry"
    and "snd (snd (importFirstPolicy rm b options tr)) = tr @ entry_calls options b entry"
proof -
  from assms have found: "map_of (pb_policy b) key = Some entry" by simp
  show "fst (snd (importFirstPolicy rm b options tr)) = stored options b key entry"
    using importPolicy_entry_effect(1) [OF found, of rm options tr] assms
    by (simp add: importFirstPolicy_def split_beta split: option.splits)
  show "snd (snd (importFirstPolicy rm b options tr)) = tr @ entry_calls options b entry"
    using importPolicy_entry_effect(2) [OF found, of rm options tr] assms
    by (simp add: importFirstPolicy_def split_beta split: option.splits)
qed

section \<open>The order of the writes of an import\<close>

lemma importOAuth2ClientDependencies_writes:
  "\<exists>scripts. snd (importOAuth2ClientDependencies rm clientData importData tr) = tr @ scripts \<and>
     (\<forall>c\<in>set scripts. is_script_write c)"
proof -
  let ?refs = "script_reference_entries (override_config clientData)"
  obtain outcome tr' where run: "import_references rm importData ?refs tr = (outcome, tr')"
    by (cases "import_references rm importData ?refs tr") auto
  from import_references_writes [OF run] obtain ws where
    "tr' = tr @ map (\<lambda>v. UpdateScript (Some v) (bundle_script importData v)) ws" by blast
  moreover have "\<forall>c\<in>set (map (\<lambda>v. UpdateScript (Some v) (bundle_script importData v)) ws).
      is_script_write c"
    by (simp add: is_script_write_def)
  ultimately show ?thesis
    unfolding importOAuth2ClientDependencies_references run by auto
qed

lemma importOAuth2Client_entry_order:
  assumes "map_of (ob_application importData) key = Some entry"
  shows "\<exists>scripts puts.
     snd (snd (snd (importOAuth2Client_entry rm options importData key tr))) = tr @ scripts @ puts \<and>
     (\<forall>c\<in>set scripts. is_script_write c) \<and> (\<forall>c\<in>set puts. is_client_write c) \<and>
     (fst (snd (importOAuth2Client_entry rm options importData key tr)) \<noteq> None \<longrightarrow> puts \<noteq> [])"
proof -
  let ?cd = "strip_client entry"
  let ?b = "importData\<lparr>ob_application := AList.update key ?cd (ob_application importData)\<rparr>"
  obtain err t1 where deps:
    "(if oi_deps options then importOAuth2ClientDependencies rm ?cd ?b tr else (None, tr)) = (err, t1)"
    by (cases "if oi_deps options then importOAuth2ClientDependencies rm ?cd ?b tr else (None, tr)")
       auto
  have "\<exists>scripts. t1 = tr @ scripts \<and> (\<forall>c\<in>set scripts. is_script_write c)"
  proof (cases "oi_deps options")
    case True
    with deps have "t1 = snd (importOAuth2ClientDependencies rm ?cd ?b tr)" by simp
    with importOAuth2ClientDependencies_writes [of rm ?cd ?b tr] show ?thesis by simp
  next
    case False
    with deps show ?thesis by simp
  qed
  then obtain scripts where s: "t1 = tr @ scripts" "\<forall>c\<in>set scripts. is_script_write c" by blast
  show ?thesis
  proof (cases err)
    case (Some error)
    with assms deps have "importOAuth2Client_entry rm options importData key tr = ([error], None, ?b, t1)"
      by (simp add: importOAuth2Client_entry_def Let_def)
    with s show ?thesis
      apply (rule_tac x = scripts in exI)
      apply (rule_tac x = "[]" in exI)
      apply simp
      done
  next
    case None
    from updateOAuth2Client_writes [of rm key ?cd t1] obtain puts where
      p: "snd (snd (updateOAuth2Client rm key ?cd t1)) = t1 @ puts" "puts \<noteq> []"
         "\<forall>c\<in>set puts. is_client_write c" by blast
    from None assms deps
    have "snd (snd (snd (importOAuth2Client_entry rm options importData key tr))) =
        snd (snd (updateOAuth2Client rm key ?cd t1))"
      by (simp add: importOAuth2Client_entry_def Let_def split: prod.splits sum.splits)
    with p s show ?thesis
      apply (rule_tac x = scripts in exI)
      apply (rule_tac x = puts in exI)
      apply simp
      done
  qed
qed

lemma importOAuth2Client_loop_absent:
  "clientId \<notin> set keys \<Longrightarrow>
   importOAuth2Client_loop rm clientId options keys importData tr = ([], [], importData, tr)"
  by (induction keys) auto

lemma importOAuth2Client_loop_present:
  "distinct keys \<Longrightarrow> clientId \<in> set keys \<Longrightarrow>
   importOAuth2Client_loop rm clientId options keys importData tr =
     (case importOAuth2Client_entry rm options importData clientId tr of
        (errors, response, importData', tr') \<Rightarrow>
          (errors, (case response of Some r \<Rightarrow> [r] | None \<Rightarrow> []), importData', tr'))"
proof (induction keys)
  case Nil
  then show ?case by simp
next
  case (Cons key rest)
  show ?case
  proof (cases "key = clientId")
    case True
    with Cons.prems have "clientId \<notin> set rest" by simp
    with True show ?thesis
      by (simp add: importOAuth2Client_loop_absent split: prod.splits)
  next
    case False
    with Cons show ?thesis by simp
  qed
qed

lemma importOAuth2Client_trace:
  assumes "distinct (map fst (ob_application importData))"
    and "map_of (ob_application importData) clientId = Some entry"
  shows "snd (snd (importOAuth2Client rm clientId importData options tr)) =
     snd (snd (snd (importOAuth2Client_entry rm options importData clientId tr)))"
proof -
  from assms(2) have "clientId \<in> set (map fst (ob_application importData))"
    using map_of_present [of "ob_application importData" clientId entry] by simp
  note loop = importOAuth2Client_loop_present [OF assms(1) this, of rm options importData tr]
  show ?thesis by (simp add: importOAuth2Client_def loop split_beta)
qed

lemma importFirstOAuth2Client_trace:
  assumes "ob_application importData = (key, entry) # rest"
  shows "snd (snd (importFirstOAuth2Client rm importData options tr)) =
     snd (snd (snd (importOAuth2Client_entry rm options importData key tr)))"
    and "\<not> isl (fst (importFirstOAuth2Client rm importData options tr)) \<longrightarrow>
     fst (snd (importOAuth2Client_entry rm options importData key tr)) \<noteq> None"
  using assms
  by (auto simp: importFirstOAuth2Client_def split_beta split: option.splits)

lemma scripts_then_puts:
  assumes "\<forall>c\<in>set scripts. is_script_write c" and "\<forall>c\<in>set puts. is_client_write c"
  shows "all_before is_script_write is_client_write (scripts @ puts)"
proof -
  have kinds: "\<forall>c\<in>set scripts. \<not> is_client_write c" "\<forall>c\<in>set puts. \<not> is_script_write c"
    using assms by (auto simp: is_client_write_def is_script_write_def split: call.splits)
  show ?thesis
    unfolding all_before_append using kinds
    by (auto intro: all_before_none_later all_before_none_earlier)
qed

text \<open>
  Claim C2, as amended. The import of one policy, by id or as the first of the bundle,
  with \<open>prereqs\<close> and \<open>deps\<close> makes, in this order, the prerequisite writes that the
  bundle calls for (resource type, then policy set), the write of the policy, and the
  script writes: every prerequisite write is strictly before the policy write and the
  policy write strictly before every script write. The import of one OAuth2 client, by id
  or as the first of the bundle, with \<open>deps\<close> has the opposite order for its scripts: the
  script writes come first and the writes of the client (one, or two when the write is
  repaired) come last, so every script write is strictly before the client's write.
\<close>

theorem import_write_order:
  "(distinct (map fst (pb_policy importData)) \<and>
    map_of (pb_policy importData) policyId = Some entry \<and> pi_prereqs options \<and> pi_deps options \<longrightarrow>
      snd (snd (importPolicy rm policyId importData options tr)) =
        tr @ prerequisite_writes (strip_policy options entry) importData @
        [PutPolicy (p_id (strip_policy options entry)) (strip_policy options entry)] @
        script_writes (strip_policy options entry) importData \<and>
      all_before is_prerequisite_write is_policy_write
        (drop (length tr) (snd (snd (importPolicy rm policyId importData options tr)))) \<and>
      all_before is_policy_write is_script_write
        (drop (length tr) (snd (snd (importPolicy rm policyId importData options tr))))) \<and>
   (pb_policy importData = (firstKey, first) # others \<and> pi_prereqs options \<and> pi_deps options \<longrightarrow>
      snd (snd (importFirstPolicy rm importData options tr)) =
        tr @ prerequisite_writes (strip_policy options first) importData @
        [PutPolicy (p_id (strip_policy options first)) (strip_policy options first)] @
        script_writes (strip_policy options first) importData \<and>
      all_before is_prerequisite_write is_policy_write
        (drop (length tr) (snd (snd (importFirstPolicy rm importData options tr)))) \<and>
      all_before is_policy_write is_script_write
        (drop (length tr) (snd (snd (importFirstPolicy rm importData options tr))))) \<and>
   (distinct (map fst (ob_application clientBundle)) \<and>
    map_of (ob_application clientBundle) clientId = Some clientEntry \<and> oi_deps clientOptions \<longrightarrow>
      (\<exists>scripts puts.
         snd (snd (importOAuth2Client rm clientId clientBundle clientOptions tr)) =
           tr @ scripts @ puts \<and>
         (\<forall>c\<in>set scripts. is_script_write c) \<and> (\<forall>c\<in>set puts. is_client_write c) \<and>
         (\<not> isl (fst (importOAuth2Client rm clientId clientBundle clientOptions tr)) \<longrightarrow> puts \<noteq> [])) \<and>
      all_before is_script_write is_client_write
        (drop (length tr) (snd (snd (importOAuth2Client rm clientId clientBundle clientOptions tr))))) \<and>
   (ob_application clientBundle = (firstClientKey, firstClient) # otherClients \<and>
    oi_deps clientOptions \<longrightarrow>
      (\<exists>scripts puts.
         snd (snd (importFirstOAuth2Client rm clientBundle clientOptions tr)) =
           tr @ scripts @ puts \<and>
         (\<forall>c\<in>set scripts. is_script_write c) \<and> (\<forall>c\<in>set puts. is_client_write c) \<and>
         (\<not> isl (fst (importFirstOAuth2Client rm clientBundle clientOptions tr)) \<longrightarrow> puts \<noteq> [])) \<and>
      all_before is_script_write is_client_write
        (drop (length tr) (snd (snd (importFirstOAuth2Client rm clientBundle clientOptions tr)))))"
proof (intro conjI impI)
  assume a: "distinct (map fst (pb_policy importData)) \<and>
    map_of (pb_policy importData) policyId = Some entry \<and> pi_prereqs options \<and> pi_deps options"
  then have tr: "snd (snd (importPolicy rm policyId importData options tr)) =
      tr @ entry_calls options importData entry"
    using importPolicy_present(2) by blast
  from a tr show "snd (snd (importPolicy rm policyId importData options tr)) =
        tr @ prerequisite_writes (strip_policy options entry) importData @
        [PutPolicy (p_id (strip_policy options entry)) (strip_policy options entry)] @
        script_writes (strip_policy options entry) importData"
    by (simp add: entry_calls_def)
  from tr entry_calls_order [of options importData entry]
  show "all_before is_prerequisite_write is_policy_write
        (drop (length tr) (snd (snd (importPolicy rm policyId importData options tr))))"
    by simp
  from tr entry_calls_order [of options importData entry]
  show "all_before is_policy_write is_script_write
        (drop (length tr) (snd (snd (importPolicy rm policyId importData options tr))))"
    by simp
next
  assume a: "pb_policy importData = (firstKey, first) # others \<and> pi_prereqs options \<and>
    pi_deps options"
  then have tr: "snd (snd (importFirstPolicy rm importData options tr)) =
      tr @ entry_calls options importData first"
    using importFirstPolicy_effect(2) by blast
  from a tr show "snd (snd (importFirstPolicy rm importData options tr)) =
        tr @ prerequisite_writes (strip_policy options first) importData @
        [PutPolicy (p_id (strip_policy options first)) (strip_policy options first)] @
        script_writes (strip_policy options first) importData"
    by (simp add: entry_calls_def)
  from tr entry_calls_order [of options importData first]
  show "all_before is_prerequisite_write is_policy_write
        (drop (length tr) (snd (snd (importFirstPolicy rm importData options tr))))"
    by simp
  from tr entry_calls_order [of options importData first]
  show "all_before is_policy_write is_script_write
        (drop (length tr) (snd (snd (importFirstPolicy rm importData options tr))))"
    by simp
next
  assume a: "distinct (map fst (ob_application clientBundle)) \<and>
    map_of (ob_application clientBundle) clientId = Some clientEntry \<and> oi_deps clientOptions"
  then have d: "distinct (map fst (ob_application clientBundle))"
    and m: "map_of (ob_application clientBundle) clientId = Some clientEntry" by simp_all
  note t = importOAuth2Client_trace [OF d m, of rm clientOptions tr]
  from importOAuth2Client_entry_order [OF m, of rm clientOptions tr] obtain scripts puts where
    sp: "snd (snd (snd (importOAuth2Client_entry rm clientOptions clientBundle clientId tr))) =
           tr @ scripts @ puts"
     "\<forall>c\<in>set scripts. is_script_write c" "\<forall>c\<in>set puts. is_client_write c"
     "fst (snd (importOAuth2Client_entry rm clientOptions clientBundle clientId tr)) \<noteq> None \<longrightarrow>
        puts \<noteq> []"
    by blast
  from m have "clientId \<in> set (map fst (ob_application clientBundle))"
    using map_of_present [of "ob_application clientBundle" clientId clientEntry] by simp
  note loop = importOAuth2Client_loop_present [OF d this, of rm clientOptions clientBundle tr]
  have ok: "\<not> isl (fst (importOAuth2Client rm clientId clientBundle clientOptions tr)) \<longrightarrow>
      fst (snd (importOAuth2Client_entry rm clientOptions clientBundle clientId tr)) \<noteq> None"
    by (auto simp: importOAuth2Client_def loop split_beta split: if_splits option.splits)
  from sp ok t show "\<exists>scripts puts.
         snd (snd (importOAuth2Client rm clientId clientBundle clientOptions tr)) =
           tr @ scripts @ puts \<and>
         (\<forall>c\<in>set scripts. is_script_write c) \<and> (\<forall>c\<in>set puts. is_client_write c) \<and>
         (\<not> isl (fst (importOAuth2Client rm clientId clientBundle clientOptions tr)) \<longrightarrow> puts \<noteq> [])"
    apply (rule_tac x = scripts in exI)
    apply (rule_tac x = puts in exI)
    apply simp
    done
  from scripts_then_puts [OF sp(2,3)] t sp(1)
  show "all_before is_script_write is_client_write
        (drop (length tr) (snd (snd (importOAuth2Client rm clientId clientBundle clientOptions tr))))"
    by simp
next
  assume a: "ob_application clientBundle = (firstClientKey, firstClient) # otherClients \<and>
    oi_deps clientOptions"
  then have first: "ob_application clientBundle = (firstClientKey, firstClient) # otherClients"
    by simp
  then have m: "map_of (ob_application clientBundle) firstClientKey = Some firstClient" by simp
  note t = importFirstOAuth2Client_trace [OF first, of rm clientOptions tr]
  from importOAuth2Client_entry_order [OF m, of rm clientOptions tr] obtain scripts puts where
    sp: "snd (snd (snd (importOAuth2Client_entry rm clientOptions clientBundle firstClientKey tr))) =
           tr @ scripts @ puts"
     "\<forall>c\<in>set scripts. is_script_write c" "\<forall>c\<in>set puts. is_client_write c"
     "fst (snd (importOAuth2Client_entry rm clientOptions clientBundle firstClientKey tr)) \<noteq> None \<longrightarrow>
        puts \<noteq> []"
    by blast
  from sp t show "\<exists>scripts puts.
         snd (snd (importFirstOAuth2Client rm clientBundle clientOptions tr)) =
           tr @ scripts @ puts \<and>
         (\<forall>c\<in>set scripts. is_script_write c) \<and> (\<forall>c\<in>set puts. is_client_write c) \<and>
         (\<not> isl (fst (importFirstOAuth2Client rm clientBundle clientOptions tr)) \<longrightarrow> puts \<noteq> [])"
    apply (rule_tac x = scripts in exI)
    apply (rule_tac x = puts in exI)
    apply simp
    done
  from scripts_then_puts [OF sp(2,3)] t(1) sp(1)
  show "all_before is_script_write is_client_write
        (drop (length tr) (snd (snd (importFirstOAuth2Client rm clientBundle clientOptions tr))))"
    by simp
qed

lemma sample_uuids: "findScriptUuids (Some sample_condition) = [Some ''62f18ede'', Some ''729ee140'']"
  by (simp add: sample_condition_def js_set_spread_def)

lemma full_strip: "strip_policy full_import e = e\<lparr>p_rev := None\<rparr>"
  by (simp add: strip_policy_def truthy_str_def full_import_def)

lemma full_flags: "pi_deps full_import" "pi_prereqs full_import"
  by (simp_all add: full_import_def)

lemma sample_bundle_lookups:
  "js_get (pb_resourcetype sample_policy_bundle) ''rt1'' = Own (JObj [(''uuid'', JStr ''rt1'')])"
  "js_get (pb_policyset sample_policy_bundle) ''set1'' = Own (JObj [(''name'', JStr ''set1'')])"
  "js_get (pb_script sample_policy_bundle) ''62f18ede'' =
     Own \<lparr>s_id = ''62f18ede'', s_script = ScriptText ''YQ==''\<rparr>"
  "js_get (pb_script sample_policy_bundle) ''729ee140'' =
     Own \<lparr>s_id = ''729ee140'', s_script = ScriptText ''Yg==''\<rparr>"
  by (simp_all add: sample_policy_bundle_def js_get_def)

lemma sample_prerequisite_writes:
  "prerequisite_writes (sample_policy\<lparr>p_rev := None\<rparr>) sample_policy_bundle =
     [UpdateResourceType (Some ''rt1'') (Own (JObj [(''uuid'', JStr ''rt1'')])),
      UpdatePolicySet (Own (JObj [(''name'', JStr ''set1'')]))]"
  by (simp add: prerequisite_writes_def sample_policy_def sample_bundle_lookups
      str_or_undefined_def js_strings)

lemma sample_script_writes:
  "script_writes (sample_policy\<lparr>p_rev := None\<rparr>) sample_policy_bundle =
     [UpdateScript (Some (JStr ''62f18ede''))
        (Own \<lparr>s_id = ''62f18ede'', s_script = ScriptText ''YQ==''\<rparr>),
      UpdateScript (Some (JStr ''729ee140''))
        (Own \<lparr>s_id = ''729ee140'', s_script = ScriptText ''Yg==''\<rparr>)]"
  by (simp add: script_writes_def sample_policy_def sample_uuids sample_bundle_lookups
      str_or_undefined_def js_strings)

lemma sample_keys:
  "distinct (map fst (pb_policy sample_policy_bundle))"
  "map fst (pb_policy sample_policy_bundle) = [''p1'', ''p2'']"
  "map_of (pb_policy sample_policy_bundle) ''p1'' = Some sample_policy"
  "''p3'' \<notin> fst ` set (pb_policy sample_policy_bundle)"
  "pb_policy sample_policy_bundle = [(''p1'', sample_policy), (''p2'', sample_policy2)]"
  by (simp_all add: sample_policy_bundle_def)

lemma sample_client_keys:
  "distinct (map fst (ob_application sample_client_bundle))"
  "map_of (ob_application sample_client_bundle) ''c1'' = Some sample_client"
  "ob_application sample_client_bundle = [(''c1'', sample_client)]"
  by (simp_all add: sample_client_bundle_def)

text \<open>
  The first policy of the sample bundle, imported by id and as the first with both
  options: resource type, policy set, policy, then its two scripts. The sample client,
  by id and as the first: its script, then the client.
\<close>

theorem import_write_order_witness:
  "snd (snd (importPolicy sample_remote ''p1'' sample_policy_bundle full_import [])) =
     [UpdateResourceType (Some ''rt1'') (Own (JObj [(''uuid'', JStr ''rt1'')])),
      UpdatePolicySet (Own (JObj [(''name'', JStr ''set1'')])),
      PutPolicy ''p1'' (sample_policy\<lparr>p_rev := None\<rparr>),
      UpdateScript (Some (JStr ''62f18ede''))
        (Own \<lparr>s_id = ''62f18ede'', s_script = ScriptText ''YQ==''\<rparr>),
      UpdateScript (Some (JStr ''729ee140''))
        (Own \<lparr>s_id = ''729ee140'', s_script = ScriptText ''Yg==''\<rparr>)] \<and>
   snd (snd (importFirstPolicy sample_remote sample_policy_bundle full_import [])) =
     [UpdateResourceType (Some ''rt1'') (Own (JObj [(''uuid'', JStr ''rt1'')])),
      UpdatePolicySet (Own (JObj [(''name'', JStr ''set1'')])),
      PutPolicy ''p1'' (sample_policy\<lparr>p_rev := None\<rparr>),
      UpdateScript (Some (JStr ''62f18ede''))
        (Own \<lparr>s_id = ''62f18ede'', s_script = ScriptText ''YQ==''\<rparr>),
      UpdateScript (Some (JStr ''729ee140''))
        (Own \<lparr>s_id = ''729ee140'', s_script = ScriptText ''Yg==''\<rparr>)] \<and>
   all_before is_script_write is_client_write
     (snd (snd (importOAuth2Client sample_remote ''c1'' sample_client_bundle \<lparr>oi_deps = True\<rparr> []))) \<and>
   all_before is_script_write is_client_write
     (snd (snd (importFirstOAuth2Client sample_remote sample_client_bundle \<lparr>oi_deps = True\<rparr> [])))"
proof -
  note general = import_write_order
    [where importData = sample_policy_bundle and policyId = "''p1''" and entry = sample_policy
       and options = full_import and firstKey = "''p1''" and first = sample_policy
       and others = "[(''p2'', sample_policy2)]" and rm = sample_remote and tr = "[]"
       and clientBundle = sample_client_bundle and clientId = "''c1''"
       and clientEntry = sample_client and clientOptions = "\<lparr>oi_deps = True\<rparr>"
       and firstClientKey = "''c1''" and firstClient = sample_client and otherClients = "[]"]
  from general sample_keys(1,3) full_flags
  have "snd (snd (importPolicy sample_remote ''p1'' sample_policy_bundle full_import [])) =
        [] @ prerequisite_writes (strip_policy full_import sample_policy) sample_policy_bundle @
        [PutPolicy (p_id (strip_policy full_import sample_policy))
           (strip_policy full_import sample_policy)] @
        script_writes (strip_policy full_import sample_policy) sample_policy_bundle"
    by blast
  then have one: "snd (snd (importPolicy sample_remote ''p1'' sample_policy_bundle full_import [])) =
     [UpdateResourceType (Some ''rt1'') (Own (JObj [(''uuid'', JStr ''rt1'')])),
      UpdatePolicySet (Own (JObj [(''name'', JStr ''set1'')])),
      PutPolicy ''p1'' (sample_policy\<lparr>p_rev := None\<rparr>),
      UpdateScript (Some (JStr ''62f18ede''))
        (Own \<lparr>s_id = ''62f18ede'', s_script = ScriptText ''YQ==''\<rparr>),
      UpdateScript (Some (JStr ''729ee140''))
        (Own \<lparr>s_id = ''729ee140'', s_script = ScriptText ''Yg==''\<rparr>)]"
    unfolding full_strip sample_prerequisite_writes sample_script_writes
    by (simp add: sample_policy_def)
  from general sample_keys(5) full_flags
  have "snd (snd (importFirstPolicy sample_remote sample_policy_bundle full_import [])) =
        [] @ prerequisite_writes (strip_policy full_import sample_policy) sample_policy_bundle @
        [PutPolicy (p_id (strip_policy full_import sample_policy))
           (strip_policy full_import sample_policy)] @
        script_writes (strip_policy full_import sample_policy) sample_policy_bundle"
    by blast
  then have two: "snd (snd (importFirstPolicy sample_remote sample_policy_bundle full_import [])) =
     [UpdateResourceType (Some ''rt1'') (Own (JObj [(''uuid'', JStr ''rt1'')])),
      UpdatePolicySet (Own (JObj [(''name'', JStr ''set1'')])),
      PutPolicy ''p1'' (sample_policy\<lparr>p_rev := None\<rparr>),
      UpdateScript (Some (JStr ''62f18ede''))
        (Own \<lparr>s_id = ''62f18ede'', s_script = ScriptText ''YQ==''\<rparr>),
      UpdateScript (Some (JStr ''729ee140''))
        (Own \<lparr>s_id = ''729ee140'', s_script = ScriptText ''Yg==''\<rparr>)]"
    unfolding full_strip sample_prerequisite_writes sample_script_writes
    by (simp add: sample_policy_def)
  have deps: "oi_deps \<lparr>oi_deps = True\<rparr>" by simp
  from general sample_client_keys(1,2) deps
  have three: "all_before is_script_write is_client_write
     (drop (length ([]::call list)) (snd (snd (importOAuth2Client sample_remote ''c1''
        sample_client_bundle \<lparr>oi_deps = True\<rparr> []))))"
    by blast
  from general sample_client_keys(3) deps
  have four: "all_before is_script_write is_client_write
     (drop (length ([]::call list)) (snd (snd (importFirstOAuth2Client sample_remote
        sample_client_bundle \<lparr>oi_deps = True\<rparr> []))))"
    by blast
  from one two three four show ?thesis by simp
qed

lemma sample_override:
  "script_reference_entries (override_config (strip_client sample_client)) =
     [(''accessTokenModificationScript'', JStr ''s1'')]"
  by (simp add: script_reference_entries_def override_config_def strip_client_def
      sample_client_def endsWith_def)

lemma sample_client_import:
  "importOAuth2Client_entry sample_remote \<lparr>oi_deps = True\<rparr> sample_client_bundle ''c1'' [] =
     ([], Some (strip_client sample_client),
      sample_client_bundle\<lparr>ob_application := [(''c1'', strip_client sample_client)]\<rparr>,
      [UpdateScript (Some (JStr ''s1'')) (Own sample_script),
       PutOAuth2Client ''c1'' (strip_client sample_client)])"
  by (simp add: importOAuth2Client_entry_def sample_client_keys Let_def
      importOAuth2ClientDependencies_references sample_override bundle_script_def
      sample_client_bundle_def js_keys js_strings sample_store updateOAuth2Client_def
      sample_remote_def)

text \<open>
  The claim as written puts every script write after the write of the owner for OAuth2
  clients too. The import of the sample client writes its script first.
\<close>

theorem owner_before_script_counterexample:
  "snd (snd (importOAuth2Client sample_remote ''c1'' sample_client_bundle \<lparr>oi_deps = True\<rparr> [])) =
     [UpdateScript (Some (JStr ''s1'')) (Own sample_script),
      PutOAuth2Client ''c1'' (strip_client sample_client)] \<and>
   \<not> all_before is_client_write is_script_write
       (snd (snd (importOAuth2Client sample_remote ''c1'' sample_client_bundle \<lparr>oi_deps = True\<rparr> [])))"
proof -
  have run: "snd (snd (importOAuth2Client sample_remote ''c1'' sample_client_bundle \<lparr>oi_deps = True\<rparr> [])) =
     [UpdateScript (Some (JStr ''s1'')) (Own sample_script),
      PutOAuth2Client ''c1'' (strip_client sample_client)]"
    unfolding importOAuth2Client_trace [OF sample_client_keys(1,2)] sample_client_import
    by simp
  show ?thesis unfolding run
    by (simp add: is_client_write_def is_script_write_def)
qed

section \<open>Script references that the bundle does not hold\<close>

text \<open>
  Claim C3 says that a reference to a script absent from the bundle is skipped silently.
  \<open>importOAuth2ClientDependencies\<close> tests \<open>importData.script[scriptId]\<close> and does skip
  it (see \<open>import_references_writes\<close>), and \<open>importPolicyPrerequisites\<close> tests its bundle
  entries likewise; \<open>importPolicyDependencies\<close> has no such test. Here the bundle lacks
  the script \<open>729ee140\<close> of the first policy: \<open>updateScript\<close> is called for it with no
  script data (the lookup gives \<open>undefined\<close>), and the failure of that call is reported as an error of the import.
\<close>

theorem importPolicy_absent_script_written:
  "js_get (pb_script partial_policy_bundle) ''729ee140'' = Missing \<and>
   snd (snd (importPolicy sample_remote ''p1'' partial_policy_bundle
       \<lparr>pi_deps = True, pi_prereqs = False, pi_policySetName = None\<rparr> [])) =
     [PutPolicy ''p1'' (sample_policy\<lparr>p_rev := None\<rparr>),
      UpdateScript (Some (JStr ''62f18ede''))
        (Own \<lparr>s_id = ''62f18ede'', s_script = ScriptText ''YQ==''\<rparr>),
      UpdateScript (Some (JStr ''729ee140'')) Missing] \<and>
   fst (importPolicy sample_remote ''p1'' partial_policy_bundle
       \<lparr>pi_deps = True, pi_prereqs = False, pi_policySetName = None\<rparr> []) =
     Inl (FrodoError ''Error importing alpha realm policy p1''
            [FrodoError ''Error importing alpha realm soft dependencies for policy p1''
               [FrodoError ''Error importing alpha realm script 729ee140 for policy p1''
                  [Thrown server_error]]])"
  by (simp add: importPolicy_def importPolicy_entry_def partial_policy_bundle_def
      sample_policy_bundle_def strip_policy_def truthy_str_def updatePolicy_def
      importPolicyDependencies_def sample_uuids sample_policy_def sample_remote_def
      str_or_undefined_def realm_def Let_def js_get_def object_prototype_def js_string_def)

section \<open>Import of every policy of a bundle\<close>

lemma update_append_absent:
  "k \<notin> fst ` set xs \<Longrightarrow> AList.update k v (xs @ ys) = xs @ AList.update k v ys"
  by (induction xs) auto

lemma map_of_append_absent:
  "k \<notin> fst ` set xs \<Longrightarrow> map_of (xs @ ys) k = map_of ys k"
  by (induction xs) auto

lemma entry_calls_stored:
  "pb_script b' = pb_script b \<Longrightarrow> pb_resourcetype b' = pb_resourcetype b \<Longrightarrow>
   pb_policyset b' = pb_policyset b \<Longrightarrow> entry_calls options b' e = entry_calls options b e"
  by (simp add: entry_calls_def prerequisite_writes_def script_writes_def)

lemma importPolicies_loop_effect:
  "distinct (map fst (xs @ ys)) \<Longrightarrow> pb_policy b = xs @ ys \<Longrightarrow>
   fst (snd (snd (importPolicies_loop rm options (map fst ys) b tr))) =
     b\<lparr>pb_policy := xs @ map (\<lambda>(k, e). (k, strip_policy options e)) ys\<rparr> \<and>
   snd (snd (snd (importPolicies_loop rm options (map fst ys) b tr))) =
     tr @ concat (map (\<lambda>(k, e). entry_calls options b e) ys)"
proof (induction ys arbitrary: xs b tr)
  case Nil
  then show ?case by simp
next
  case (Cons y ys)
  obtain k e where y: "y = (k, e)" by (cases y)
  from Cons.prems y have absent: "k \<notin> fst ` set xs" by auto
  then have "map_of (xs @ (k, e) # ys) k = map_of ((k, e) # ys) k"
    by (rule map_of_append_absent)
  with Cons.prems(2) y have found: "map_of (pb_policy b) k = Some e"
    by simp
  let ?b1 = "stored options b k e"
  let ?xs1 = "xs @ [(k, strip_policy options e)]"
  have b1: "pb_policy ?b1 = ?xs1 @ ys"
    using Cons.prems(2) y absent by (simp add: stored_def update_append_absent)
  have d1: "distinct (map fst (?xs1 @ ys))"
    using Cons.prems(1) y by simp
  obtain errors response where run:
    "importPolicy_entry rm options b k tr =
       (errors, response, ?b1, tr @ entry_calls options b e)"
    using importPolicy_entry_effect [OF found, of rm options tr]
    by (cases "importPolicy_entry rm options b k tr") auto
  have same: "\<And>e'. entry_calls options (stored options b k e) e' = entry_calls options b e'"
    by (rule entry_calls_stored) (simp_all add: stored_def)
  note ih = Cons.IH [OF d1 b1, of "tr @ entry_calls options b e", unfolded same]
  have s1: "fst (snd (snd (importPolicies_loop rm options (map fst (y # ys)) b tr))) =
      fst (snd (snd (importPolicies_loop rm options (map fst ys) (stored options b k e)
        (tr @ entry_calls options b e))))"
    by (simp add: y run split_beta)
  have s2: "snd (snd (snd (importPolicies_loop rm options (map fst (y # ys)) b tr))) =
      snd (snd (snd (importPolicies_loop rm options (map fst ys) (stored options b k e)
        (tr @ entry_calls options b e))))"
    by (simp add: y run split_beta)
  have merged: "(stored options b k e)
        \<lparr>pb_policy := (xs @ [(k, strip_policy options e)]) @
                          map (\<lambda>(k, e). (k, strip_policy options e)) ys\<rparr> =
      b\<lparr>pb_policy := xs @ map (\<lambda>(k, e). (k, strip_policy options e)) (y # ys)\<rparr>"
    by (simp add: stored_def y)
  have calls: "(tr @ entry_calls options b e) @ concat (map (\<lambda>(k, e). entry_calls options b e) ys) =
      tr @ concat (map (\<lambda>(k, e). entry_calls options b e) (y # ys))"
    by (simp add: y)
  from ih show ?case
    unfolding s1 s2 merged calls .
qed

lemma entry_calls_policy_writes:
  "filter is_policy_write (entry_calls options b e) =
     [PutPolicy (p_id (strip_policy options e)) (strip_policy options e)]"
proof -
  have pre: "filter is_policy_write (prerequisite_writes (strip_policy options e) b) = []"
    using prerequisite_writes_kind by (auto simp: filter_empty_conv)
  have post: "filter is_policy_write (script_writes (strip_policy options e) b) = []"
    using script_writes_kind by (auto simp: filter_empty_conv)
  show ?thesis
    by (simp add: entry_calls_def pre post is_policy_write_def)
qed

lemma policy_writes_of_entries:
  "filter is_policy_write (concat (map (\<lambda>(k, e). entry_calls options b e) ys)) =
     map (\<lambda>(k, e). PutPolicy (p_id (strip_policy options e)) (strip_policy options e)) ys"
  by (induction ys) (auto simp: entry_calls_policy_writes)

lemma importPolicies_loop_errors:
  "fst (importPolicies_loop rm options keys b tr) =
     concat (map snd (importPolicies_runs rm options keys b tr))"
  by (induction keys arbitrary: b tr) (simp_all add: split_beta)

lemma importPolicies_runs_keys:
  "map fst (importPolicies_runs rm options keys b tr) = keys"
  by (induction keys arbitrary: b tr) (simp_all add: split_beta)

lemma importPolicyPrerequisites_error:
  "fst (importPolicyPrerequisites rm pd b tr) = Some e \<Longrightarrow> names_policy rm (p_id pd) e"
  by (auto simp: importPolicyPrerequisites_def Let_def names_policy_def split_beta
      split: if_splits)

lemma importPolicyDependencies_error:
  "fst (importPolicyDependencies rm pd b tr) = Some e \<Longrightarrow> names_policy rm (p_id pd) e"
  by (auto simp: importPolicyDependencies_def names_policy_def split_beta split: if_splits)

lemma updatePolicy_error:
  "fst (updatePolicy rm policyId pd tr) = Inl e \<Longrightarrow> names_policy rm policyId e"
  by (auto simp: updatePolicy_def names_policy_def split: sum.splits)

lemma importPolicy_entry_named:
  assumes "map_of (pb_policy b) key = Some entry"
    and "e \<in> set (fst (importPolicy_entry rm options b key tr))"
  shows "names_policy rm (p_id (strip_policy options entry)) e"
  using assms
  by (auto simp: importPolicy_entry_def Let_def split_beta
      split: if_splits option.splits sum.splits
      dest: importPolicyPrerequisites_error importPolicyDependencies_error updatePolicy_error)

lemma importPolicies_runs_named:
  "distinct (map fst (xs @ ys)) \<Longrightarrow> pb_policy b = xs @ ys \<Longrightarrow>
   list_all2 (\<lambda>((k, entry), start) (k', errors). k' = k \<and>
                (\<forall>e\<in>set errors. names_policy rm (p_id (strip_policy options entry)) e) \<and>
                concat (map leaves errors) =
                  failures nothing_dropped rm start (entry_calls options b entry))
     (zip ys (entry_starts tr (map (\<lambda>(k, e). entry_calls options b e) ys)))
     (importPolicies_runs rm options (map fst ys) b tr)"
proof (induction ys arbitrary: xs b tr)
  case Nil
  then show ?case by simp
next
  case (Cons y ys)
  obtain k e where y: "y = (k, e)" by (cases y)
  from Cons.prems y have absent: "k \<notin> fst ` set xs" by auto
  then have "map_of (xs @ (k, e) # ys) k = map_of ((k, e) # ys) k"
    by (rule map_of_append_absent)
  with Cons.prems(2) y have found: "map_of (pb_policy b) k = Some e"
    by simp
  let ?xs1 = "xs @ [(k, strip_policy options e)]"
  have b1: "pb_policy (stored options b k e) = ?xs1 @ ys"
    using Cons.prems(2) y absent by (simp add: stored_def update_append_absent)
  have d1: "distinct (map fst (?xs1 @ ys))"
    using Cons.prems(1) y by simp
  obtain errors response where run:
    "importPolicy_entry rm options b k tr =
       (errors, response, stored options b k e, tr @ entry_calls options b e)"
    using importPolicy_entry_effect [OF found, of rm options tr]
    by (cases "importPolicy_entry rm options b k tr") auto
  have named: "\<forall>x\<in>set errors. names_policy rm (p_id (strip_policy options e)) x"
    using importPolicy_entry_named [OF found, of _ rm options tr] run by simp
  have failed: "concat (map leaves errors) =
      failures nothing_dropped rm tr (entry_calls options b e)"
    using importPolicy_entry_failures(1) [OF found, of rm options tr] run by simp
  have same: "\<And>e'. entry_calls options (stored options b k e) e' = entry_calls options b e'"
    by (rule entry_calls_stored) (simp_all add: stored_def)
  note ih = Cons.IH [OF d1 b1, of "tr @ entry_calls options b e", unfolded same]
  show ?case
    using ih named failed by (simp add: y run)
qed

lemma importPolicies_loop_failures:
  "distinct (map fst (xs @ ys)) \<Longrightarrow> pb_policy b = xs @ ys \<Longrightarrow>
   concat (map leaves (fst (importPolicies_loop rm options (map fst ys) b tr))) =
     failures nothing_dropped rm tr (concat (map (\<lambda>(k, e). entry_calls options b e) ys)) \<and>
   (fst (importPolicies_loop rm options (map fst ys) b tr) = [] \<longleftrightarrow>
     failures nothing_dropped rm tr (concat (map (\<lambda>(k, e). entry_calls options b e) ys)) = [])"
proof (induction ys arbitrary: xs b tr)
  case Nil
  then show ?case by simp
next
  case (Cons y ys)
  obtain k e where y: "y = (k, e)" by (cases y)
  from Cons.prems y have absent: "k \<notin> fst ` set xs" by auto
  then have "map_of (xs @ (k, e) # ys) k = map_of ((k, e) # ys) k"
    by (rule map_of_append_absent)
  with Cons.prems(2) y have found: "map_of (pb_policy b) k = Some e"
    by simp
  let ?xs1 = "xs @ [(k, strip_policy options e)]"
  have b1: "pb_policy (stored options b k e) = ?xs1 @ ys"
    using Cons.prems(2) y absent by (simp add: stored_def update_append_absent)
  have d1: "distinct (map fst (?xs1 @ ys))"
    using Cons.prems(1) y by simp
  obtain errors response where run:
    "importPolicy_entry rm options b k tr =
       (errors, response, stored options b k e, tr @ entry_calls options b e)"
    using importPolicy_entry_effect [OF found, of rm options tr]
    by (cases "importPolicy_entry rm options b k tr") auto
  have failed: "concat (map leaves errors) =
      failures nothing_dropped rm tr (entry_calls options b e)"
    "errors = [] \<longleftrightarrow> failures nothing_dropped rm tr (entry_calls options b e) = []"
    using importPolicy_entry_failures(1,2) [OF found, of rm options tr] run by simp_all
  have same: "\<And>e'. entry_calls options (stored options b k e) e' = entry_calls options b e'"
    by (rule entry_calls_stored) (simp_all add: stored_def)
  note ih = Cons.IH [OF d1 b1, of "tr @ entry_calls options b e", unfolded same]
  show ?case
    using ih failed by (simp add: y run split_beta failures_append)
qed

lemma importPolicies_effect:
  assumes "distinct (map fst (pb_policy b))"
  shows "fst (snd (importPolicies rm b options tr)) =
           b\<lparr>pb_policy := map (\<lambda>(k, e). (k, strip_policy options e)) (pb_policy b)\<rparr>"
    and "snd (snd (importPolicies rm b options tr)) =
           tr @ concat (map (\<lambda>(k, e). entry_calls options b e) (pb_policy b))"
    and "fst (importPolicies rm b options tr) =
           (if concat (map snd (importPolicies_runs rm options (map fst (pb_policy b)) b tr)) = []
            then Inr (fst (snd (importPolicies_loop rm options (map fst (pb_policy b)) b tr)))
            else Inl (FrodoError (''Error importing '' @ realm rm @ '' policies'')
                   (concat (map snd (importPolicies_runs rm options (map fst (pb_policy b)) b tr)))))"
    and "result_leaves (fst (importPolicies rm b options tr)) =
           failures nothing_dropped rm tr
             (concat (map (\<lambda>(k, e). entry_calls options b e) (pb_policy b)))"
    and "isl (fst (importPolicies rm b options tr)) \<longleftrightarrow>
           failures nothing_dropped rm tr
             (concat (map (\<lambda>(k, e). entry_calls options b e) (pb_policy b))) \<noteq> []"
proof -
  note failed = importPolicies_loop_failures [of "[]" "pb_policy b" b rm options tr, simplified,
    OF assms]
  show "result_leaves (fst (importPolicies rm b options tr)) =
           failures nothing_dropped rm tr
             (concat (map (\<lambda>(k, e). entry_calls options b e) (pb_policy b)))"
    using failed by (auto simp: importPolicies_def split_beta result_leaves_def)
  show "isl (fst (importPolicies rm b options tr)) \<longleftrightarrow>
           failures nothing_dropped rm tr
             (concat (map (\<lambda>(k, e). entry_calls options b e) (pb_policy b))) \<noteq> []"
    using failed by (auto simp: importPolicies_def split_beta)
  note eff = importPolicies_loop_effect [of "[]" "pb_policy b" b rm options tr, simplified, OF assms]
  show "fst (snd (importPolicies rm b options tr)) =
           b\<lparr>pb_policy := map (\<lambda>(k, e). (k, strip_policy options e)) (pb_policy b)\<rparr>"
    using eff by (simp add: importPolicies_def split_beta)
  show "snd (snd (importPolicies rm b options tr)) =
           tr @ concat (map (\<lambda>(k, e). entry_calls options b e) (pb_policy b))"
    using eff by (simp add: importPolicies_def split_beta)
  show "fst (importPolicies rm b options tr) =
           (if concat (map snd (importPolicies_runs rm options (map fst (pb_policy b)) b tr)) = []
            then Inr (fst (snd (importPolicies_loop rm options (map fst (pb_policy b)) b tr)))
            else Inl (FrodoError (''Error importing '' @ realm rm @ '' policies'')
                   (concat (map snd (importPolicies_runs rm options (map fst (pb_policy b)) b tr)))))"
    using importPolicies_loop_errors [of rm options "map fst (pb_policy b)" b tr]
    by (simp add: importPolicies_def split_beta)
qed

lemma importPolicy_failures:
  assumes "distinct (map fst (pb_policy importData))"
    and "map_of (pb_policy importData) policyId = Some entry"
  shows "result_leaves (fst (importPolicy rm policyId importData options tr)) =
           failures nothing_dropped rm tr (entry_calls options importData entry)"
    and "isl (fst (importPolicy rm policyId importData options tr)) \<longleftrightarrow>
           failures nothing_dropped rm tr (entry_calls options importData entry) \<noteq> []"
proof -
  from assms(2) have "policyId \<in> set (map fst (pb_policy importData))"
    using map_of_present [of "pb_policy importData" policyId entry] by simp
  note loop = importPolicy_loop_present [OF assms(1) this, of rm options importData tr]
  note failed = importPolicy_entry_failures [OF assms(2), of rm options tr]
  show "result_leaves (fst (importPolicy rm policyId importData options tr)) =
           failures nothing_dropped rm tr (entry_calls options importData entry)"
    using failed(1,2)
    by (auto simp: importPolicy_def loop split_beta result_leaves_def)
  show "isl (fst (importPolicy rm policyId importData options tr)) \<longleftrightarrow>
           failures nothing_dropped rm tr (entry_calls options importData entry) \<noteq> []"
    using failed(2,3)
    by (auto simp: importPolicy_def loop split_beta split: option.splits)
qed

lemma importFirstPolicy_failures:
  assumes "pb_policy b = (key, entry) # rest"
  shows "result_leaves (fst (importFirstPolicy rm b options tr)) =
           failures nothing_dropped rm tr (entry_calls options b entry)"
    and "isl (fst (importFirstPolicy rm b options tr)) \<longleftrightarrow>
           failures nothing_dropped rm tr (entry_calls options b entry) \<noteq> []"
proof -
  from assms have found: "map_of (pb_policy b) key = Some entry" by simp
  note failed = importPolicy_entry_failures [OF found, of rm options tr]
  show "result_leaves (fst (importFirstPolicy rm b options tr)) =
           failures nothing_dropped rm tr (entry_calls options b entry)"
    using failed(1,2) assms
    by (auto simp: importFirstPolicy_def split_beta result_leaves_def split: option.splits)
  show "isl (fst (importFirstPolicy rm b options tr)) \<longleftrightarrow>
           failures nothing_dropped rm tr (entry_calls options b entry) \<noteq> []"
    using failed(2,3) assms
    by (auto simp: importFirstPolicy_def split_beta split: option.splits)
qed

section \<open>Import selectors\<close>

text \<open>
  Claim C5, as amended. \<open>importPolicy\<close> raises "not found in import data" and calls
  nothing when no key of the bundle equals the id, and otherwise writes exactly one policy,
  the entry under that key (without its \<open>_rev\<close>). \<open>importFirstPolicy\<close> raises "No policy
  found in import data" on an empty collection and otherwise writes the first entry and no
  other. Each of the two raises exactly when a call made for its entry failed, and the
  error carries those failures. \<open>importPolicies\<close> writes every entry, in order, whatever
  failed before; its aggregate error carries exactly the errors that the entries' own runs
  raised, each naming its policy and carrying exactly the failures of the calls made for
  that entry, and it returns normally exactly when no call failed.
\<close>

theorem import_selectors:
  "(policyId \<notin> fst ` set (pb_policy b) \<longrightarrow>
      importPolicy rm policyId b options tr =
        (Inl (FrodoError (''Policy '' @ policyId @ '' not found in import data'') []), b, tr)) \<and>
   (distinct (map fst (pb_policy b)) \<and> map_of (pb_policy b) policyId = Some entry \<longrightarrow>
      filter is_policy_write (drop (length tr) (snd (snd (importPolicy rm policyId b options tr)))) =
        [PutPolicy (p_id (strip_policy options entry)) (strip_policy options entry)] \<and>
      snd (snd (importPolicy rm policyId b options tr)) = tr @ entry_calls options b entry \<and>
      result_leaves (fst (importPolicy rm policyId b options tr)) =
        failures nothing_dropped rm tr (entry_calls options b entry) \<and>
      (isl (fst (importPolicy rm policyId b options tr)) \<longleftrightarrow>
         failures nothing_dropped rm tr (entry_calls options b entry) \<noteq> [])) \<and>
   (pb_policy b = [] \<longrightarrow>
      importFirstPolicy rm b options tr =
        (Inl (FrodoError ''No policy found in import data'' []), b, tr)) \<and>
   (\<forall>key first rest. pb_policy b = (key, first) # rest \<longrightarrow>
      filter is_policy_write (drop (length tr) (snd (snd (importFirstPolicy rm b options tr)))) =
        [PutPolicy (p_id (strip_policy options first)) (strip_policy options first)] \<and>
      snd (snd (importFirstPolicy rm b options tr)) = tr @ entry_calls options b first \<and>
      result_leaves (fst (importFirstPolicy rm b options tr)) =
        failures nothing_dropped rm tr (entry_calls options b first) \<and>
      (isl (fst (importFirstPolicy rm b options tr)) \<longleftrightarrow>
         failures nothing_dropped rm tr (entry_calls options b first) \<noteq> [])) \<and>
   (distinct (map fst (pb_policy b)) \<longrightarrow>
      filter is_policy_write (drop (length tr) (snd (snd (importPolicies rm b options tr)))) =
        map (\<lambda>(k, e). PutPolicy (p_id (strip_policy options e)) (strip_policy options e))
          (pb_policy b) \<and>
      snd (snd (importPolicies rm b options tr)) =
        tr @ concat (map (\<lambda>(k, e). entry_calls options b e) (pb_policy b)) \<and>
      list_all2 (\<lambda>((k, e), start) (k', errors). k' = k \<and>
                   (\<forall>x\<in>set errors. names_policy rm (p_id (strip_policy options e)) x) \<and>
                   concat (map leaves errors) =
                     failures nothing_dropped rm start (entry_calls options b e))
        (zip (pb_policy b)
           (entry_starts tr (map (\<lambda>(k, e). entry_calls options b e) (pb_policy b))))
        (importPolicies_runs rm options (map fst (pb_policy b)) b tr) \<and>
      (concat (map snd (importPolicies_runs rm options (map fst (pb_policy b)) b tr)) \<noteq> [] \<longrightarrow>
         fst (importPolicies rm b options tr) =
           Inl (FrodoError (''Error importing '' @ realm rm @ '' policies'')
                  (concat (map snd (importPolicies_runs rm options (map fst (pb_policy b)) b tr))))) \<and>
      (concat (map snd (importPolicies_runs rm options (map fst (pb_policy b)) b tr)) = [] \<longrightarrow>
         \<not> isl (fst (importPolicies rm b options tr))) \<and>
      result_leaves (fst (importPolicies rm b options tr)) =
        failures nothing_dropped rm tr
          (concat (map (\<lambda>(k, e). entry_calls options b e) (pb_policy b))) \<and>
      (isl (fst (importPolicies rm b options tr)) \<longleftrightarrow>
         failures nothing_dropped rm tr
           (concat (map (\<lambda>(k, e). entry_calls options b e) (pb_policy b))) \<noteq> []))"
proof (intro conjI impI allI)
  assume "policyId \<notin> fst ` set (pb_policy b)"
  then show "importPolicy rm policyId b options tr =
        (Inl (FrodoError (''Policy '' @ policyId @ '' not found in import data'') []), b, tr)"
    by (rule importPolicy_absent)
next
  assume a: "distinct (map fst (pb_policy b)) \<and> map_of (pb_policy b) policyId = Some entry"
  then show calls: "snd (snd (importPolicy rm policyId b options tr)) =
      tr @ entry_calls options b entry"
    using importPolicy_present(2) by blast
  then show "filter is_policy_write (drop (length tr) (snd (snd (importPolicy rm policyId b options tr)))) =
        [PutPolicy (p_id (strip_policy options entry)) (strip_policy options entry)]"
    by (simp add: entry_calls_policy_writes)
  from a show "result_leaves (fst (importPolicy rm policyId b options tr)) =
        failures nothing_dropped rm tr (entry_calls options b entry)"
    using importPolicy_failures(1) by blast
  from a show "isl (fst (importPolicy rm policyId b options tr)) \<longleftrightarrow>
         failures nothing_dropped rm tr (entry_calls options b entry) \<noteq> []"
    using importPolicy_failures(2) by blast
next
  assume "pb_policy b = []"
  then show "importFirstPolicy rm b options tr =
        (Inl (FrodoError ''No policy found in import data'' []), b, tr)"
    by (simp add: importFirstPolicy_def)
next
  fix key first rest
  assume a: "pb_policy b = (key, first) # rest"
  then show calls: "snd (snd (importFirstPolicy rm b options tr)) = tr @ entry_calls options b first"
    by (rule importFirstPolicy_effect(2))
  then show "filter is_policy_write (drop (length tr) (snd (snd (importFirstPolicy rm b options tr)))) =
        [PutPolicy (p_id (strip_policy options first)) (strip_policy options first)]"
    by (simp add: entry_calls_policy_writes)
  from a show "result_leaves (fst (importFirstPolicy rm b options tr)) =
        failures nothing_dropped rm tr (entry_calls options b first)"
    by (rule importFirstPolicy_failures(1))
  from a show "isl (fst (importFirstPolicy rm b options tr)) \<longleftrightarrow>
         failures nothing_dropped rm tr (entry_calls options b first) \<noteq> []"
    by (rule importFirstPolicy_failures(2))
next
  assume d: "distinct (map fst (pb_policy b))"
  from importPolicies_effect(2) [OF d, of rm options tr]
  show "snd (snd (importPolicies rm b options tr)) =
        tr @ concat (map (\<lambda>(k, e). entry_calls options b e) (pb_policy b))" .
  from importPolicies_effect(2) [OF d, of rm options tr]
  show "filter is_policy_write (drop (length tr) (snd (snd (importPolicies rm b options tr)))) =
        map (\<lambda>(k, e). PutPolicy (p_id (strip_policy options e)) (strip_policy options e))
          (pb_policy b)"
    by (simp add: policy_writes_of_entries)
  from importPolicies_runs_named [of "[]" "pb_policy b" b rm options tr] d
  show "list_all2 (\<lambda>((k, e), start) (k', errors). k' = k \<and>
                   (\<forall>x\<in>set errors. names_policy rm (p_id (strip_policy options e)) x) \<and>
                   concat (map leaves errors) =
                     failures nothing_dropped rm start (entry_calls options b e))
        (zip (pb_policy b)
           (entry_starts tr (map (\<lambda>(k, e). entry_calls options b e) (pb_policy b))))
        (importPolicies_runs rm options (map fst (pb_policy b)) b tr)"
    by simp
  {
    assume "concat (map snd (importPolicies_runs rm options (map fst (pb_policy b)) b tr)) \<noteq> []"
    with importPolicies_effect(3) [OF d, of rm options tr]
    show "fst (importPolicies rm b options tr) =
           Inl (FrodoError (''Error importing '' @ realm rm @ '' policies'')
                  (concat (map snd (importPolicies_runs rm options (map fst (pb_policy b)) b tr))))"
      by simp
  }
  {
    assume "concat (map snd (importPolicies_runs rm options (map fst (pb_policy b)) b tr)) = []"
    with importPolicies_effect(3) [OF d, of rm options tr]
    show "\<not> isl (fst (importPolicies rm b options tr))"
      by simp
  }
  from importPolicies_effect(4) [OF d, of rm options tr]
  show "result_leaves (fst (importPolicies rm b options tr)) =
        failures nothing_dropped rm tr
          (concat (map (\<lambda>(k, e). entry_calls options b e) (pb_policy b)))" .
  from importPolicies_effect(5) [OF d, of rm options tr]
  show "isl (fst (importPolicies rm b options tr)) \<longleftrightarrow>
         failures nothing_dropped rm tr
           (concat (map (\<lambda>(k, e). entry_calls options b e) (pb_policy b))) \<noteq> []" .
qed

lemma plain_strip: "strip_policy plain_import e = e\<lparr>p_rev := None\<rparr>"
  by (simp add: strip_policy_def plain_import_def truthy_str_def)

lemma plain_flags: "pi_deps plain_import = False" "pi_prereqs plain_import = False"
  by (simp_all add: plain_import_def)

lemma p2_failing_realm: "realm p2_failing_remote = ''alpha realm''"
  by (simp add: realm_def p2_failing_remote_def sample_remote_def)

lemma sample_runs:
  "importPolicies_runs p2_failing_remote plain_import [''p1'', ''p2''] sample_policy_bundle [] =
     [(''p1'', []),
      (''p2'', [FrodoError ''Error updating alpha realm policy p2'' [Thrown server_error]])]"
  by (simp add: importPolicy_entry_def plain_strip sample_policy_bundle_def updatePolicy_def
      p2_failing_remote_def sample_remote_def sample_policy_def sample_policy2_def realm_def
      Let_def plain_flags)

lemma policyset_failing_store:
  "realm policyset_failing_remote = ''alpha realm''"
  "updateResourceType policyset_failing_remote tr uuid (Own d) = Inr d"
  "updatePolicySet policyset_failing_remote tr (Own d) =
     (if \<exists>c\<in>set tr. is_policy_write c then Inl server_error else Inr d)"
  "api_putPolicy policyset_failing_remote tr policyId policyData = Inr policyData"
  "updateScript policyset_failing_remote tr scriptId (Own sd) = Inr sd"
  by (simp_all add: policyset_failing_remote_def sample_remote_def realm_def)

lemma sample2_writes:
  "prerequisite_writes (sample_policy2\<lparr>p_rev := None\<rparr>) sample_policy_bundle =
     [UpdateResourceType (Some ''rt1'') (Own (JObj [(''uuid'', JStr ''rt1'')])),
      UpdatePolicySet (Own (JObj [(''name'', JStr ''set1'')]))]"
  "script_writes (sample_policy2\<lparr>p_rev := None\<rparr>) sample_policy_bundle = []"
  by (simp_all add: prerequisite_writes_def script_writes_def sample_policy2_def
      sample_bundle_lookups str_or_undefined_def js_strings)

lemma full_entry_calls:
  "entry_calls full_import sample_policy_bundle sample_policy =
     [UpdateResourceType (Some ''rt1'') (Own (JObj [(''uuid'', JStr ''rt1'')])),
      UpdatePolicySet (Own (JObj [(''name'', JStr ''set1'')])),
      PutPolicy ''p1'' (sample_policy\<lparr>p_rev := None\<rparr>),
      UpdateScript (Some (JStr ''62f18ede''))
        (Own \<lparr>s_id = ''62f18ede'', s_script = ScriptText ''YQ==''\<rparr>),
      UpdateScript (Some (JStr ''729ee140''))
        (Own \<lparr>s_id = ''729ee140'', s_script = ScriptText ''Yg==''\<rparr>)]"
  "entry_calls full_import sample_policy_bundle sample_policy2 =
     [UpdateResourceType (Some ''rt1'') (Own (JObj [(''uuid'', JStr ''rt1'')])),
      UpdatePolicySet (Own (JObj [(''name'', JStr ''set1'')])),
      PutPolicy ''p2'' (sample_policy2\<lparr>p_rev := None\<rparr>)]"
  unfolding entry_calls_def full_strip sample_prerequisite_writes sample_script_writes
    sample2_writes
  by (simp_all add: full_flags sample_policy_def sample_policy2_def)

lemma full_failures:
  "failures nothing_dropped policyset_failing_remote []
     (entry_calls full_import sample_policy_bundle sample_policy @
      entry_calls full_import sample_policy_bundle sample_policy2) = [server_error]"
  unfolding full_entry_calls
  by (simp add: failure_def policyset_failing_store nothing_dropped_def is_policy_write_def)

lemma full_runs:
  "importPolicies_runs policyset_failing_remote full_import [''p1'', ''p2'']
     sample_policy_bundle [] =
     [(''p1'', []),
      (''p2'', [FrodoError ''Error importing alpha realm prerequisites for policy p2''
                  [FrodoError ''Error importing alpha realm prerequisite policy set set1''
                     [Thrown server_error]]])]"
proof -
  have keys: "map_of (pb_policy sample_policy_bundle) ''p1'' = Some sample_policy"
    "map_of (pb_policy (stored full_import sample_policy_bundle ''p1'' sample_policy)) ''p2'' =
       Some sample_policy2"
    by (simp_all add: sample_policy_bundle_def stored_def)
  have lookups:
    "js_get (pb_resourcetype (stored full_import b k e)) = js_get (pb_resourcetype b)"
    "js_get (pb_policyset (stored full_import b k e)) = js_get (pb_policyset b)"
    "js_get (pb_script (stored full_import b k e)) = js_get (pb_script b)" for b k e
    by (simp_all add: stored_def)
  have first: "importPolicy_entry policyset_failing_remote full_import sample_policy_bundle
      ''p1'' [] =
      ([], Some (sample_policy\<lparr>p_rev := None\<rparr>),
       stored full_import sample_policy_bundle ''p1'' sample_policy,
       entry_calls full_import sample_policy_bundle sample_policy)"
    unfolding full_entry_calls
    by (simp add: importPolicy_entry_def keys(1) Let_def full_strip full_flags stored_def
        importPolicyPrerequisites_def importPolicyDependencies_def updatePolicy_def
        sample_bundle_lookups sample_policy_def sample_uuids str_or_undefined_def js_strings
        policyset_failing_store is_policy_write_def)
  have second: "fst (importPolicy_entry policyset_failing_remote full_import
      (stored full_import sample_policy_bundle ''p1'' sample_policy) ''p2''
      (entry_calls full_import sample_policy_bundle sample_policy)) =
      [FrodoError ''Error importing alpha realm prerequisites for policy p2''
                  [FrodoError ''Error importing alpha realm prerequisite policy set set1''
                     [Thrown server_error]]]"
    unfolding full_entry_calls
    by (simp add: importPolicy_entry_def keys(2) Let_def full_strip full_flags
        importPolicyPrerequisites_def importPolicyDependencies_def updatePolicy_def lookups
        sample_bundle_lookups sample_policy2_def str_or_undefined_def js_strings
        policyset_failing_store is_policy_write_def)
  show ?thesis
    by (simp add: first second split_beta)
qed

text \<open>
  The example of the specification: a bundle with \<open>p1\<close> and \<open>p2\<close>. By id \<open>p3\<close>: not
  found. By id \<open>p1\<close> and "first": \<open>p1\<close> alone is written. All, with the write of \<open>p2\<close>
  failing: both writes are made and the error reports the failure of \<open>p2\<close> only. All, with
  prerequisites and dependencies, from a store whose write of the policy set fails for
  \<open>p2\<close>: the error reports the failed prerequisite of \<open>p2\<close>.
\<close>

theorem import_selectors_witness:
  "importPolicy sample_remote ''p3'' sample_policy_bundle plain_import [] =
     (Inl (FrodoError ''Policy p3 not found in import data'' []), sample_policy_bundle, []) \<and>
   filter is_policy_write
       (snd (snd (importPolicy sample_remote ''p1'' sample_policy_bundle plain_import []))) =
     [PutPolicy ''p1'' (sample_policy\<lparr>p_rev := None\<rparr>)] \<and>
   filter is_policy_write
       (snd (snd (importFirstPolicy sample_remote sample_policy_bundle plain_import []))) =
     [PutPolicy ''p1'' (sample_policy\<lparr>p_rev := None\<rparr>)] \<and>
   filter is_policy_write
       (snd (snd (importPolicies p2_failing_remote sample_policy_bundle plain_import []))) =
     [PutPolicy ''p1'' (sample_policy\<lparr>p_rev := None\<rparr>),
      PutPolicy ''p2'' (sample_policy2\<lparr>p_rev := None\<rparr>)] \<and>
   fst (importPolicies p2_failing_remote sample_policy_bundle plain_import []) =
     Inl (FrodoError ''Error importing alpha realm policies''
            [FrodoError ''Error updating alpha realm policy p2'' [Thrown server_error]]) \<and>
   fst (importPolicies policyset_failing_remote sample_policy_bundle full_import []) =
     Inl (FrodoError ''Error importing alpha realm policies''
            [FrodoError ''Error importing alpha realm prerequisites for policy p2''
               [FrodoError ''Error importing alpha realm prerequisite policy set set1''
                  [Thrown server_error]]]) \<and>
   result_leaves (fst (importPolicies policyset_failing_remote sample_policy_bundle
      full_import [])) = [server_error]"
proof -
  note by_id = import_selectors
    [where b = sample_policy_bundle and rm = sample_remote and options = plain_import
       and tr = "[]" and entry = sample_policy]
  note all = import_selectors
    [where policyId = "''p1''" and b = sample_policy_bundle and rm = p2_failing_remote
       and options = plain_import and tr = "[]" and entry = sample_policy]
  note full = import_selectors
    [where policyId = "''p1''" and b = sample_policy_bundle and rm = policyset_failing_remote
       and options = full_import and tr = "[]" and entry = sample_policy]
  have a: "importPolicy sample_remote ''p3'' sample_policy_bundle plain_import [] =
     (Inl (FrodoError ''Policy p3 not found in import data'' []), sample_policy_bundle, [])"
    using by_id [of "''p3''"] sample_keys(4) by simp
  have b: "filter is_policy_write
       (snd (snd (importPolicy sample_remote ''p1'' sample_policy_bundle plain_import []))) =
     [PutPolicy ''p1'' (sample_policy\<lparr>p_rev := None\<rparr>)]"
  proof -
    from by_id [of "''p1''"] sample_keys(1,3)
    have "filter is_policy_write (drop (length ([]::call list))
        (snd (snd (importPolicy sample_remote ''p1'' sample_policy_bundle plain_import [])))) =
      [PutPolicy (p_id (strip_policy plain_import sample_policy))
         (strip_policy plain_import sample_policy)]"
      by blast
    then show ?thesis by (simp add: plain_strip sample_policy_def)
  qed
  have c: "filter is_policy_write
       (snd (snd (importFirstPolicy sample_remote sample_policy_bundle plain_import []))) =
     [PutPolicy ''p1'' (sample_policy\<lparr>p_rev := None\<rparr>)]"
  proof -
    from by_id [of "''p1''"] sample_keys(5)
    have "filter is_policy_write (drop (length ([]::call list))
        (snd (snd (importFirstPolicy sample_remote sample_policy_bundle plain_import [])))) =
      [PutPolicy (p_id (strip_policy plain_import sample_policy))
         (strip_policy plain_import sample_policy)]"
      by blast
    then show ?thesis by (simp add: plain_strip sample_policy_def)
  qed
  have d: "filter is_policy_write
       (snd (snd (importPolicies p2_failing_remote sample_policy_bundle plain_import []))) =
     [PutPolicy ''p1'' (sample_policy\<lparr>p_rev := None\<rparr>),
      PutPolicy ''p2'' (sample_policy2\<lparr>p_rev := None\<rparr>)]"
  proof -
    from all sample_keys(1)
    have "filter is_policy_write (drop (length ([]::call list))
        (snd (snd (importPolicies p2_failing_remote sample_policy_bundle plain_import [])))) =
      map (\<lambda>(k, e). PutPolicy (p_id (strip_policy plain_import e)) (strip_policy plain_import e))
        (pb_policy sample_policy_bundle)"
      by blast
    then show ?thesis
      by (simp add: sample_keys(5) plain_strip sample_policy_def sample_policy2_def)
  qed
  have e: "fst (importPolicies p2_failing_remote sample_policy_bundle plain_import []) =
     Inl (FrodoError ''Error importing alpha realm policies''
            [FrodoError ''Error updating alpha realm policy p2'' [Thrown server_error]])"
  proof -
    have runs: "concat (map snd (importPolicies_runs p2_failing_remote plain_import
        (map fst (pb_policy sample_policy_bundle)) sample_policy_bundle [])) =
        [FrodoError ''Error updating alpha realm policy p2'' [Thrown server_error]]"
      unfolding sample_keys(2) sample_runs by simp
    from all sample_keys(1)
    have "concat (map snd (importPolicies_runs p2_failing_remote plain_import
        (map fst (pb_policy sample_policy_bundle)) sample_policy_bundle [])) \<noteq> [] \<longrightarrow>
      fst (importPolicies p2_failing_remote sample_policy_bundle plain_import []) =
        Inl (FrodoError (''Error importing '' @ realm p2_failing_remote @ '' policies'')
          (concat (map snd (importPolicies_runs p2_failing_remote plain_import
             (map fst (pb_policy sample_policy_bundle)) sample_policy_bundle []))))"
      by blast
    then show ?thesis unfolding runs p2_failing_realm by simp
  qed
  have f: "fst (importPolicies policyset_failing_remote sample_policy_bundle full_import []) =
     Inl (FrodoError ''Error importing alpha realm policies''
            [FrodoError ''Error importing alpha realm prerequisites for policy p2''
               [FrodoError ''Error importing alpha realm prerequisite policy set set1''
                  [Thrown server_error]]])"
  proof -
    have runs: "concat (map snd (importPolicies_runs policyset_failing_remote full_import
        (map fst (pb_policy sample_policy_bundle)) sample_policy_bundle [])) =
        [FrodoError ''Error importing alpha realm prerequisites for policy p2''
               [FrodoError ''Error importing alpha realm prerequisite policy set set1''
                  [Thrown server_error]]]"
      unfolding sample_keys(2) full_runs by simp
    from full sample_keys(1)
    have "concat (map snd (importPolicies_runs policyset_failing_remote full_import
        (map fst (pb_policy sample_policy_bundle)) sample_policy_bundle [])) \<noteq> [] \<longrightarrow>
      fst (importPolicies policyset_failing_remote sample_policy_bundle full_import []) =
        Inl (FrodoError (''Error importing '' @ realm policyset_failing_remote @ '' policies'')
          (concat (map snd (importPolicies_runs policyset_failing_remote full_import
             (map fst (pb_policy sample_policy_bundle)) sample_policy_bundle []))))"
      by blast
    then show ?thesis unfolding runs policyset_failing_store(1) by simp
  qed
  have g: "result_leaves (fst (importPolicies policyset_failing_remote sample_policy_bundle
      full_import [])) = [server_error]"
  proof -
    from full sample_keys(1)
    have "result_leaves (fst (importPolicies policyset_failing_remote sample_policy_bundle
        full_import [])) =
      failures nothing_dropped policyset_failing_remote []
        (concat (map (\<lambda>(k, e). entry_calls full_import sample_policy_bundle e)
           (pb_policy sample_policy_bundle)))"
      by blast
    also have "\<dots> = [server_error]"
      unfolding sample_keys(5) using full_failures by simp
    finally show ?thesis .
  qed
  from a b c d e f g show ?thesis by blast
qed

text \<open>
  The claim as written has \<open>importFirstPolicy\<close> raise "no objects found" on an empty
  collection. The error that it raises reads "No policy found in import data".
\<close>

theorem import_first_message_counterexample:
  "pb_policy empty_policy_bundle = [] \<and>
   fst (importFirstPolicy sample_remote empty_policy_bundle plain_import []) =
     Inl (FrodoError ''No policy found in import data'' []) \<and>
   \<not> contains ''No policy found in import data'' ''no objects found''"
  by (simp add: importFirstPolicy_def empty_policy_bundle_def)

section \<open>The bundle after an import\<close>

lemma strip_invalid_keys: "map fst (snd (strip_invalid valid clientData)) = map fst clientData"
  by (induction valid clientData rule: strip_invalid.induct) (simp_all add: split_beta)

lemma strip_client_keys:
  "map fst (strip_client entry) = filter (\<lambda>k. k \<noteq> ''_rev'' \<and> k \<noteq> ''_provider'') (map fst entry)"
  by (induction entry) (auto simp: strip_client_def)

lemma strip_invalid_repair:
  "snd (strip_invalid (valid @ [''_id'']) clientData) =
     repaired valid (takeWhile (\<lambda>(key, v). v \<noteq> JNull) clientData) @
     dropWhile (\<lambda>(key, v). v \<noteq> JNull) clientData"
proof (induction clientData)
  case Nil
  then show ?case by (simp add: repaired_def)
next
  case (Cons kv rest)
  obtain key v where kv: "kv = (key, v)" by (cases kv)
  have step: "repaired valid (x # xs) = repaired valid [x] @ repaired valid xs" for x xs
    by (simp add: repaired_def)
  show ?case
  proof (cases "v = JNull")
    case True
    with kv show ?thesis by (simp add: repaired_def)
  next
    case False
    with Cons.IH kv show ?thesis
      by (cases v) (simp_all add: split_beta step [of _ "takeWhile _ _"], 
                    simp_all add: repaired_def strip_elements_nth)
  qed
qed

lemma updateOAuth2Client_left:
  "fst (snd (updateOAuth2Client rm clientId clientData tr)) = repair_of rm tr clientId clientData"
proof (cases "api_putOAuth2Client rm tr clientId clientData")
  case (Inr r)
  then show ?thesis by (simp add: updateOAuth2Client_def repair_of_def)
next
  case (Inl error)
  show ?thesis
  proof (cases "invalid_attribute error")
    case False
    with Inl show ?thesis
      by (auto simp: updateOAuth2Client_def repair_of_def invalid_attribute_def)
  next
    case True
    show ?thesis
    proof (cases "validAttributes error")
      case None
      with Inl True show ?thesis
        by (simp add: updateOAuth2Client_def repair_of_def invalid_attribute_def)
    next
      case (Some valid)
      with Inl True have "fst (snd (updateOAuth2Client rm clientId clientData tr)) =
          snd (strip_invalid (valid @ [''_id'']) clientData)"
        by (simp add: updateOAuth2Client_def invalid_attribute_def Let_def
            split: prod.splits bool.splits sum.splits)
      with Inl True Some show ?thesis
        by (simp add: repair_of_def strip_invalid_repair)
    qed
  qed
qed

lemma repaired_keys: "map fst (repaired valid clientData) = map fst clientData"
  by (induction clientData) (auto simp: repaired_def split: json.splits)

lemma take_drop_keys: "map fst (takeWhile P xs) @ map fst (dropWhile P xs) = map fst xs"
  by (induction xs) simp_all

lemma repair_of_keys: "map fst (repair_of rm tr clientId clientData) = map fst clientData"
proof -
  have "map fst (repaired valid (takeWhile P clientData) @ dropWhile P clientData) =
      map fst clientData" for valid P
    by (simp add: repaired_keys take_drop_keys)
  then show ?thesis
    by (simp add: repair_of_def split: sum.splits option.splits)
qed

lemma client_left_keys:
  "map fst (client_left rm options importData key entry tr) =
     filter (\<lambda>k. k \<noteq> ''_rev'' \<and> k \<noteq> ''_provider'') (map fst entry)"
  by (simp add: client_left_def repair_of_keys strip_client_keys split_beta
      split: option.splits)

lemma client_left_stripped:
  "map_of (client_left rm options importData key entry tr) ''_rev'' = None \<and>
   map_of (client_left rm options importData key entry tr) ''_provider'' = None"
proof -
  have "''_rev'' \<notin> set (map fst (client_left rm options importData key entry tr))"
    "''_provider'' \<notin> set (map fst (client_left rm options importData key entry tr))"
    unfolding client_left_keys by simp_all
  then show ?thesis by (simp add: map_of_eq_None_iff)
qed

lemma bundle_script_cong:
  "ob_script b' = ob_script b \<Longrightarrow> bundle_script b' = bundle_script b"
  by (rule ext) (simp add: bundle_script_def)

lemma import_references_cong:
  assumes "ob_script b' = ob_script b"
  shows "import_references rm b' refs tr = import_references rm b refs tr"
proof -
  from assms have same: "bundle_script b' = bundle_script b" by (rule bundle_script_cong)
  show ?thesis
    by (induction refs arbitrary: tr) (auto simp: same split: sum.splits)
qed

lemma client_left_cong:
  assumes "ob_script b' = ob_script b"
  shows "client_left rm options b' key entry tr = client_left rm options b key entry tr"
proof -
  have same: "import_references rm b' refs t = import_references rm b refs t" for refs t
    using assms by (rule import_references_cong)
  show ?thesis by (simp add: client_left_def same)
qed

lemma update_twice: "AList.update k v (AList.update k w al) = AList.update k v al"
  by (induction al) auto

lemma importOAuth2Client_entry_bundle:
  assumes "map_of (ob_application b) key = Some entry"
  shows "fst (snd (snd (importOAuth2Client_entry rm options b key tr))) =
       b\<lparr>ob_application :=
           AList.update key (client_left rm options b key entry tr) (ob_application b)\<rparr>"
proof -
  let ?cd = "strip_client entry"
  let ?b1 = "b\<lparr>ob_application := AList.update key ?cd (ob_application b)\<rparr>"
  let ?refs = "script_reference_entries (override_config ?cd)"
  have deps: "importOAuth2ClientDependencies rm ?cd ?b1 tr = import_references rm b ?refs tr"
    unfolding importOAuth2ClientDependencies_references
    by (rule import_references_cong) simp
  show ?thesis
  proof (cases "oi_deps options")
    case False
    with assms show ?thesis
      using updateOAuth2Client_left [of rm key ?cd tr]
      by (simp add: importOAuth2Client_entry_def Let_def client_left_def update_twice
          split_beta split: sum.splits)
  next
    case True
    show ?thesis
    proof (cases "fst (import_references rm b ?refs tr)")
      case (Some error)
      with assms True deps show ?thesis
        by (simp add: importOAuth2Client_entry_def Let_def client_left_def split_beta)
    next
      case None
      with assms True deps show ?thesis
        using updateOAuth2Client_left [of rm key ?cd "snd (import_references rm b ?refs tr)"]
        by (simp add: importOAuth2Client_entry_def Let_def client_left_def update_twice
            split_beta split: sum.splits)
    qed
  qed
qed

lemma strip_invalid_null:
  "fst (strip_invalid valid clientData) \<longleftrightarrow> JNull \<in> snd ` set clientData"
  by (induction valid clientData rule: strip_invalid.induct) (auto simp: split_beta)

lemma updateOAuth2Client_calls:
  "snd (snd (updateOAuth2Client rm clientId clientData tr)) =
     tr @ write_calls rm tr clientId clientData"
proof (cases "api_putOAuth2Client rm tr clientId clientData")
  case (Inr r)
  then show ?thesis by (simp add: updateOAuth2Client_def write_calls_def)
next
  case (Inl e)
  show ?thesis
  proof (cases "invalid_attribute e")
    case False
    with Inl show ?thesis
      by (auto simp: updateOAuth2Client_def write_calls_def invalid_attribute_def)
  next
    case True
    show ?thesis
    proof (cases "validAttributes e")
      case None
      with Inl True show ?thesis
        by (simp add: updateOAuth2Client_def write_calls_def invalid_attribute_def)
    next
      case (Some valid)
      show ?thesis
      proof (cases "JNull \<in> snd ` set clientData")
        case null: True
        then have "strip_invalid (valid @ [''_id'']) clientData =
            (True, snd (strip_invalid (valid @ [''_id'']) clientData))"
          using strip_invalid_null [of "valid @ [''_id'']" clientData]
          by (simp add: prod_eq_iff)
        then obtain c' where "strip_invalid (valid @ [''_id'']) clientData = (True, c')" ..
        with Inl True Some null show ?thesis
          by (simp add: updateOAuth2Client_def write_calls_def invalid_attribute_def Let_def)
      next
        case False
        from strip_invalid_repaired [OF this, of valid] Inl True Some False show ?thesis
          by (simp add: updateOAuth2Client_def write_calls_def invalid_attribute_def Let_def
              split: sum.splits)
      qed
    qed
  qed
qed

lemma client_calls_cong:
  assumes "ob_script b' = ob_script b"
  shows "client_calls rm options b' key entry tr = client_calls rm options b key entry tr"
proof -
  have same: "import_references rm b' refs t = import_references rm b refs t" for refs t
    using assms by (rule import_references_cong)
  show ?thesis by (simp add: client_calls_def same)
qed

lemma importOAuth2Client_entry_calls:
  assumes "map_of (ob_application b) key = Some entry"
  shows "snd (snd (snd (importOAuth2Client_entry rm options b key tr))) =
     tr @ client_calls rm options b key entry tr"
proof -
  let ?cd = "strip_client entry"
  let ?b1 = "b\<lparr>ob_application := AList.update key ?cd (ob_application b)\<rparr>"
  let ?refs = "script_reference_entries (override_config ?cd)"
  have deps: "importOAuth2ClientDependencies rm ?cd ?b1 tr = import_references rm b ?refs tr"
    unfolding importOAuth2ClientDependencies_references
    by (rule import_references_cong) simp
  from import_references_prefix [of rm b ?refs tr] obtain calls where
    calls: "snd (import_references rm b ?refs tr) = tr @ calls" by blast
  show ?thesis
  proof (cases "oi_deps options")
    case False
    with assms show ?thesis
      using updateOAuth2Client_calls [of rm key ?cd tr]
      by (simp add: importOAuth2Client_entry_def Let_def client_calls_def split_beta
          split: sum.splits)
  next
    case True
    show ?thesis
    proof (cases "fst (import_references rm b ?refs tr)")
      case (Some error)
      with assms True deps calls show ?thesis
        by (simp add: importOAuth2Client_entry_def Let_def client_calls_def split_beta)
    next
      case None
      with assms True deps calls show ?thesis
        using updateOAuth2Client_calls [of rm key ?cd "tr @ calls"]
        by (simp add: importOAuth2Client_entry_def Let_def client_calls_def split_beta
            split: sum.splits)
    qed
  qed
qed

lemma importOAuth2Clients_loop_bundle:
  "distinct (map fst (xs @ ys)) \<Longrightarrow> ob_application b = xs @ ys \<Longrightarrow>
   ob_script b = ob_script b0 \<Longrightarrow>
   fst (snd (snd (importOAuth2Clients_loop rm options (map fst ys) b tr))) =
     b\<lparr>ob_application :=
         xs @ map (\<lambda>((k, c), start). (k, client_left rm options b0 k c start))
                (zip ys (client_starts rm options b0 ys tr))\<rparr>"
proof (induction ys arbitrary: xs b tr)
  case Nil
  then show ?case by simp
next
  case (Cons y ys)
  obtain k c where y: "y = (k, c)" by (cases y)
  from Cons.prems y have absent: "k \<notin> fst ` set xs" by auto
  then have "map_of (xs @ (k, c) # ys) k = map_of ((k, c) # ys) k"
    by (rule map_of_append_absent)
  with Cons.prems(2) y have found: "map_of (ob_application b) k = Some c"
    by simp
  define c' where "c' = client_left rm options b0 k c tr"
  have left: "client_left rm options b k c tr = c'"
    unfolding c'_def by (rule client_left_cong) (rule Cons.prems(3))
  let ?b1 = "b\<lparr>ob_application := AList.update k c' (ob_application b)\<rparr>"
  let ?xs1 = "xs @ [(k, c')]"
  from importOAuth2Client_entry_bundle [OF found, of rm options tr]
  have b1: "fst (snd (snd (importOAuth2Client_entry rm options b k tr))) = ?b1"
    unfolding left .
  have apps1: "ob_application ?b1 = ?xs1 @ ys"
    using Cons.prems(2) y absent by (simp add: update_append_absent)
  have d1: "distinct (map fst (?xs1 @ ys))"
    using Cons.prems(1) y by simp
  have s1: "ob_script ?b1 = ob_script b0" using Cons.prems(3) by simp
  have calls: "client_calls rm options b k c tr = client_calls rm options b0 k c tr"
    by (rule client_calls_cong) (rule Cons.prems(3))
  obtain errors response where run:
    "importOAuth2Client_entry rm options b k tr =
       (errors, response, ?b1, tr @ client_calls rm options b0 k c tr)"
    using b1 importOAuth2Client_entry_calls [OF found, of rm options tr] calls
    by (cases "importOAuth2Client_entry rm options b k tr") auto
  note ih = Cons.IH [OF d1 apps1 s1, of "tr @ client_calls rm options b0 k c tr"]
  show ?case
    using ih by (simp add: y run split_beta c'_def)
qed

lemma importOAuth2Clients_bundle:
  assumes "distinct (map fst (ob_application b))"
  shows "fst (snd (importOAuth2Clients rm b options tr)) =
     b\<lparr>ob_application :=
         map (\<lambda>((k, c), start). (k, client_left rm options b k c start))
           (zip (ob_application b) (client_starts rm options b (ob_application b) tr))\<rparr>"
  using importOAuth2Clients_loop_bundle [of "[]" "ob_application b" b b rm options tr] assms
  by (simp add: importOAuth2Clients_def split_beta)

lemma importOAuth2Clients_loop_calls:
  "distinct (map fst (xs @ ys)) \<Longrightarrow> ob_application b = xs @ ys \<Longrightarrow>
   ob_script b = ob_script b0 \<Longrightarrow>
   snd (snd (snd (importOAuth2Clients_loop rm options (map fst ys) b tr))) =
     tr @ concat (map (\<lambda>((k, c), start). client_calls rm options b0 k c start)
                    (zip ys (client_starts rm options b0 ys tr)))"
proof (induction ys arbitrary: xs b tr)
  case Nil
  then show ?case by simp
next
  case (Cons y ys)
  obtain k c where y: "y = (k, c)" by (cases y)
  from Cons.prems y have absent: "k \<notin> fst ` set xs" by auto
  then have "map_of (xs @ (k, c) # ys) k = map_of ((k, c) # ys) k"
    by (rule map_of_append_absent)
  with Cons.prems(2) y have found: "map_of (ob_application b) k = Some c"
    by simp
  define c' where "c' = client_left rm options b k c tr"
  let ?b1 = "b\<lparr>ob_application := AList.update k c' (ob_application b)\<rparr>"
  let ?xs1 = "xs @ [(k, c')]"
  from importOAuth2Client_entry_bundle [OF found, of rm options tr]
  have b1: "fst (snd (snd (importOAuth2Client_entry rm options b k tr))) = ?b1"
    unfolding c'_def .
  have apps1: "ob_application ?b1 = ?xs1 @ ys"
    using Cons.prems(2) y absent by (simp add: update_append_absent)
  have d1: "distinct (map fst (?xs1 @ ys))"
    using Cons.prems(1) y by simp
  have s1: "ob_script ?b1 = ob_script b0" using Cons.prems(3) by simp
  have calls: "client_calls rm options b k c tr = client_calls rm options b0 k c tr"
    by (rule client_calls_cong) (rule Cons.prems(3))
  obtain errors response where run:
    "importOAuth2Client_entry rm options b k tr =
       (errors, response, ?b1, tr @ client_calls rm options b0 k c tr)"
    using b1 importOAuth2Client_entry_calls [OF found, of rm options tr] calls
    by (cases "importOAuth2Client_entry rm options b k tr") auto
  note ih = Cons.IH [OF d1 apps1 s1, of "tr @ client_calls rm options b0 k c tr"]
  show ?case
    using ih by (simp add: y run split_beta)
qed

lemma importOAuth2Clients_calls:
  assumes "distinct (map fst (ob_application b))"
  shows "snd (snd (importOAuth2Clients rm b options tr)) =
     tr @ concat (map (\<lambda>((k, c), start). client_calls rm options b k c start)
                    (zip (ob_application b) (client_starts rm options b (ob_application b) tr)))"
  using importOAuth2Clients_loop_calls [of "[]" "ob_application b" b b rm options tr] assms
  by (simp add: importOAuth2Clients_def split_beta)

lemma importOAuth2Client_bundle:
  assumes "distinct (map fst (ob_application b))"
    and "map_of (ob_application b) clientId = Some entry"
  shows "fst (snd (importOAuth2Client rm clientId b options tr)) =
       b\<lparr>ob_application :=
           AList.update clientId (client_left rm options b clientId entry tr) (ob_application b)\<rparr>"
proof -
  from assms(2) have "clientId \<in> set (map fst (ob_application b))"
    using map_of_present [of "ob_application b" clientId entry] by simp
  note loop = importOAuth2Client_loop_present [OF assms(1) this, of rm options b tr]
  from importOAuth2Client_entry_bundle [OF assms(2), of rm options tr]
  show ?thesis by (simp add: importOAuth2Client_def loop split_beta)
qed

lemma importFirstOAuth2Client_bundle:
  assumes "ob_application b = (key, entry) # rest"
  shows "fst (snd (importFirstOAuth2Client rm b options tr)) =
       b\<lparr>ob_application := (key, client_left rm options b key entry tr) # rest\<rparr>"
proof -
  from assms have found: "map_of (ob_application b) key = Some entry" by simp
  from importOAuth2Client_entry_bundle [OF found, of rm options tr] assms
  show ?thesis
    by (simp add: importFirstOAuth2Client_def split_beta split: option.splits)
qed

text \<open>
  Claim C6, as amended. The import body works on the object stored in the bundle, not on
  a copy, so the caller's bundle is changed when the call returns: the policy entries that
  were processed (the one matching the id, the first, or all) have lost \<open>_rev\<close> and have
  \<open>applicationName\<close> replaced by a non-empty \<open>options.policySetName\<close>; the OAuth2
  client entries that were processed (the one matching the id, the first, or all) are as
  \<open>client_left\<close> tells: they have lost \<open>_rev\<close> and \<open>_provider\<close>, and they carry the repair
  of their write exactly when the store rejected the first write of the client as invalid
  with a list of valid attributes. When every entry is imported, each starts at the trace
  that the calls made for the entries before it left (\<open>client_starts\<close>). The other
  entries, their order and the other collections of the bundle are as before; an import by
  an id that matches nothing and an import of the first entry of an empty collection leave
  the bundle as it was.
\<close>

theorem import_changes_bundle_in_place:
  "(policyId \<notin> fst ` set (pb_policy b) \<longrightarrow>
      fst (snd (importPolicy rm policyId b options tr)) = b) \<and>
   (distinct (map fst (pb_policy b)) \<and> map_of (pb_policy b) policyId = Some entry \<longrightarrow>
      fst (snd (importPolicy rm policyId b options tr)) =
        b\<lparr>pb_policy := AList.update policyId (strip_policy options entry) (pb_policy b)\<rparr>) \<and>
   (pb_policy b = [] \<longrightarrow> fst (snd (importFirstPolicy rm b options tr)) = b) \<and>
   (\<forall>key first rest. pb_policy b = (key, first) # rest \<longrightarrow>
      fst (snd (importFirstPolicy rm b options tr)) =
        b\<lparr>pb_policy := (key, strip_policy options first) # rest\<rparr>) \<and>
   (distinct (map fst (pb_policy b)) \<longrightarrow>
      fst (snd (importPolicies rm b options tr)) =
        b\<lparr>pb_policy := map (\<lambda>(k, e). (k, strip_policy options e)) (pb_policy b)\<rparr>) \<and>
   (clientId \<notin> fst ` set (ob_application cb) \<longrightarrow>
      fst (snd (importOAuth2Client rm clientId cb coptions tr)) = cb) \<and>
   (distinct (map fst (ob_application cb)) \<and> map_of (ob_application cb) clientId = Some centry \<longrightarrow>
      fst (snd (importOAuth2Client rm clientId cb coptions tr)) =
        cb\<lparr>ob_application :=
             AList.update clientId (client_left rm coptions cb clientId centry tr)
               (ob_application cb)\<rparr>) \<and>
   (ob_application cb = [] \<longrightarrow> fst (snd (importFirstOAuth2Client rm cb coptions tr)) = cb) \<and>
   (\<forall>key first rest. ob_application cb = (key, first) # rest \<longrightarrow>
      fst (snd (importFirstOAuth2Client rm cb coptions tr)) =
        cb\<lparr>ob_application := (key, client_left rm coptions cb key first tr) # rest\<rparr>) \<and>
   (distinct (map fst (ob_application cb)) \<longrightarrow>
      fst (snd (importOAuth2Clients rm cb coptions tr)) =
        cb\<lparr>ob_application :=
             map (\<lambda>((k, c), start). (k, client_left rm coptions cb k c start))
               (zip (ob_application cb) (client_starts rm coptions cb (ob_application cb) tr))\<rparr> \<and>
      snd (snd (importOAuth2Clients rm cb coptions tr)) =
        tr @ concat (map (\<lambda>((k, c), start). client_calls rm coptions cb k c start)
                       (zip (ob_application cb)
                          (client_starts rm coptions cb (ob_application cb) tr)))) \<and>
   (\<forall>key c start.
      map fst (client_left rm coptions cb key c start) =
        filter (\<lambda>k. k \<noteq> ''_rev'' \<and> k \<noteq> ''_provider'') (map fst c) \<and>
      map_of (client_left rm coptions cb key c start) ''_rev'' = None \<and>
      map_of (client_left rm coptions cb key c start) ''_provider'' = None)"
proof (intro conjI impI allI)
  assume "policyId \<notin> fst ` set (pb_policy b)"
  then show "fst (snd (importPolicy rm policyId b options tr)) = b"
    by (simp add: importPolicy_absent)
next
  assume "distinct (map fst (pb_policy b)) \<and> map_of (pb_policy b) policyId = Some entry"
  then show "fst (snd (importPolicy rm policyId b options tr)) =
        b\<lparr>pb_policy := AList.update policyId (strip_policy options entry) (pb_policy b)\<rparr>"
    using importPolicy_present(1) [of b policyId entry rm options tr] by (simp add: stored_def)
next
  assume "pb_policy b = []"
  then show "fst (snd (importFirstPolicy rm b options tr)) = b"
    by (simp add: importFirstPolicy_def)
next
  fix key first rest
  assume "pb_policy b = (key, first) # rest"
  then show "fst (snd (importFirstPolicy rm b options tr)) =
        b\<lparr>pb_policy := (key, strip_policy options first) # rest\<rparr>"
    using importFirstPolicy_effect(1) [of b key first rest rm options tr] by (simp add: stored_def)
next
  assume "distinct (map fst (pb_policy b))"
  then show "fst (snd (importPolicies rm b options tr)) =
        b\<lparr>pb_policy := map (\<lambda>(k, e). (k, strip_policy options e)) (pb_policy b)\<rparr>"
    by (rule importPolicies_effect(1))
next
  assume "clientId \<notin> fst ` set (ob_application cb)"
  then show "fst (snd (importOAuth2Client rm clientId cb coptions tr)) = cb"
    by (simp add: importOAuth2Client_def importOAuth2Client_loop_absent)
next
  assume "distinct (map fst (ob_application cb)) \<and> map_of (ob_application cb) clientId = Some centry"
  then show "fst (snd (importOAuth2Client rm clientId cb coptions tr)) =
        cb\<lparr>ob_application :=
             AList.update clientId (client_left rm coptions cb clientId centry tr)
               (ob_application cb)\<rparr>"
    using importOAuth2Client_bundle [of cb clientId centry rm coptions tr] by blast
next
  assume "ob_application cb = []"
  then show "fst (snd (importFirstOAuth2Client rm cb coptions tr)) = cb"
    by (simp add: importFirstOAuth2Client_def)
next
  fix key first rest
  assume "ob_application cb = (key, first) # rest"
  then show "fst (snd (importFirstOAuth2Client rm cb coptions tr)) =
        cb\<lparr>ob_application := (key, client_left rm coptions cb key first tr) # rest\<rparr>"
    by (rule importFirstOAuth2Client_bundle)
next
  assume "distinct (map fst (ob_application cb))"
  then show "fst (snd (importOAuth2Clients rm cb coptions tr)) =
        cb\<lparr>ob_application :=
             map (\<lambda>((k, c), start). (k, client_left rm coptions cb k c start))
               (zip (ob_application cb) (client_starts rm coptions cb (ob_application cb) tr))\<rparr>"
    by (rule importOAuth2Clients_bundle)
next
  assume "distinct (map fst (ob_application cb))"
  then show "snd (snd (importOAuth2Clients rm cb coptions tr)) =
        tr @ concat (map (\<lambda>((k, c), start). client_calls rm coptions cb k c start)
                       (zip (ob_application cb)
                          (client_starts rm coptions cb (ob_application cb) tr)))"
    by (rule importOAuth2Clients_calls)
next
  fix key c start
  show "map fst (client_left rm coptions cb key c start) =
        filter (\<lambda>k. k \<noteq> ''_rev'' \<and> k \<noteq> ''_provider'') (map fst c)"
    by (rule client_left_keys)
  from client_left_stripped [of rm coptions cb key c start]
  show "map_of (client_left rm coptions cb key c start) ''_rev'' = None"
    and "map_of (client_left rm coptions cb key c start) ''_provider'' = None"
    by simp_all
qed

lemma reparent_strip:
  "strip_policy reparent_import e = e\<lparr>p_rev := None, applicationName := Some ''set2''\<rparr>"
  by (simp add: strip_policy_def reparent_import_def truthy_str_def)

lemma stripped_sample_client:
  "strip_client sample_client =
     [(''_id'', JStr ''c1''),
      (''coreOAuth2ClientConfig'', JObj [(''status'', JStr ''Active''), (''bogus'', JStr ''x'')]),
      (''overrideOAuth2ClientConfig'',
         JObj [(''accessTokenModificationScript'', JStr ''s1''),
               (''oidcClaimsScript'', JStr ''[Empty]''),
               (''nested'', JObj [(''hiddenScript'', JStr ''s9'')]),
               (''issueRefreshToken'', JBool True)])]"
  by (simp add: strip_client_def sample_client_def)

lemma rejected_client_left:
  "client_left rejecting_remote \<lparr>oi_deps = False\<rparr> sample_client_bundle ''c1'' sample_client [] =
     [(''_id'', JStr ''c1''),
      (''coreOAuth2ClientConfig'', JObj [(''status'', JStr ''Active'')]),
      (''overrideOAuth2ClientConfig'', JObj [])]"
  unfolding client_left_def stripped_sample_client
  by (simp add: repair_of_def rejecting_remote_def invalid_attribute_def invalid_attribute_error_def
      repaired_def)

lemma accepted_client_left:
  "client_left sample_remote \<lparr>oi_deps = True\<rparr> sample_client_bundle ''c1'' sample_client [] =
     strip_client sample_client"
  unfolding client_left_def sample_override
  by (simp add: bundle_script_def sample_client_bundle_def js_keys js_strings sample_store
      repair_of_def sample_remote_def)

lemma sample_starts:
  "client_starts sample_remote \<lparr>oi_deps = True\<rparr> sample_client_bundle
     [(''c1'', sample_client)] [] = [[]]"
  by simp

text \<open>
  The sample bundle imported into the policy set \<open>set2\<close>: by id and as the first, the
  first entry is stripped and re-parented in the bundle and the second is untouched; with
  all, both are. The sample client imported into a store that rejects its first write as
  invalid: the bundle's entry has lost \<open>_rev\<close> and \<open>_provider\<close> and carries the repair.
  Imported as the first and with all into a store that accepts it: the entry has lost
  \<open>_rev\<close> and \<open>_provider\<close> only.
\<close>

theorem import_changes_bundle_in_place_witness:
  "fst (snd (importPolicy sample_remote ''p1'' sample_policy_bundle reparent_import [])) =
     sample_policy_bundle\<lparr>pb_policy :=
       [(''p1'', sample_policy\<lparr>p_rev := None, applicationName := Some ''set2''\<rparr>),
        (''p2'', sample_policy2)]\<rparr> \<and>
   fst (snd (importFirstPolicy sample_remote sample_policy_bundle reparent_import [])) =
     sample_policy_bundle\<lparr>pb_policy :=
       [(''p1'', sample_policy\<lparr>p_rev := None, applicationName := Some ''set2''\<rparr>),
        (''p2'', sample_policy2)]\<rparr> \<and>
   fst (snd (importPolicies sample_remote sample_policy_bundle reparent_import [])) =
     sample_policy_bundle\<lparr>pb_policy :=
       [(''p1'', sample_policy\<lparr>p_rev := None, applicationName := Some ''set2''\<rparr>),
        (''p2'', sample_policy2\<lparr>p_rev := None, applicationName := Some ''set2''\<rparr>)]\<rparr> \<and>
   fst (snd (importOAuth2Client rejecting_remote ''c1'' sample_client_bundle
      \<lparr>oi_deps = False\<rparr> [])) =
     sample_client_bundle\<lparr>ob_application :=
       [(''c1'', [(''_id'', JStr ''c1''),
                  (''coreOAuth2ClientConfig'', JObj [(''status'', JStr ''Active'')]),
                  (''overrideOAuth2ClientConfig'', JObj [])])]\<rparr> \<and>
   fst (snd (importFirstOAuth2Client sample_remote sample_client_bundle \<lparr>oi_deps = True\<rparr> [])) =
     sample_client_bundle\<lparr>ob_application := [(''c1'', strip_client sample_client)]\<rparr> \<and>
   fst (snd (importOAuth2Clients sample_remote sample_client_bundle \<lparr>oi_deps = True\<rparr> [])) =
     sample_client_bundle\<lparr>ob_application := [(''c1'', strip_client sample_client)]\<rparr>"
proof -
  note policies = import_changes_bundle_in_place
    [where policyId = "''p1''" and b = sample_policy_bundle and rm = sample_remote
       and options = reparent_import and tr = "[]" and entry = sample_policy
       and cb = sample_client_bundle and clientId = "''c1''" and centry = sample_client
       and coptions = "\<lparr>oi_deps = True\<rparr>"]
  note rejected = import_changes_bundle_in_place
    [where policyId = "''p1''" and b = sample_policy_bundle and rm = rejecting_remote
       and options = reparent_import and tr = "[]" and entry = sample_policy
       and cb = sample_client_bundle and clientId = "''c1''" and centry = sample_client
       and coptions = "\<lparr>oi_deps = False\<rparr>"]
  from policies sample_keys(1,3)
  have "fst (snd (importPolicy sample_remote ''p1'' sample_policy_bundle reparent_import [])) =
      sample_policy_bundle\<lparr>pb_policy := AList.update ''p1'' (strip_policy reparent_import sample_policy)
        (pb_policy sample_policy_bundle)\<rparr>"
    by blast
  then have a: "fst (snd (importPolicy sample_remote ''p1'' sample_policy_bundle reparent_import [])) =
     sample_policy_bundle\<lparr>pb_policy :=
       [(''p1'', sample_policy\<lparr>p_rev := None, applicationName := Some ''set2''\<rparr>),
        (''p2'', sample_policy2)]\<rparr>"
    unfolding reparent_strip by (simp add: sample_policy_bundle_def)
  from policies sample_keys(5)
  have "fst (snd (importFirstPolicy sample_remote sample_policy_bundle reparent_import [])) =
      sample_policy_bundle\<lparr>pb_policy :=
        (''p1'', strip_policy reparent_import sample_policy) # [(''p2'', sample_policy2)]\<rparr>"
    by blast
  then have b: "fst (snd (importFirstPolicy sample_remote sample_policy_bundle reparent_import [])) =
     sample_policy_bundle\<lparr>pb_policy :=
       [(''p1'', sample_policy\<lparr>p_rev := None, applicationName := Some ''set2''\<rparr>),
        (''p2'', sample_policy2)]\<rparr>"
    unfolding reparent_strip .
  from policies sample_keys(1)
  have "fst (snd (importPolicies sample_remote sample_policy_bundle reparent_import [])) =
        sample_policy_bundle\<lparr>pb_policy := map (\<lambda>(k, e). (k, strip_policy reparent_import e))
          (pb_policy sample_policy_bundle)\<rparr>"
    by blast
  then have c: "fst (snd (importPolicies sample_remote sample_policy_bundle reparent_import [])) =
     sample_policy_bundle\<lparr>pb_policy :=
       [(''p1'', sample_policy\<lparr>p_rev := None, applicationName := Some ''set2''\<rparr>),
        (''p2'', sample_policy2\<lparr>p_rev := None, applicationName := Some ''set2''\<rparr>)]\<rparr>"
    unfolding reparent_strip by (simp add: sample_policy_bundle_def)
  from rejected sample_client_keys(1,2)
  have "fst (snd (importOAuth2Client rejecting_remote ''c1'' sample_client_bundle
      \<lparr>oi_deps = False\<rparr> [])) =
    sample_client_bundle\<lparr>ob_application :=
      AList.update ''c1''
        (client_left rejecting_remote \<lparr>oi_deps = False\<rparr> sample_client_bundle ''c1''
           sample_client [])
        (ob_application sample_client_bundle)\<rparr>"
    by blast
  then have d: "fst (snd (importOAuth2Client rejecting_remote ''c1'' sample_client_bundle
      \<lparr>oi_deps = False\<rparr> [])) =
     sample_client_bundle\<lparr>ob_application :=
       [(''c1'', [(''_id'', JStr ''c1''),
                  (''coreOAuth2ClientConfig'', JObj [(''status'', JStr ''Active'')]),
                  (''overrideOAuth2ClientConfig'', JObj [])])]\<rparr>"
    unfolding rejected_client_left sample_client_keys(3) by simp
  from policies sample_client_keys(3)
  have "fst (snd (importFirstOAuth2Client sample_remote sample_client_bundle
      \<lparr>oi_deps = True\<rparr> [])) =
    sample_client_bundle\<lparr>ob_application :=
      (''c1'', client_left sample_remote \<lparr>oi_deps = True\<rparr> sample_client_bundle ''c1''
                 sample_client []) # []\<rparr>"
    by blast
  then have e: "fst (snd (importFirstOAuth2Client sample_remote sample_client_bundle
      \<lparr>oi_deps = True\<rparr> [])) =
     sample_client_bundle\<lparr>ob_application := [(''c1'', strip_client sample_client)]\<rparr>"
    unfolding accepted_client_left .
  from policies sample_client_keys(1)
  have "fst (snd (importOAuth2Clients sample_remote sample_client_bundle \<lparr>oi_deps = True\<rparr> [])) =
    sample_client_bundle\<lparr>ob_application :=
      map (\<lambda>((k, c), start).
             (k, client_left sample_remote \<lparr>oi_deps = True\<rparr> sample_client_bundle k c start))
        (zip (ob_application sample_client_bundle)
           (client_starts sample_remote \<lparr>oi_deps = True\<rparr> sample_client_bundle
              (ob_application sample_client_bundle) []))\<rparr>"
    by blast
  then have f: "fst (snd (importOAuth2Clients sample_remote sample_client_bundle
      \<lparr>oi_deps = True\<rparr> [])) =
     sample_client_bundle\<lparr>ob_application := [(''c1'', strip_client sample_client)]\<rparr>"
    unfolding sample_client_keys(3) by (simp add: sample_starts accepted_client_left)
  from a b c d e f show ?thesis by blast
qed

text \<open>
  The claim as written says that the caller's bundle is unchanged after an import. After
  the import of \<open>p1\<close> the bundle's entry has no \<open>_rev\<close> any more.
\<close>

theorem import_bundle_unchanged_counterexample:
  "map_of (pb_policy sample_policy_bundle) ''p1'' = Some sample_policy \<and>
   map_of (pb_policy (fst (snd (importPolicy sample_remote ''p1'' sample_policy_bundle
      plain_import [])))) ''p1'' = Some (sample_policy\<lparr>p_rev := None\<rparr>) \<and>
   fst (snd (importPolicy sample_remote ''p1'' sample_policy_bundle plain_import [])) \<noteq>
     sample_policy_bundle"
proof -
  have before: "map_of (pb_policy sample_policy_bundle) ''p1'' = Some sample_policy"
    by (simp add: sample_policy_bundle_def)
  have after: "map_of (pb_policy (fst (snd (importPolicy sample_remote ''p1'' sample_policy_bundle
      plain_import [])))) ''p1'' = Some (sample_policy\<lparr>p_rev := None\<rparr>)"
    by (simp add: importPolicy_def importPolicy_entry_def sample_policy_bundle_def plain_strip
        plain_flags updatePolicy_def sample_remote_def Let_def)
  have "sample_policy\<lparr>p_rev := None\<rparr> \<noteq> sample_policy"
    by (simp add: sample_policy_def)
  with before after show ?thesis by auto
qed

section \<open>Batch exports\<close>


















































end
